theory Spec2Isabelle
  imports Complex_Main
begin

section \<open>Python numbers\<close>

text \<open>
  The functions of \<^verbatim>\<open>pyeos80.py\<close> are written for Python 3 scalars; the module imports
  nothing. A Python float is an IEEE 754 binary64 number. It is modelled by \<open>xreal\<close>: a
  finite value, one of the two infinities, or NaN, with a single unsigned zero. The finite
  values that are floats are the results of \<open>rnd\<close>, rounding to nearest with ties to even
  over 53 significant bits, with gradual underflow below \<open>2 powi (- 1022)\<close> and overflow to
  an infinity from \<open>2 ^ 1024\<close> on. Every arithmetic operation on finite floats is the
  rounding of the exact result; there is no fused multiply-add. A Python complex is a pair
  of floats. A decimal literal of the source is the float nearest to it. An integer
  argument such as \<^verbatim>\<open>35\<close> behaves in every operation of the module as the float of the
  same value.
\<close>

datatype xreal = Fin real | PInf | NInf | NaN

datatype pynum = Flt xreal | Cpx xreal xreal

datatype error = ZeroDivisionError | OverflowError

definition inf_signed :: "real \<Rightarrow> xreal" where
  "inf_signed r = (if r = 0 then NaN else if 0 < r then PInf else NInf)"

text \<open>Rounding a real number to the nearest integer, a tie going to the even neighbour.\<close>

definition round_even :: "real \<Rightarrow> int" where
  "round_even x = (let f = \<lfloor>x\<rfloor> in
     if x - of_int f < 1 / 2 then f else if 1 / 2 < x - of_int f then f + 1
     else if even f then f else f + 1)"

text \<open>
  The binary exponent of the binade of \<open>r\<close>, not below that of the smallest normal number;
  the floats of that binade are the multiples of \<open>2 powi (fexp r - 52)\<close>.
\<close>

definition fexp :: "real \<Rightarrow> int" where
  "fexp r = max \<lfloor>log 2 \<bar>r\<bar>\<rfloor> (- 1022)"

definition rnd :: "real \<Rightarrow> xreal" where
  "rnd r = (if r = 0 then Fin 0 else
       (let q = power_int 2 (fexp r - 52);
            v = of_int (round_even (r / q)) * q
        in if 2 ^ 1024 \<le> \<bar>v\<bar> then inf_signed r else Fin v))"

fun xneg :: "xreal \<Rightarrow> xreal" where
  "xneg (Fin a) = Fin (- a)"
| "xneg PInf = NInf"
| "xneg NInf = PInf"
| "xneg NaN = NaN"

fun xadd :: "xreal \<Rightarrow> xreal \<Rightarrow> xreal" where
  "xadd (Fin a) (Fin b) = rnd (a + b)"
| "xadd (Fin a) PInf = PInf"
| "xadd (Fin a) NInf = NInf"
| "xadd PInf (Fin b) = PInf"
| "xadd PInf PInf = PInf"
| "xadd PInf NInf = NaN"
| "xadd NInf (Fin b) = NInf"
| "xadd NInf NInf = NInf"
| "xadd NInf PInf = NaN"
| "xadd NaN b = NaN"
| "xadd a NaN = NaN"

definition xsub :: "xreal \<Rightarrow> xreal \<Rightarrow> xreal" where
  "xsub a b = xadd a (xneg b)"

fun xmul :: "xreal \<Rightarrow> xreal \<Rightarrow> xreal" where
  "xmul (Fin a) (Fin b) = rnd (a * b)"
| "xmul (Fin a) PInf = inf_signed a"
| "xmul (Fin a) NInf = inf_signed (- a)"
| "xmul PInf (Fin b) = inf_signed b"
| "xmul NInf (Fin b) = inf_signed (- b)"
| "xmul PInf PInf = PInf"
| "xmul PInf NInf = NInf"
| "xmul NInf PInf = NInf"
| "xmul NInf NInf = PInf"
| "xmul NaN b = NaN"
| "xmul a NaN = NaN"

text \<open>
  The IEEE quotient, as C computes it inside the complex division. It is only ever applied
  to a divisor that is not zero: Python's float division raises before it divides by zero,
  and the complex division tests the divisor first. The zero-divisor equations are there
  for totality and read the single zero as positive.
\<close>

fun xdiv :: "xreal \<Rightarrow> xreal \<Rightarrow> xreal" where
  "xdiv (Fin a) (Fin b) = (if b = 0 then inf_signed a else rnd (a / b))"
| "xdiv (Fin a) PInf = Fin 0"
| "xdiv (Fin a) NInf = Fin 0"
| "xdiv PInf (Fin b) = (if b < 0 then NInf else PInf)"
| "xdiv NInf (Fin b) = (if b < 0 then PInf else NInf)"
| "xdiv PInf PInf = NaN"
| "xdiv PInf NInf = NaN"
| "xdiv NInf PInf = NaN"
| "xdiv NInf NInf = NaN"
| "xdiv NaN b = NaN"
| "xdiv a NaN = NaN"

text \<open>\<^verbatim>\<open>x < 0 ? -x : x\<close> and \<^verbatim>\<open>a >= b\<close> on C doubles: every comparison with NaN is false.\<close>

fun xabs :: "xreal \<Rightarrow> xreal" where
  "xabs (Fin a) = Fin \<bar>a\<bar>"
| "xabs PInf = PInf"
| "xabs NInf = PInf"
| "xabs NaN = NaN"

fun xge :: "xreal \<Rightarrow> xreal \<Rightarrow> bool" where
  "xge (Fin a) (Fin b) = (b \<le> a)"
| "xge (Fin a) PInf = False"
| "xge (Fin a) NInf = True"
| "xge PInf (Fin b) = True"
| "xge PInf PInf = True"
| "xge PInf NInf = True"
| "xge NInf (Fin b) = False"
| "xge NInf PInf = False"
| "xge NInf NInf = True"
| "xge NaN b = False"
| "xge a NaN = False"

text \<open>A float that meets a complex operand is first coerced to a complex with imaginary part 0.\<close>

fun re_part :: "pynum \<Rightarrow> xreal" where
  "re_part (Flt a) = a"
| "re_part (Cpx a b) = a"

fun im_part :: "pynum \<Rightarrow> xreal" where
  "im_part (Flt a) = Fin 0"
| "im_part (Cpx a b) = b"

fun py_add :: "pynum \<Rightarrow> pynum \<Rightarrow> pynum" where
  "py_add (Flt a) (Flt b) = Flt (xadd a b)"
| "py_add x y = Cpx (xadd (re_part x) (re_part y)) (xadd (im_part x) (im_part y))"

fun py_sub :: "pynum \<Rightarrow> pynum \<Rightarrow> pynum" where
  "py_sub (Flt a) (Flt b) = Flt (xsub a b)"
| "py_sub x y = Cpx (xsub (re_part x) (re_part y)) (xsub (im_part x) (im_part y))"

fun py_mul :: "pynum \<Rightarrow> pynum \<Rightarrow> pynum" where
  "py_mul (Flt a) (Flt b) = Flt (xmul a b)"
| "py_mul x y =
     Cpx (xsub (xmul (re_part x) (re_part y)) (xmul (im_part x) (im_part y)))
         (xadd (xmul (re_part x) (im_part y)) (xmul (im_part x) (re_part y)))"

text \<open>
  The complex quotient of CPython: the numerator and the divisor are scaled by the
  component of the divisor that is larger in magnitude; a divisor with both components zero
  is the error \<^verbatim>\<open>complex division by zero\<close>; a divisor with a NaN component fails
  both comparisons and gives NaN in both components.
\<close>

definition c_quot :: "xreal \<Rightarrow> xreal \<Rightarrow> xreal \<Rightarrow> xreal \<Rightarrow> error + pynum" where
  "c_quot ar ai br bi =
     (if xge (xabs br) (xabs bi) then
        (if xabs br = Fin 0 then Inl ZeroDivisionError
         else
           (let ratio = xdiv bi br;
                denom = xadd br (xmul bi ratio)
            in Inr (Cpx (xdiv (xadd ar (xmul ai ratio)) denom)
                        (xdiv (xsub ai (xmul ar ratio)) denom))))
      else if xge (xabs bi) (xabs br) then
        (let ratio = xdiv br bi;
             denom = xadd (xmul br ratio) bi
         in Inr (Cpx (xdiv (xadd (xmul ar ratio) ai) denom)
                     (xdiv (xsub (xmul ai ratio) ar) denom)))
      else Inr (Cpx NaN NaN))"

text \<open>Python's \<^verbatim>\<open>/\<close>: a zero divisor raises \<^verbatim>\<open>ZeroDivisionError\<close>, for floats and for complex numbers.\<close>

fun py_div :: "pynum \<Rightarrow> pynum \<Rightarrow> error + pynum" where
  "py_div (Flt a) (Flt b) = (if b = Fin 0 then Inl ZeroDivisionError else Inr (Flt (xdiv a b)))"
| "py_div x y = c_quot (re_part x) (im_part x) (re_part y) (im_part y)"

text \<open>
  The functions of the C library that \<^verbatim>\<open>**\<close> calls. They are taken to be correctly
  rounded: the float nearest to the exact value.
\<close>

fun xcos :: "xreal \<Rightarrow> xreal" where
  "xcos (Fin a) = rnd (cos a)"
| "xcos a = NaN"

fun xsin :: "xreal \<Rightarrow> xreal" where
  "xsin (Fin a) = rnd (sin a)"
| "xsin a = NaN"

definition is_inf :: "xreal \<Rightarrow> bool" where
  "is_inf a = (a = PInf \<or> a = NInf)"

text \<open>
  The complex power \<^verbatim>\<open>_Py_c_pow\<close> for a base \<open>x + 0i\<close> with \<open>x\<close> negative and an exponent
  \<open>w + 0i\<close>: the length \<^verbatim>\<open>pow(hypot(x, 0), w)\<close>, the angle \<^verbatim>\<open>atan2(0, x) * w\<close> with
  \<^verbatim>\<open>atan2(0, x)\<close> the float nearest to \<open>\<pi>\<close>, and the components \<^verbatim>\<open>len*cos(phase)\<close>,
  \<^verbatim>\<open>len*sin(phase)\<close>. An infinite component is the error \<^verbatim>\<open>OverflowError\<close>.
\<close>

definition c_pow :: "real \<Rightarrow> real \<Rightarrow> error + pynum" where
  "c_pow x w =
     (let vabs = \<bar>x\<bar>;
          len = rnd (vabs powr w);
          atn = rnd pi;
          phase = xmul atn (Fin w);
          re = xmul len (xcos phase);
          im = xmul len (xsin phase)
      in if is_inf re \<or> is_inf im then Inl OverflowError else Inr (Cpx re im))"

text \<open>
  \<^verbatim>\<open>x ** w\<close> for a float \<open>x\<close> and a float literal \<open>w\<close> that is positive and not an
  integer; the source has \<^verbatim>\<open>spsu**(1.5)\<close> and \<^verbatim>\<open>spsu**.5\<close> and no other power. These are
  the branches of \<^verbatim>\<open>float_pow\<close>: NaN stays NaN, both infinities give \<open>+inf\<close>, zero gives
  zero, a negative finite base is handed to the complex power, and a positive finite base
  to \<^verbatim>\<open>pow\<close> of the C library, whose overflow is the error \<^verbatim>\<open>OverflowError\<close>.
\<close>

fun py_pow :: "xreal \<Rightarrow> real \<Rightarrow> error + pynum" where
  "py_pow (Fin x) w =
     (if x = 0 then Inr (Flt (Fin 0))
      else if x < 0 then c_pow x w
      else (case rnd (x powr w) of
              Fin v \<Rightarrow> Inr (Flt (Fin v))
            | _ \<Rightarrow> Inl OverflowError))"
| "py_pow PInf w = Inr (Flt PInf)"
| "py_pow NInf w = Inr (Flt PInf)"
| "py_pow NaN w = Inr (Flt NaN)"

text \<open>An exception ends the evaluation: the rest runs only on a returned value.\<close>

definition on_value :: "error + 'a \<Rightarrow> ('a \<Rightarrow> error + 'b) \<Rightarrow> error + 'b" where
  "on_value m f = (case m of Inl e \<Rightarrow> Inl e | Inr v \<Rightarrow> f v)"

section \<open>Constants\<close>

text \<open>A float literal of the source, and a table of them.\<close>

definition flt :: "real \<Rightarrow> pynum" where
  "flt c = Flt (rnd c)"

definition tbl :: "real list \<Rightarrow> pynum list" where
  "tbl cs = map flt cs"

definition T68SCL :: xreal where
  "T68SCL = rnd 1.00024"

definition DB2KPA :: xreal where
  "DB2KPA = rnd 0.1"

definition SECKPURE0 :: "real list" where
  "SECKPURE0 = [19652.21, 148.4206, - 2.327105, 0.01360477, - 0.00005155288]"

definition SECKPURE1 :: "real list" where
  "SECKPURE1 = [3.239908, 0.00143713, 0.000116092, - 0.000000577905]"

definition SECKPURE2 :: "real list" where
  "SECKPURE2 = [0.0000850935, - 0.00000612293, 0.000000052787]"

definition SECK02 :: "real list" where
  "SECK02 = [54.6746, - 0.603459, 0.0109987, - 0.000061670]"

definition SECK03 :: "real list" where
  "SECK03 = [0.07944, 0.016483, - 0.00053009]"

definition SECK12 :: "real list" where
  "SECK12 = [0.0022838, - 0.000010981, - 0.0000016078]"

definition SECK13 :: real where
  "SECK13 = 0.000191075"

definition SECK2 :: "real list" where
  "SECK2 = [- 0.00000099348, 0.000000020816, 0.00000000091697]"

definition SMOW :: "real list" where
  "SMOW = [999.842594, 0.06793952, - 0.009095290, 0.0001001685, - 0.000001120083, 0.000000006536332]"

definition DENS02 :: "real list" where
  "DENS02 = [0.824493, - 0.0040899, 0.000076438, - 0.00000082467, 0.0000000053875]"

definition DENS03 :: "real list" where
  "DENS03 = [- 0.00572466, 0.00010227, - 0.0000016546]"

definition DENS04 :: real where
  "DENS04 = 0.00048314"

section \<open>The functions of the source\<close>

text \<open>
  \<^verbatim>\<open>poly1d\<close>: the accumulator starts at \<^verbatim>\<open>0.\<close> and the loop runs over
  \<^verbatim>\<open>coefs[-1::-1]\<close>, the coefficients from the last to the first.
\<close>

definition poly1d :: "pynum \<Rightarrow> pynum list \<Rightarrow> pynum" where
  "poly1d x coefs = foldl (\<lambda>y coef. py_add (py_mul y x) coef) (flt 0) (rev coefs)"

definition calseckpure0 :: "xreal \<Rightarrow> pynum" where
  "calseckpure0 t68 = (let kw = poly1d (Flt t68) (tbl SECKPURE0) in kw)"

definition calseckpure1 :: "xreal \<Rightarrow> pynum" where
  "calseckpure1 t68 = (let aw = poly1d (Flt t68) (tbl SECKPURE1) in aw)"

definition calseckpure2 :: "xreal \<Rightarrow> pynum" where
  "calseckpure2 t68 = (let bw = poly1d (Flt t68) (tbl SECKPURE2) in bw)"

text \<open>
  In \<^verbatim>\<open>calseck0\<close>, \<^verbatim>\<open>calseck1\<close> and \<^verbatim>\<open>caldens0\<close> the power is the only operation that can
  raise; the sums and products around it cannot, so the place of the power in the order of
  evaluation does not show in the result.
\<close>

definition calseck0 :: "xreal \<Rightarrow> xreal \<Rightarrow> error + pynum" where
  "calseck0 spsu t68 =
     (let k0 = calseckpure0 t68;
          k2 = poly1d (Flt t68) (tbl SECK02);
          k3 = poly1d (Flt t68) (tbl SECK03)
      in on_value (py_pow spsu 1.5) (\<lambda>s15.
           let k = py_add (py_add k0 (py_mul k2 (Flt spsu))) (py_mul k3 s15)
           in Inr k))"

definition calseck1 :: "xreal \<Rightarrow> xreal \<Rightarrow> error + pynum" where
  "calseck1 spsu t68 =
     (let a0 = calseckpure1 t68;
          a2 = poly1d (Flt t68) (tbl SECK12)
      in on_value (py_pow spsu 1.5) (\<lambda>s15.
           let a = py_add (py_add a0 (py_mul a2 (Flt spsu))) (py_mul (flt SECK13) s15)
           in Inr a))"

definition calseck2 :: "xreal \<Rightarrow> xreal \<Rightarrow> pynum" where
  "calseck2 spsu t68 =
     (let b0 = calseckpure2 t68;
          b2 = poly1d (Flt t68) (tbl SECK2);
          b = py_add b0 (py_mul b2 (Flt spsu))
      in b)"

definition calseck :: "xreal \<Rightarrow> xreal \<Rightarrow> xreal \<Rightarrow> error + pynum" where
  "calseck spsu t90 pdb =
     (let t68 = xmul t90 T68SCL;
          pkpa = xmul pdb DB2KPA
      in on_value (calseck0 spsu t68) (\<lambda>k0.
         on_value (calseck1 spsu t68) (\<lambda>a.
           let b = calseck2 spsu t68;
               coefs = [k0, a, b];
               k = poly1d (Flt pkpa) coefs
           in Inr k)))"

definition caldsmow :: "xreal \<Rightarrow> pynum" where
  "caldsmow t90 =
     (let t68 = xmul t90 T68SCL;
          dsmow = poly1d (Flt t68) (tbl SMOW)
      in dsmow)"

definition caldens0 :: "xreal \<Rightarrow> xreal \<Rightarrow> error + pynum" where
  "caldens0 spsu t90 =
     on_value (py_pow spsu 0.5) (\<lambda>sqrts.
       let t68 = xmul t90 T68SCL;
           dsmow = caldsmow t90;
           b = poly1d (Flt t68) (tbl DENS02);
           c = poly1d (Flt t68) (tbl DENS03);
           coefs = [dsmow, flt 0, b, c, flt DENS04];
           dens0 = poly1d sqrts coefs
       in Inr dens0)"

text \<open>
  \<^verbatim>\<open>caldens\<close>: the two calls, then the two divisions of \<^verbatim>\<open>dens0 / (1 - pkpa/seck)\<close>, the
  inner quotient first. Each of the four can raise.
\<close>

definition caldens :: "xreal \<Rightarrow> xreal \<Rightarrow> xreal \<Rightarrow> error + pynum" where
  "caldens spsu t90 pdb =
     on_value (caldens0 spsu t90) (\<lambda>dens0.
     on_value (calseck spsu t90 pdb) (\<lambda>seck.
       let pkpa = xmul pdb DB2KPA
       in on_value (py_div (Flt pkpa) seck) (\<lambda>q.
            py_div dens0 (py_sub (flt 1) q))))"

section \<open>Auxiliary notions for the statements\<close>

text \<open>
  A value of type \<open>xreal\<close> is a float when rounding leaves it unchanged; the infinities and
  NaN are floats. Every result of an operation is one.
\<close>

definition is_float :: "xreal \<Rightarrow> bool" where
  "is_float a = (case a of Fin v \<Rightarrow> rnd v = Fin v | _ \<Rightarrow> True)"

text \<open>Horner's rule and the power sum on real numbers, and the power sum of the absolute values.\<close>

definition horner :: "real \<Rightarrow> real list \<Rightarrow> real" where
  "horner x cs = foldr (\<lambda>c y. y * x + c) cs 0"

definition power_sum :: "real \<Rightarrow> real list \<Rightarrow> real" where
  "power_sum x cs = (\<Sum>i<length cs. cs ! i * x ^ i)"

definition habs :: "real \<Rightarrow> real list \<Rightarrow> real" where
  "habs x cs = (\<Sum>i<length cs. \<bar>cs ! i\<bar> * \<bar>x\<bar> ^ i)"

text \<open>
  The largest magnitude that Horner's rule can reach in floats: the recurrence on the
  absolute values, every product and every sum enlarged by the largest rounding error, a
  relative \<open>1 / 2 ^ 53\<close> and, for a subnormal result, an absolute \<open>1 / 2 ^ 1075\<close>.
\<close>

fun hinfl :: "real \<Rightarrow> real list \<Rightarrow> real" where
  "hinfl x [] = 0"
| "hinfl x (c # cs) =
     (hinfl x cs * \<bar>x\<bar> * (1 + 1 / 2 ^ 53) + 1 / 2 ^ 1075 + \<bar>c\<bar>) * (1 + 1 / 2 ^ 53) + 1 / 2 ^ 1075"

text \<open>A finite float of magnitude at most \<open>2 ^ j\<close>; a number whose components are such floats.\<close>

definition bnd :: "nat \<Rightarrow> xreal \<Rightarrow> bool" where
  "bnd j a = (case a of Fin v \<Rightarrow> \<bar>v\<bar> \<le> 2 ^ j | _ \<Rightarrow> False)"

definition pbnd :: "nat \<Rightarrow> pynum \<Rightarrow> bool" where
  "pbnd j z = (bnd j (re_part z) \<and> bnd j (im_part z))"

fun is_cpx :: "pynum \<Rightarrow> bool" where
  "is_cpx (Cpx a b) = True"
| "is_cpx (Flt a) = False"

text \<open>A float that is \<open>+inf\<close> or at least \<open>2 ^ j\<close>.\<close>

definition big :: "nat \<Rightarrow> xreal \<Rightarrow> bool" where
  "big j a = (case a of Fin v \<Rightarrow> 2 ^ j \<le> v | PInf \<Rightarrow> True | _ \<Rightarrow> False)"

text \<open>A call returns (does not raise) a finite float within \<open>tol\<close> of \<open>v\<close>.\<close>

definition returns_about :: "error + pynum \<Rightarrow> real \<Rightarrow> real \<Rightarrow> bool" where
  "returns_about r v tol =
     (case r of
        Inr (Flt (Fin d)) \<Rightarrow> \<bar>d - v\<bar> \<le> tol
      | _ \<Rightarrow> False)"

text \<open>A call returns a complex number with finite components.\<close>

definition returns_finite_complex :: "error + pynum \<Rightarrow> bool" where
  "returns_finite_complex r =
     (case r of
        Inr (Cpx (Fin a) (Fin b)) \<Rightarrow> True
      | _ \<Rightarrow> False)"

text \<open>A result is NaN when it is the float NaN or a complex number with a NaN component.\<close>

definition is_nan :: "pynum \<Rightarrow> bool" where
  "is_nan v = (re_part v = NaN \<or> im_part v = NaN)"

section \<open>Rounding\<close>

lemma floor_bounds: "of_int \<lfloor>x\<rfloor> \<le> (x::real)" "x < of_int \<lfloor>x\<rfloor> + 1"
  by linarith+

lemma round_even_bound: "\<bar>of_int (round_even x) - x\<bar> \<le> 1 / 2"
proof -
  have "of_int \<lfloor>x\<rfloor> \<le> x" "x < of_int \<lfloor>x\<rfloor> + 1" by (rule floor_bounds)+
  then show ?thesis
    unfolding round_even_def Let_def by (simp add: abs_le_iff)
qed

lemma round_even_unique:
  assumes "\<bar>x - of_int n\<bar> < 1 / 2 \<or> (\<bar>x - of_int n\<bar> = 1 / 2 \<and> even n)"
  shows "round_even x = n"
proof -
  from assms have close: "\<bar>x - of_int n\<bar> \<le> 1 / 2" by auto
  show ?thesis
  proof (cases "of_int n \<le> x")
    case True
    with close have "x < of_int n + 1" by (simp add: abs_le_iff)
    with True have fl: "\<lfloor>x\<rfloor> = n" by (intro floor_unique)
    from True have "\<bar>x - of_int n\<bar> = x - of_int n" by simp
    with assms fl show ?thesis
      unfolding round_even_def Let_def by auto
  next
    case False
    then have lt: "x < of_int n" by simp
    with close have "of_int (n - 1) \<le> x" by (simp add: abs_le_iff)
    moreover from lt have "x < of_int (n - 1) + 1" by simp
    ultimately have fl: "\<lfloor>x\<rfloor> = n - 1" by (intro floor_unique)
    from lt have a: "\<bar>x - of_int n\<bar> = of_int n - x" by simp
    show ?thesis
    proof (cases "\<bar>x - of_int n\<bar> < 1 / 2")
      case True
      with a have "1 / 2 < x - of_int (n - 1)" by simp
      then show ?thesis unfolding round_even_def Let_def fl by simp
    next
      case False
      with assms have e: "\<bar>x - of_int n\<bar> = 1 / 2" "even n" by auto
      with a have "x - of_int (n - 1) = 1 / 2" by simp
      moreover from e(2) have "odd (n - 1)" by simp
      ultimately show ?thesis unfolding round_even_def Let_def fl by simp
    qed
  qed
qed

lemma round_even_of_int [simp]: "round_even (of_int n) = n"
  by (rule round_even_unique) simp

lemma round_even_minus: "round_even (- x) = - round_even x"
proof (rule round_even_unique)
  let ?n = "round_even x"
  have b: "\<bar>of_int ?n - x\<bar> \<le> 1 / 2" by (rule round_even_bound)
  show "\<bar>- x - of_int (- ?n)\<bar> < 1 / 2 \<or> (\<bar>- x - of_int (- ?n)\<bar> = 1 / 2 \<and> even (- ?n))"
  proof (cases "\<bar>of_int ?n - x\<bar> < 1 / 2")
    case True
    then show ?thesis by (simp add: abs_minus_commute)
  next
    case False
    with b have eq: "\<bar>of_int ?n - x\<bar> = 1 / 2" by simp
    have "even ?n"
    proof (rule ccontr)
      assume odd: "odd ?n"
      from eq have "x = of_int ?n - 1 / 2 \<or> x = of_int ?n + 1 / 2" by (auto simp: abs_if split: if_splits)
      then show False
      proof
        assume x: "x = of_int ?n - 1 / 2"
        then have "\<bar>x - of_int (?n - 1)\<bar> = 1 / 2 \<and> even (?n - 1)" using odd by simp
        then have "round_even x = ?n - 1" by (intro round_even_unique) simp
        then show False by simp
      next
        assume x: "x = of_int ?n + 1 / 2"
        then have "\<bar>x - of_int (?n + 1)\<bar> = 1 / 2 \<and> even (?n + 1)" using odd by simp
        then have "round_even x = ?n + 1" by (intro round_even_unique) simp
        then show False by simp
      qed
    qed
    with eq show ?thesis by (simp add: abs_minus_commute)
  qed
qed


lemma two_powi_pos [simp]: "0 < power_int (2::real) e"
  by (simp add: power_int_def)

lemma two_powi_powr: "power_int (2::real) e = 2 powr of_int e"
  by (simp add: powr_real_of_int')

lemma two_powi_add1: "power_int (2::real) (e + 1) = 2 * power_int 2 e"
  by (simp add: power_int_add)

lemma two_powi_mono: "a \<le> b \<Longrightarrow> power_int (2::real) a \<le> power_int 2 b"
  by (simp add: two_powi_powr)

lemma binade:
  assumes "r \<noteq> 0"
  shows "power_int 2 \<lfloor>log 2 \<bar>r\<bar>\<rfloor> \<le> \<bar>r\<bar>" "\<bar>r\<bar> < power_int 2 (\<lfloor>log 2 \<bar>r\<bar>\<rfloor> + 1)"
proof -
  from assms have "0 < \<bar>r\<bar>" by simp
  then have "2 powr of_int \<lfloor>log 2 \<bar>r\<bar>\<rfloor> \<le> \<bar>r\<bar> \<and> \<bar>r\<bar> < 2 powr (of_int \<lfloor>log 2 \<bar>r\<bar>\<rfloor> + 1)"
    using floor_log_eq_powr_iff [of "\<bar>r\<bar>" 2 "\<lfloor>log 2 \<bar>r\<bar>\<rfloor>"] by simp
  then show "power_int 2 \<lfloor>log 2 \<bar>r\<bar>\<rfloor> \<le> \<bar>r\<bar>" "\<bar>r\<bar> < power_int 2 (\<lfloor>log 2 \<bar>r\<bar>\<rfloor> + 1)"
    by (simp_all add: two_powi_powr)
qed

lemma floor_log_eq:
  assumes "power_int 2 e \<le> \<bar>r\<bar>" "\<bar>r\<bar> < power_int 2 (e + 1)"
  shows "\<lfloor>log 2 \<bar>r\<bar>\<rfloor> = e"
proof -
  have "0 < power_int (2::real) e" by simp
  with assms(1) have "0 < \<bar>r\<bar>" by linarith
  then show ?thesis
    using floor_log_eq_powr_iff [of "\<bar>r\<bar>" 2 e] assms by (simp add: two_powi_powr)
qed

lemma fexp_normal:
  assumes "power_int 2 e \<le> \<bar>r\<bar>" "\<bar>r\<bar> < power_int 2 (e + 1)" "- 1022 \<le> e"
  shows "fexp r = e"
  using floor_log_eq [OF assms(1,2)] assms(3) by (simp add: fexp_def)

lemma fexp_subnormal:
  assumes "r \<noteq> 0" "\<bar>r\<bar> < power_int 2 (- 1022)"
  shows "fexp r = - 1022"
proof -
  have "\<lfloor>log 2 \<bar>r\<bar>\<rfloor> < - 1022"
  proof (rule ccontr)
    assume "\<not> \<lfloor>log 2 \<bar>r\<bar>\<rfloor> < - 1022"
    then have "power_int (2::real) (- 1022) \<le> power_int 2 \<lfloor>log 2 \<bar>r\<bar>\<rfloor>"
      by (intro two_powi_mono) simp
    with binade(1) [OF assms(1)] assms(2) show False by linarith
  qed
  then show ?thesis by (simp add: fexp_def)
qed

lemma quantum_ratio: "power_int (2::real) e / power_int 2 (e - 52) = 2 ^ 52"
proof -
  have "power_int (2::real) ((e - 52) + 52) = power_int 2 (e - 52) * power_int 2 52"
    by (rule power_int_add) simp
  then show ?thesis by simp
qed

text \<open>the shape of a rounding\<close>

lemma rnd_shape:
  assumes "r \<noteq> 0"
  obtains e n where "- 1022 \<le> e" "fexp r = e" "n = round_even (r / power_int 2 (e - 52))"
    "\<bar>r\<bar> < power_int 2 (e + 1)"
    "\<bar>real_of_int n\<bar> * power_int 2 (e - 52) \<le> power_int 2 (e + 1)"
    "\<bar>real_of_int n * power_int 2 (e - 52) - r\<bar> \<le> power_int 2 (e - 52) / 2"
    "power_int 2 e \<le> \<bar>r\<bar> \<longrightarrow> power_int 2 e \<le> \<bar>real_of_int n\<bar> * power_int 2 (e - 52)"
    "\<bar>r\<bar> < power_int 2 e \<longrightarrow> e = - 1022"
proof -
  define e where "e = fexp r"
  define q where "q = power_int (2::real) (e - 52)"
  define n where "n = round_even (r / q)"
  have q: "0 < q" by (simp add: q_def)
  have e: "- 1022 \<le> e" by (simp add: e_def fexp_def)
  have lt: "\<bar>r\<bar> < power_int 2 (e + 1)"
  proof -
    have "\<lfloor>log 2 \<bar>r\<bar>\<rfloor> + 1 \<le> e + 1" by (simp add: e_def fexp_def)
    then have "power_int (2::real) (\<lfloor>log 2 \<bar>r\<bar>\<rfloor> + 1) \<le> power_int 2 (e + 1)" by (rule two_powi_mono)
    with binade(2) [OF assms] show ?thesis by linarith
  qed
  have nb: "\<bar>of_int n - r / q\<bar> \<le> 1 / 2" unfolding n_def by (rule round_even_bound)
  have "\<bar>of_int n * q - r\<bar> = \<bar>of_int n - r / q\<bar> * q"
    using q by (simp add: abs_mult [symmetric] field_simps del: abs_mult)
  also have "\<dots> \<le> 1 / 2 * q" using nb q by (intro mult_right_mono) simp_all
  finally have err: "\<bar>of_int n * q - r\<bar> \<le> q / 2" by simp
  have scaled: "\<bar>r / q\<bar> < 2 ^ 53"
  proof -
    have "power_int (2::real) (e + 1) / q = 2 ^ 53"
      using quantum_ratio [of "e + 1"] by (simp add: q_def two_powi_add1 power_int_diff)
    moreover have "\<bar>r / q\<bar> < power_int 2 (e + 1) / q"
      using lt q by (simp add: divide_strict_right_mono)
    ultimately show ?thesis by simp
  qed
  have "\<bar>of_int n\<bar> \<le> \<bar>r / q\<bar> + 1 / 2" using nb by linarith
  with scaled have "\<bar>real_of_int n\<bar> < 2 ^ 53 + 1 / 2" by linarith
  then have "real_of_int \<bar>n\<bar> < real_of_int (2 ^ 53 + 1)" by simp
  then have "\<bar>n\<bar> < 2 ^ 53 + 1" by (simp only: of_int_less_iff)
  then have n53: "\<bar>n\<bar> \<le> 2 ^ 53" by simp
  have up: "\<bar>of_int n\<bar> * q \<le> power_int 2 (e + 1)"
  proof -
    have "\<bar>real_of_int n\<bar> \<le> 2 ^ 53" using n53 by (metis of_int_abs of_int_le_iff of_int_numeral of_int_power)
    then have "\<bar>of_int n\<bar> * q \<le> 2 ^ 53 * q" using q by (intro mult_right_mono) simp_all
    also have "2 ^ 53 * q = power_int 2 (e + 1)"
      using quantum_ratio [of "e + 1"] q by (simp add: q_def two_powi_add1 power_int_diff field_simps)
    finally show ?thesis .
  qed
  have low: "power_int 2 e \<le> \<bar>of_int n\<bar> * q" if ge: "power_int 2 e \<le> \<bar>r\<bar>"
  proof -
    have "2 ^ 52 = power_int (2::real) e / q" using quantum_ratio [of e] by (simp add: q_def)
    also have "\<dots> \<le> \<bar>r\<bar> / q" using ge q by (simp add: divide_right_mono)
    finally have "2 ^ 52 \<le> \<bar>r / q\<bar>" using q by simp
    moreover have "\<bar>r / q\<bar> \<le> \<bar>of_int n\<bar> + 1 / 2" using nb by linarith
    ultimately have "2 ^ 52 - 1 / 2 \<le> \<bar>real_of_int n\<bar>" by linarith
    then have "real_of_int (2 ^ 52 - 1) < real_of_int \<bar>n\<bar>" by simp
    then have "2 ^ 52 - 1 < \<bar>n\<bar>" by (simp only: of_int_less_iff)
    then have "2 ^ 52 \<le> \<bar>n\<bar>" by simp
    then have "2 ^ 52 \<le> \<bar>real_of_int n\<bar>" by (metis of_int_abs of_int_le_iff of_int_numeral of_int_power)
    then have "2 ^ 52 * q \<le> \<bar>of_int n\<bar> * q" using q by (intro mult_right_mono) simp_all
    moreover have "2 ^ 52 * q = power_int 2 e"
      using quantum_ratio [of e] q by (simp add: q_def field_simps)
    ultimately show ?thesis by simp
  qed
  have sub: "e = - 1022" if "\<bar>r\<bar> < power_int 2 e"
  proof (rule ccontr)
    assume "e \<noteq> - 1022"
    with e have "e = \<lfloor>log 2 \<bar>r\<bar>\<rfloor>" by (simp add: e_def fexp_def max_def split: if_splits)
    with binade(1) [OF assms] that show False by simp
  qed
  show thesis
    by (rule that [of e n]) (use e lt up err low sub in \<open>simp_all add: e_def [symmetric] q_def [symmetric] n_def\<close>)
qed


lemma rnd_zero [simp]: "rnd 0 = Fin 0"
  by (simp add: rnd_def)

lemma rnd_not_NaN [simp]: "rnd r \<noteq> NaN"
  by (simp add: rnd_def Let_def inf_signed_def)

lemma two_powi_nat: "power_int (2::real) (int j) = 2 ^ j"
  by simp

lemma two_powi_neg_nat: "power_int (2::real) (- int k) = 1 / 2 ^ k"
  by (simp add: power_int_minus_divide)

lemma two_powi_diff_nat: "power_int (2::real) (int a - int b) = 2 ^ a / 2 ^ b"
  by (simp add: power_int_diff)

lemma rnd_cert:
  fixes k :: nat and n :: int
  assumes lo: "2 ^ 52 \<le> \<bar>r\<bar> * 2 ^ k" and hi: "\<bar>r\<bar> * 2 ^ k < 2 ^ 53" and k: "k \<le> 1074"
    and n: "\<bar>r * 2 ^ k - of_int n\<bar> < 1 / 2 \<or> (\<bar>r * 2 ^ k - of_int n\<bar> = 1 / 2 \<and> even n)"
  shows "rnd r = Fin (of_int n / 2 ^ k)"
proof -
  define e where "e = 52 - int k"
  have r0: "r \<noteq> 0" using lo by auto
  have pe: "power_int (2::real) e = 2 ^ 52 / 2 ^ k"
    unfolding e_def using two_powi_diff_nat [of 52 k] by simp
  have pe1: "power_int (2::real) (e + 1) = 2 ^ 53 / 2 ^ k"
    unfolding two_powi_add1 pe by simp
  have "power_int 2 e \<le> \<bar>r\<bar>" unfolding pe using lo by (simp add: field_simps)
  moreover have "\<bar>r\<bar> < power_int 2 (e + 1)" unfolding pe1 using hi by (simp add: field_simps)
  moreover have "- 1022 \<le> e" using k by (simp add: e_def)
  ultimately have fe: "fexp r = e" by (rule fexp_normal)
  have q: "power_int (2::real) (e - 52) = 1 / 2 ^ k"
    unfolding e_def using two_powi_neg_nat [of k] by simp
  have re: "round_even (r / (1 / 2 ^ k)) = n"
    using n by (intro round_even_unique) simp
  have "\<bar>real_of_int n\<bar> \<le> \<bar>r * 2 ^ k\<bar> + 1 / 2" using n by linarith
  also have "\<dots> < 2 ^ 53 + 1 / 2" using hi by (simp add: abs_mult)
  finally have n54: "\<bar>real_of_int n\<bar> < 2 ^ 54" by simp
  have "\<bar>real_of_int n / 2 ^ k\<bar> = \<bar>real_of_int n\<bar> / 2 ^ k" by simp
  also have "\<dots> \<le> \<bar>real_of_int n\<bar> / 1"
    by (intro divide_left_mono) simp_all
  also have "\<dots> < 2 ^ 54" using n54 by simp
  also have "(2::real) ^ 54 \<le> 2 ^ 1024" by (rule power_increasing) simp_all
  finally have no: "\<not> 2 ^ 1024 \<le> \<bar>real_of_int n / 2 ^ k\<bar>" by (simp only: not_le)
  have "rnd r = (let q = power_int 2 (fexp r - 52); v = of_int (round_even (r / q)) * q
         in if 2 ^ 1024 \<le> \<bar>v\<bar> then inf_signed r else Fin v)"
    using r0 by (simp only: rnd_def if_False)
  also have "\<dots> = (if 2 ^ 1024 \<le> \<bar>real_of_int n / 2 ^ k\<bar> then inf_signed r
                     else Fin (real_of_int n / 2 ^ k))"
    by (simp only: Let_def fe q re) (simp only: times_divide_eq_right mult_1_right)
  also have "\<dots> = Fin (real_of_int n / 2 ^ k)" using no by (simp only: if_False)
  finally show ?thesis .
qed


lemma rnd_unfold:
  assumes "r \<noteq> 0" "fexp r = e" "round_even (r / power_int 2 (e - 52)) = n"
  shows "rnd r = (if 2 ^ 1024 \<le> \<bar>real_of_int n * power_int 2 (e - 52)\<bar> then inf_signed r
                  else Fin (real_of_int n * power_int 2 (e - 52)))"
  using assms by (simp only: rnd_def if_False Let_def)

lemma two_powi_le_nat: "e \<le> int j \<Longrightarrow> power_int (2::real) e \<le> 2 ^ j"
  using two_powi_mono [of e "int j"] by simp

lemma two_powi_ge_nat: "int j \<le> e \<Longrightarrow> (2::real) ^ j \<le> power_int 2 e"
  using two_powi_mono [of "int j" e] by simp

lemma two_powi_lt_nat_imp: "(2::real) ^ j < power_int 2 e \<Longrightarrow> int j < e"
  by (rule ccontr) (use two_powi_le_nat [of e j] in simp)

lemma two_powi_gt_nat_imp: "power_int 2 e < (2::real) ^ j \<Longrightarrow> e < int j"
  by (rule ccontr) (use two_powi_ge_nat [of j e] in simp)

text \<open>A bound by a power of two is kept; the error is half a unit in the last place.\<close>

lemma rnd_le_pow2:
  fixes j :: nat
  assumes r: "\<bar>r\<bar> \<le> 2 ^ j" and j: "j \<le> 1023"
  shows "\<exists>v. rnd r = Fin v \<and> \<bar>v\<bar> \<le> 2 ^ j \<and> \<bar>v - r\<bar> \<le> \<bar>r\<bar> / 2 ^ 53 + 1 / 2 ^ 1075"
proof (cases "r = 0")
  case True
  then show ?thesis by simp
next
  case False
  from rnd_shape [OF False] obtain e n where
    e: "- 1022 \<le> e" and fe: "fexp r = e" and n: "n = round_even (r / power_int 2 (e - 52))"
    and lt: "\<bar>r\<bar> < power_int 2 (e + 1)"
    and up: "\<bar>real_of_int n\<bar> * power_int 2 (e - 52) \<le> power_int 2 (e + 1)"
    and err: "\<bar>real_of_int n * power_int 2 (e - 52) - r\<bar> \<le> power_int 2 (e - 52) / 2"
    and low: "power_int 2 e \<le> \<bar>r\<bar> \<longrightarrow> power_int 2 e \<le> \<bar>real_of_int n\<bar> * power_int 2 (e - 52)"
    and sub: "\<bar>r\<bar> < power_int 2 e \<longrightarrow> e = - 1022"
    by blast
  define v where "v = real_of_int n * power_int 2 (e - 52)"
  have absv: "\<bar>v\<bar> = \<bar>real_of_int n\<bar> * power_int 2 (e - 52)"
    by (simp add: v_def abs_mult)
  have half: "power_int (2::real) (e - 52) / 2 = power_int 2 e / 2 ^ 53"
    using quantum_ratio [of e] by (simp add: field_simps)
  have errv: "\<bar>v - r\<bar> \<le> \<bar>r\<bar> / 2 ^ 53 + 1 / 2 ^ 1075"
  proof (cases "power_int 2 e \<le> \<bar>r\<bar>")
    case True
    then have "power_int 2 e / 2 ^ 53 \<le> \<bar>r\<bar> / 2 ^ 53" by (simp add: divide_right_mono)
    with err half show ?thesis by (simp add: v_def)
  next
    case False
    with sub have "e - 52 = - int 1074" by simp
    then have "power_int (2::real) (e - 52) = 1 / 2 ^ 1074"
      by (simp only: two_powi_neg_nat)
    then have "power_int (2::real) (e - 52) / 2 = 1 / (2 ^ 1074 * 2)"
      by (simp only: divide_divide_eq_left)
    also have "(2::real) ^ 1074 * 2 = 2 ^ Suc 1074" by (simp only: power_Suc mult.commute)
    also have "Suc 1074 = 1075" by simp
    finally have "power_int (2::real) (e - 52) / 2 = 1 / 2 ^ 1075" .
    moreover have "0 \<le> \<bar>r\<bar> / 2 ^ 53" by simp
    ultimately show ?thesis using err unfolding v_def by linarith
  qed
  have bound: "\<bar>v\<bar> \<le> 2 ^ j"
  proof (cases "\<bar>r\<bar> = 2 ^ j")
    case True
    have "fexp r = int j"
      using True by (intro fexp_normal) (simp_all add: two_powi_add1)
    with fe have ej: "e = int j" by simp
    define q where "q = power_int (2::real) (e - 52)"
    have q: "0 < q" by (simp add: q_def)
    have "\<bar>r\<bar> / q = 2 ^ 52"
      using quantum_ratio [of e] by (simp add: True ej q_def)
    then have aq: "\<bar>r\<bar> = 2 ^ 52 * q" using q by (simp add: field_simps)
    have "v = r"
    proof (cases "0 \<le> r")
      case True
      with aq have rq: "r = 2 ^ 52 * q" by simp
      then have "r / q = of_int (2 ^ 52)" using q by simp
      then have "n = 2 ^ 52" unfolding n q_def [symmetric] by (simp only: round_even_of_int)
      then show ?thesis by (simp add: v_def q_def [symmetric] rq)
    next
      case False
      with aq have rq: "r = - (2 ^ 52 * q)" by simp
      then have "r / q = of_int (- (2 ^ 52))" using q by simp
      then have "n = - (2 ^ 52)" unfolding n q_def [symmetric] by (simp only: round_even_of_int)
      then show ?thesis by (simp add: v_def q_def [symmetric] rq)
    qed
    with r show ?thesis by simp
  next
    case False
    with r have rl: "\<bar>r\<bar> < 2 ^ j" by simp
    have "e + 1 \<le> int j"
    proof (cases "power_int 2 e \<le> \<bar>r\<bar>")
      case True
      with rl have "power_int 2 e < (2::real) ^ j" by linarith
      then have "e < int j" by (rule two_powi_gt_nat_imp)
      then show ?thesis by simp
    next
      case False
      with sub have "e = - 1022" by simp
      then show ?thesis by simp
    qed
    then have "power_int (2::real) (e + 1) \<le> 2 ^ j" by (rule two_powi_le_nat)
    with up absv show ?thesis by simp
  qed
  have "(2::real) ^ j \<le> 2 ^ 1023" using j by (intro power_increasing) simp_all
  also have "\<dots> < (2::real) ^ 1024" by (intro power_strict_increasing) simp_all
  finally have "\<not> 2 ^ 1024 \<le> \<bar>v\<bar>" using bound by linarith
  then have "rnd r = Fin v"
    using rnd_unfold [OF False fe n [symmetric]] by (simp only: v_def if_False)
  with bound errv show ?thesis by blast
qed

lemma round_even_nonneg: "0 \<le> x \<Longrightarrow> 0 \<le> round_even x"
proof -
  assume "0 \<le> x"
  moreover have "\<bar>real_of_int (round_even x) - x\<bar> \<le> 1 / 2" by (rule round_even_bound)
  ultimately have "- 1 < real_of_int (round_even x)" by linarith
  then have "real_of_int (- 1) < real_of_int (round_even x)" by simp
  then have "- 1 < round_even x" by (simp only: of_int_less_iff)
  then show ?thesis by simp
qed

lemma fexp_minus [simp]: "fexp (- r) = fexp r"
  by (simp add: fexp_def)

lemma rnd_minus: "rnd (- r) = xneg (rnd r)"
proof (cases "r = 0")
  case True
  then show ?thesis by simp
next
  case False
  then have "- r \<noteq> 0" by simp
  have "inf_signed (- r) = xneg (inf_signed r)"
    using False by (simp add: inf_signed_def)
  then show ?thesis
    using False by (simp add: rnd_def Let_def round_even_minus)
qed

lemma rnd_ge_pow2:
  fixes j :: nat
  assumes r: "2 ^ j \<le> r"
  shows "rnd r = PInf \<or> (\<exists>v. rnd r = Fin v \<and> 2 ^ j \<le> v)"
proof -
  have "(0::real) < 2 ^ j" by simp
  with r have rpos: "0 < r" by linarith
  then have r0: "r \<noteq> 0" by simp
  from rnd_shape [OF r0] obtain e n where
    e: "- 1022 \<le> e" and fe: "fexp r = e" and n: "n = round_even (r / power_int 2 (e - 52))"
    and lt: "\<bar>r\<bar> < power_int 2 (e + 1)"
    and low: "power_int 2 e \<le> \<bar>r\<bar> \<longrightarrow> power_int 2 e \<le> \<bar>real_of_int n\<bar> * power_int 2 (e - 52)"
    and sub: "\<bar>r\<bar> < power_int 2 e \<longrightarrow> e = - 1022"
    by blast
  define v where "v = real_of_int n * power_int 2 (e - 52)"
  have "0 \<le> r / power_int 2 (e - 52)" using rpos by simp
  then have n0: "0 \<le> n" unfolding n by (rule round_even_nonneg)
  then have absv: "\<bar>real_of_int n\<bar> * power_int 2 (e - 52) = v" by (simp add: v_def)
  have "(2::real) ^ j < power_int 2 (e + 1)" using r lt rpos by simp
  then have "int j < e + 1" by (rule two_powi_lt_nat_imp)
  then have je: "int j \<le> e" by simp
  then have pj: "(2::real) ^ j \<le> power_int 2 e" by (rule two_powi_ge_nat)
  have "power_int 2 e \<le> \<bar>r\<bar>"
  proof (rule ccontr)
    assume "\<not> power_int 2 e \<le> \<bar>r\<bar>"
    with sub have "e = - 1022" by simp
    with je show False by simp
  qed
  with low absv have "power_int 2 e \<le> v" by simp
  with pj have vj: "2 ^ j \<le> v" by simp
  have "inf_signed r = PInf" using rpos by (simp add: inf_signed_def)
  then have "rnd r = (if 2 ^ 1024 \<le> \<bar>v\<bar> then PInf else Fin v)"
    using rnd_unfold [OF r0 fe n [symmetric]] by (simp only: v_def)
  with vj show ?thesis by (cases "2 ^ 1024 \<le> \<bar>v\<bar>") simp_all
qed

lemma rnd_overflow: "2 ^ 1024 \<le> r \<Longrightarrow> rnd r = PInf"
proof -
  assume r: "2 ^ 1024 \<le> r"
  moreover have "(0::real) < 2 ^ 1024" by (rule zero_less_power) simp
  ultimately have r0: "r \<noteq> 0" by linarith
  show ?thesis
  proof (rule ccontr)
    assume "rnd r \<noteq> PInf"
    with rnd_ge_pow2 [OF r] obtain v where v: "rnd r = Fin v" "2 ^ 1024 \<le> v" by blast
    from rnd_shape [OF r0] obtain e n where
      fe: "fexp r = e" and n: "n = round_even (r / power_int 2 (e - 52))"
      by blast
    define w where "w = real_of_int n * power_int 2 (e - 52)"
    have "rnd r = (if 2 ^ 1024 \<le> \<bar>w\<bar> then inf_signed r else Fin w)"
      using rnd_unfold [OF r0 fe n [symmetric]] by (simp only: w_def)
    moreover have "inf_signed r = PInf" using r r0 by (simp add: inf_signed_def)
    ultimately have "v = w" "\<not> 2 ^ 1024 \<le> \<bar>w\<bar>"
      using v(1) by (auto split: if_splits)
    with v(2) show False by linarith
  qed
qed

lemma rnd_idem:
  assumes "rnd r = Fin v"
  shows "rnd v = Fin v"
proof (cases "v = 0")
  case True
  then show ?thesis by simp
next
  case v0: False
  with assms have r0: "r \<noteq> 0" by auto
  from rnd_shape [OF r0] obtain e n where
    e: "- 1022 \<le> e" and fe: "fexp r = e" and n: "n = round_even (r / power_int 2 (e - 52))"
    and up: "\<bar>real_of_int n\<bar> * power_int 2 (e - 52) \<le> power_int 2 (e + 1)"
    and low: "power_int 2 e \<le> \<bar>r\<bar> \<longrightarrow> power_int 2 e \<le> \<bar>real_of_int n\<bar> * power_int 2 (e - 52)"
    and sub: "\<bar>r\<bar> < power_int 2 e \<longrightarrow> e = - 1022"
    by blast
  define q where "q = power_int (2::real) (e - 52)"
  have q: "0 < q" by (simp add: q_def)
  have "Fin v = (if 2 ^ 1024 \<le> \<bar>real_of_int n * q\<bar> then inf_signed r else Fin (real_of_int n * q))"
    using assms rnd_unfold [OF r0 fe n [symmetric]] by (simp only: q_def)
  moreover have "inf_signed r \<noteq> Fin v" using r0 by (simp add: inf_signed_def)
  ultimately have v: "v = real_of_int n * q" and no: "\<not> 2 ^ 1024 \<le> \<bar>v\<bar>"
    by (auto simp only: xreal.inject split: if_splits)
  have absv: "\<bar>v\<bar> = \<bar>real_of_int n\<bar> * q" using q by (simp add: v abs_mult)
  have vq: "v / q = of_int n" using q by (simp add: v)
  have le: "\<bar>v\<bar> \<le> power_int 2 (e + 1)" using up absv q_def by simp
  have cases3: "(power_int 2 e \<le> \<bar>v\<bar> \<and> \<bar>v\<bar> < power_int 2 (e + 1))
      \<or> \<bar>v\<bar> = power_int 2 (e + 1) \<or> \<bar>v\<bar> < power_int 2 e"
    using le by linarith
  then consider (same) "power_int 2 e \<le> \<bar>v\<bar>" "\<bar>v\<bar> < power_int 2 (e + 1)"
    | (top) "\<bar>v\<bar> = power_int 2 (e + 1)"
    | (below) "\<bar>v\<bar> < power_int 2 e"
    by blast
  then show ?thesis
  proof cases
    case same
    then have "fexp v = e" using e by (intro fexp_normal)
    moreover have "round_even (v / power_int 2 (e - 52)) = n"
      using vq by (simp add: q_def)
    ultimately have "rnd v = (if 2 ^ 1024 \<le> \<bar>real_of_int n * power_int 2 (e - 52)\<bar> then inf_signed v
        else Fin (real_of_int n * power_int 2 (e - 52)))"
      by (rule rnd_unfold [OF v0])
    then show ?thesis
      unfolding q_def [symmetric] v [symmetric] using no by (simp only: if_False)
  next
    case top
    have "power_int (2::real) (e + 1) < power_int 2 (e + 1 + 1)"
      unfolding two_powi_add1 [of "e + 1"] by simp
    then have fv: "fexp v = e + 1"
      using top e by (intro fexp_normal) simp_all
    have q2: "power_int (2::real) (e + 1 - 52) = 2 * q"
      using two_powi_add1 [of "e - 52"] by (simp add: q_def add.commute)
    have "\<bar>real_of_int n\<bar> * q = 2 ^ 53 * q"
      using top absv quantum_ratio [of "e + 1"] q q2 by (simp add: field_simps)
    then have "\<bar>real_of_int n\<bar> = 2 ^ 53" using q by simp
    then have "real_of_int \<bar>n\<bar> = real_of_int (2 ^ 53)" by simp
    then have "\<bar>n\<bar> = 2 ^ 53" by (simp only: of_int_eq_iff)
    then have n53: "n = 2 ^ 53 \<or> n = - (2 ^ 53)" by linarith
    define m where "m = n div 2"
    have nm: "real_of_int n = 2 * real_of_int m" using n53 by (auto simp: m_def)
    have "v / (2 * q) = of_int m" using q by (simp add: v nm)
    then have rv: "round_even (v / power_int 2 (e + 1 - 52)) = m"
      unfolding q2 by (simp only: round_even_of_int)
    have mv: "real_of_int m * power_int 2 (e + 1 - 52) = v"
      unfolding q2 by (simp add: v nm)
    have "rnd v = (if 2 ^ 1024 \<le> \<bar>real_of_int m * power_int 2 (e + 1 - 52)\<bar> then inf_signed v
        else Fin (real_of_int m * power_int 2 (e + 1 - 52)))"
      by (rule rnd_unfold [OF v0 fv rv])
    then show ?thesis
      unfolding mv using no by (simp only: if_False)
  next
    case below
    have "\<not> power_int 2 e \<le> \<bar>r\<bar>" using low below absv q_def by auto
    with sub have e1022: "e = - 1022" by simp
    with below have "fexp v = e" using fexp_subnormal [OF v0] by simp
    moreover have "round_even (v / power_int 2 (e - 52)) = n"
      using vq by (simp add: q_def)
    ultimately have "rnd v = (if 2 ^ 1024 \<le> \<bar>real_of_int n * power_int 2 (e - 52)\<bar> then inf_signed v
        else Fin (real_of_int n * power_int 2 (e - 52)))"
      by (rule rnd_unfold [OF v0])
    then show ?thesis
      unfolding q_def [symmetric] v [symmetric] using no by (simp only: if_False)
  qed
qed

section \<open>Basic facts\<close>

lemma on_value_Inr [simp]: "on_value (Inr v) f = f v"
  by (simp add: on_value_def)

lemma on_value_Inl [simp]: "on_value (Inl e) f = Inl e"
  by (simp add: on_value_def)

lemma poly1d_Nil: "poly1d x [] = flt 0"
  by (simp add: poly1d_def)

lemma poly1d_Cons: "poly1d x (c # cs) = py_add (py_mul (poly1d x cs) x) c"
  by (simp add: poly1d_def)

lemma rnd_one [simp]: "rnd 1 = Fin 1"
  using rnd_cert [of 1 52 "2 ^ 52"] by simp

lemma flt_zero [simp]: "flt 0 = Flt (Fin 0)"
  by (simp add: flt_def)

lemma flt_one [simp]: "flt 1 = Flt (Fin 1)"
  by (simp add: flt_def)

lemma rnd_cases:
  obtains (fin) v where "rnd r = Fin v" "rnd v = Fin v" | (pinf) "rnd r = PInf" | (ninf) "rnd r = NInf"
proof (cases "rnd r")
  case (Fin v)
  then show ?thesis using rnd_idem that(1) by blast
next
  case NaN
  then show ?thesis by simp
qed (use that in auto)

lemma xadd_zero_rnd [simp]: "xadd (Fin 0) (rnd c) = rnd c"
  by (cases c rule: rnd_cases) simp_all

lemma xmul_zero_left [simp]: "xmul (Fin 0) (Fin x) = Fin 0"
  by simp

lemma xmul_zero_right [simp]: "xmul (Fin x) (Fin 0) = Fin 0"
  by simp

lemma xadd_NaN_right [simp]: "xadd a NaN = NaN"
  by (cases a) simp_all

lemma xmul_NaN_right [simp]: "xmul a NaN = NaN"
  by (cases a) simp_all

lemma py_div_zero: "py_div x (Flt (Fin 0)) = Inl ZeroDivisionError"
  by (cases x) (simp_all add: c_quot_def)

lemma rnd_error:
  assumes "rnd r = Fin v"
  shows "\<bar>v - r\<bar> \<le> \<bar>r\<bar> / 2 ^ 53 + 1 / 2 ^ 1075"
proof (cases "r = 0")
  case True
  with assms show ?thesis by simp
next
  case r0: False
  from rnd_shape [OF r0] obtain e n where
    e: "- 1022 \<le> e" and fe: "fexp r = e" and n: "n = round_even (r / power_int 2 (e - 52))"
    and err: "\<bar>real_of_int n * power_int 2 (e - 52) - r\<bar> \<le> power_int 2 (e - 52) / 2"
    and sub: "\<bar>r\<bar> < power_int 2 e \<longrightarrow> e = - 1022"
    by blast
  define w where "w = real_of_int n * power_int 2 (e - 52)"
  have "rnd r = (if 2 ^ 1024 \<le> \<bar>w\<bar> then inf_signed r else Fin w)"
    using rnd_unfold [OF r0 fe n [symmetric]] by (simp only: w_def)
  moreover have "inf_signed r \<noteq> Fin v" using r0 by (simp add: inf_signed_def)
  ultimately have vw: "v = w" using assms by (auto split: if_splits)
  have errv: "\<bar>v - r\<bar> \<le> power_int 2 (e - 52) / 2" using err by (simp only: vw w_def)
  have half: "power_int (2::real) (e - 52) / 2 = power_int 2 e / 2 ^ 53"
    using quantum_ratio [of e] by (simp add: field_simps)
  show ?thesis
  proof (cases "power_int 2 e \<le> \<bar>r\<bar>")
    case True
    then have "power_int 2 e / 2 ^ 53 \<le> \<bar>r\<bar> / 2 ^ 53" by (simp add: divide_right_mono)
    moreover have "(0::real) \<le> 1 / 2 ^ 1075" by simp
    ultimately show ?thesis using errv half by linarith
  next
    case False
    with sub have "e - 52 = - int 1074" by simp
    then have "power_int (2::real) (e - 52) = 1 / 2 ^ 1074"
      by (simp only: two_powi_neg_nat)
    then have "power_int (2::real) (e - 52) / 2 = 1 / (2 ^ 1074 * 2)"
      by (simp only: divide_divide_eq_left)
    also have "(2::real) ^ 1074 * 2 = 2 ^ Suc 1074" by (simp only: power_Suc mult.commute)
    also have "Suc 1074 = 1075" by simp
    finally have "power_int (2::real) (e - 52) / 2 = 1 / 2 ^ 1075" .
    moreover have "0 \<le> \<bar>r\<bar> / 2 ^ 53" by simp
    ultimately show ?thesis using errv by linarith
  qed
qed

section \<open>Certificates for single operations\<close>

text \<open>
  A float operation on given finite floats is checked by exhibiting the integer \<open>n\<close> and the
  exponent \<open>k\<close> of its result \<open>n / 2 ^ k\<close>: the exact result, scaled by \<open>2 ^ k\<close>, is within
  one half of \<open>n\<close>. For a square root the distance is compared after squaring.
\<close>

lemma py_add_Flt: "py_add (Flt a) (Flt b) = Flt (xadd a b)"
  by simp

lemma py_mul_Flt: "py_mul (Flt a) (Flt b) = Flt (xmul a b)"
  by simp

lemma py_sub_Flt: "py_sub (Flt a) (Flt b) = Flt (xsub a b)"
  by simp

lemma rnd_cert_near:
  fixes k :: nat and n :: int
  assumes near: "\<bar>r * 2 ^ k - of_int n\<bar> < 1 / 2" and n: "2 ^ 52 < n" "n < 2 ^ 53" and k: "k \<le> 1074"
  shows "rnd r = Fin (of_int n / 2 ^ k)"
proof -
  have "2 ^ 52 + 1 \<le> n" using n(1) by simp
  then have "real_of_int (2 ^ 52 + 1) \<le> real_of_int n" by (simp only: of_int_le_iff)
  then have lo: "2 ^ 52 + 1 \<le> real_of_int n" by simp
  have "n \<le> 2 ^ 53 - 1" using n(2) by simp
  then have "real_of_int n \<le> real_of_int (2 ^ 53 - 1)" by (simp only: of_int_le_iff)
  then have hi: "real_of_int n \<le> 2 ^ 53 - 1" by simp
  have p52: "(0::real) < 2 ^ 52" by simp
  have pos: "0 < r * 2 ^ k" using near lo p52 by linarith
  then have "0 < r" by (simp add: zero_less_mult_iff)
  then have abs: "\<bar>r\<bar> * 2 ^ k = r * 2 ^ k" by simp
  have "2 ^ 52 \<le> \<bar>r\<bar> * 2 ^ k" unfolding abs using near lo by linarith
  moreover have "\<bar>r\<bar> * 2 ^ k < 2 ^ 53" unfolding abs using near hi by linarith
  ultimately show ?thesis using k near by (intro rnd_cert) simp_all
qed

lemma sqrt_cert:
  fixes k :: nat and n :: int
  assumes x: "0 < x" and lo: "(of_int n - 1 / 2)\<^sup>2 < x * 4 ^ k" and hi: "x * 4 ^ k < (of_int n + 1 / 2)\<^sup>2"
    and n: "0 < n"
  shows "\<bar>sqrt x * 2 ^ k - of_int n\<bar> < 1 / 2"
proof -
  have "(4::real) ^ k = (2 ^ k)\<^sup>2"
    by (simp add: power_mult [symmetric] mult.commute [of k 2] power_mult [of 2 2 k])
  then have "sqrt (x * 4 ^ k) = sqrt x * sqrt ((2 ^ k)\<^sup>2)"
    by (simp only: real_sqrt_mult)
  then have eq: "sqrt (x * 4 ^ k) = sqrt x * 2 ^ k" by simp
  have "1 \<le> n" using n by simp
  then have "real_of_int 1 \<le> real_of_int n" by (simp only: of_int_le_iff)
  then have n1: "0 \<le> real_of_int n + 1 / 2" by simp
  have "real_of_int n - 1 / 2 < sqrt (x * 4 ^ k)" using lo by (rule real_less_rsqrt)
  moreover have "sqrt (x * 4 ^ k) < real_of_int n + 1 / 2" using n1 hi by (rule real_less_lsqrt)
  ultimately show ?thesis unfolding eq by linarith
qed

lemma pow_half_cert:
  fixes k :: nat and n :: int
  assumes "0 < x" "(of_int n - 1 / 2)\<^sup>2 < x * 4 ^ k" "x * 4 ^ k < (of_int n + 1 / 2)\<^sup>2"
    and n: "2 ^ 52 < n" "n < 2 ^ 53" and k: "k \<le> 1074"
  shows "py_pow (Fin x) 0.5 = Inr (Flt (Fin (of_int n / 2 ^ k)))"
proof -
  have "(0::int) < 2 ^ 52" by simp
  with n(1) have "0 < n" by linarith
  with assms have "\<bar>sqrt x * 2 ^ k - of_int n\<bar> < 1 / 2" by (intro sqrt_cert)
  then have "rnd (sqrt x) = Fin (of_int n / 2 ^ k)" using n k by (rule rnd_cert_near)
  moreover have "x powr (1 / 2) = sqrt x" using assms(1) by (simp add: powr_half_sqrt)
  ultimately show ?thesis using assms(1) by simp
qed

lemma pow_three_halves_cert:
  fixes k :: nat and n :: int
  assumes "0 < x" "(of_int n - 1 / 2)\<^sup>2 < x ^ 3 * 4 ^ k" "x ^ 3 * 4 ^ k < (of_int n + 1 / 2)\<^sup>2"
    and n: "2 ^ 52 < n" "n < 2 ^ 53" and k: "k \<le> 1074"
  shows "py_pow (Fin x) 1.5 = Inr (Flt (Fin (of_int n / 2 ^ k)))"
proof -
  have x3: "0 < x ^ 3" using assms(1) by simp
  have "(0::int) < 2 ^ 52" by simp
  with n(1) have "0 < n" by linarith
  with x3 assms(2,3) have "\<bar>sqrt (x ^ 3) * 2 ^ k - of_int n\<bar> < 1 / 2" by (intro sqrt_cert)
  then have "rnd (sqrt (x ^ 3)) = Fin (of_int n / 2 ^ k)" using n k by (rule rnd_cert_near)
  moreover have "x powr (3 / 2) = sqrt (x ^ 3)"
  proof -
    have "x powr (3 / 2) = (x powr 3) powr (1 / 2)" by (simp add: powr_powr)
    also have "x powr 3 = x ^ 3" using assms(1) by simp
    also have "(x ^ 3) powr (1 / 2) = sqrt (x ^ 3)" using x3 by (simp add: powr_half_sqrt)
    finally show ?thesis .
  qed
  ultimately show ?thesis using assms(1) by simp
qed

section \<open>The constants as floats\<close>

text \<open>Each decimal literal of the source is rounded once, to the float written here as an
  integer over a power of two.\<close>

lemma T68SCL_float: "T68SCL = Fin (4504680491281065 / 2 ^ 52)"
  unfolding T68SCL_def using rnd_cert [of "1.00024" 52 "4504680491281065"] by simp

lemma DB2KPA_float: "DB2KPA = Fin (7205759403792794 / 2 ^ 56)"
  unfolding DB2KPA_def using rnd_cert [of "0.1" 56 "7205759403792794"] by simp

lemma SECKPURE0_0: "rnd 19652.21 = Fin (5401958351623946 / 2 ^ 38)"
  using rnd_cert [of "19652.21" 38 "5401958351623946"] by simp

lemma SECKPURE0_1: "rnd 148.4206 = Fin (5222085616047699 / 2 ^ 45)"
  using rnd_cert [of "148.4206" 45 "5222085616047699"] by simp

lemma SECKPURE0_2: "rnd (- 2.327105) = Fin (- (5240174605426009 / 2 ^ 51))"
  using rnd_cert [of "- 2.327105" 51 "-5240174605426009"] by simp

lemma SECKPURE0_3: "rnd 0.01360477 = Fin (7842615949115047 / 2 ^ 59)"
  using rnd_cert [of "0.01360477" 59 "7842615949115047"] by simp

lemma SECKPURE0_4: "rnd (- 0.00005155288) = Fin (- (7607862268981277 / 2 ^ 67))"
  using rnd_cert [of "- 0.00005155288" 67 "-7607862268981277"] by simp

lemma tbl_SECKPURE0:
  "tbl SECKPURE0 =
    [Flt (Fin (5401958351623946 / 2 ^ 38)),
     Flt (Fin (5222085616047699 / 2 ^ 45)),
     Flt (Fin (- (5240174605426009 / 2 ^ 51))),
     Flt (Fin (7842615949115047 / 2 ^ 59)),
     Flt (Fin (- (7607862268981277 / 2 ^ 67)))]"
  by (simp only: tbl_def SECKPURE0_def list.map flt_def SECKPURE0_0 SECKPURE0_1 SECKPURE0_2 SECKPURE0_3 SECKPURE0_4)

lemma SECKPURE1_0: "rnd 3.239908 = Fin (7295624230757344 / 2 ^ 51)"
  using rnd_cert [of "3.239908" 51 "7295624230757344"] by simp

lemma SECKPURE1_1: "rnd 0.00143713 = Fin (6627592327662552 / 2 ^ 62)"
  using rnd_cert [of "0.00143713" 62 "6627592327662552"] by simp

lemma SECKPURE1_2: "rnd 0.000116092 = Fin (8566077652020357 / 2 ^ 66)"
  using rnd_cert [of "0.000116092" 66 "8566077652020357"] by simp

lemma SECKPURE1_3: "rnd (- 0.000000577905) = Fin (- (5458158404565565 / 2 ^ 73))"
  using rnd_cert [of "- 0.000000577905" 73 "-5458158404565565"] by simp

lemma tbl_SECKPURE1:
  "tbl SECKPURE1 =
    [Flt (Fin (7295624230757344 / 2 ^ 51)),
     Flt (Fin (6627592327662552 / 2 ^ 62)),
     Flt (Fin (8566077652020357 / 2 ^ 66)),
     Flt (Fin (- (5458158404565565 / 2 ^ 73)))]"
  by (simp only: tbl_def SECKPURE1_def list.map flt_def SECKPURE1_0 SECKPURE1_1 SECKPURE1_2 SECKPURE1_3)

lemma SECKPURE2_0: "rnd 0.0000850935 = Fin (6278792067344815 / 2 ^ 66)"
  using rnd_cert [of "0.0000850935" 66 "6278792067344815"] by simp

lemma SECKPURE2_1: "rnd (- 0.00000612293) = Fin (- (7228679852239259 / 2 ^ 70))"
  using rnd_cert [of "- 0.00000612293" 70 "-7228679852239259"] by simp

lemma SECKPURE2_2: "rnd 0.000000052787 = Fin (7976945904999679 / 2 ^ 77)"
  using rnd_cert [of "0.000000052787" 77 "7976945904999679"] by simp

lemma tbl_SECKPURE2:
  "tbl SECKPURE2 =
    [Flt (Fin (6278792067344815 / 2 ^ 66)),
     Flt (Fin (- (7228679852239259 / 2 ^ 70))),
     Flt (Fin (7976945904999679 / 2 ^ 77))]"
  by (simp only: tbl_def SECKPURE2_def list.map flt_def SECKPURE2_0 SECKPURE2_1 SECKPURE2_2)

lemma SECK02_0: "rnd 54.6746 = Fin (7694765880832216 / 2 ^ 47)"
  using rnd_cert [of "54.6746" 47 "7694765880832216"] by simp

lemma SECK02_1: "rnd (- 0.603459) = Fin (- (5435475455066744 / 2 ^ 53))"
  using rnd_cert [of "- 0.603459" 53 "-5435475455066744"] by simp

lemma SECK02_2: "rnd 0.0109987 = Fin (6340318876359664 / 2 ^ 59)"
  using rnd_cert [of "0.0109987" 59 "6340318876359664"] by simp

lemma SECK02_3: "rnd (- 0.000061670) = Fin (- (4550442828102672 / 2 ^ 66))"
  using rnd_cert [of "- 0.000061670" 66 "-4550442828102672"] by simp

lemma tbl_SECK02:
  "tbl SECK02 =
    [Flt (Fin (7694765880832216 / 2 ^ 47)),
     Flt (Fin (- (5435475455066744 / 2 ^ 53))),
     Flt (Fin (6340318876359664 / 2 ^ 59)),
     Flt (Fin (- (4550442828102672 / 2 ^ 66)))]"
  by (simp only: tbl_def SECK02_def list.map flt_def SECK02_0 SECK02_1 SECK02_2 SECK02_3)

lemma SECK03_0: "rnd 0.07944 = Fin (5724255270372995 / 2 ^ 56)"
  using rnd_cert [of "0.07944" 56 "5724255270372995"] by simp

lemma SECK03_1: "rnd 0.016483 = Fin (4750901290108665 / 2 ^ 58)"
  using rnd_cert [of "0.016483" 58 "4750901290108665"] by simp

lemma SECK03_2: "rnd (- 0.00053009) = Fin (- (4889217283016348 / 2 ^ 63))"
  using rnd_cert [of "- 0.00053009" 63 "-4889217283016348"] by simp

lemma tbl_SECK03:
  "tbl SECK03 =
    [Flt (Fin (5724255270372995 / 2 ^ 56)),
     Flt (Fin (4750901290108665 / 2 ^ 58)),
     Flt (Fin (- (4889217283016348 / 2 ^ 63)))]"
  by (simp only: tbl_def SECK03_def list.map flt_def SECK03_0 SECK03_1 SECK03_2)

lemma SECK12_0: "rnd 0.0022838 = Fin (5266084264442234 / 2 ^ 61)"
  using rnd_cert [of "0.0022838" 61 "5266084264442234"] by simp

lemma SECK12_1: "rnd (- 0.000010981) = Fin (- (6482038293548947 / 2 ^ 69))"
  using rnd_cert [of "- 0.000010981" 69 "-6482038293548947"] by simp

lemma SECK12_2: "rnd (- 0.0000016078) = Fin (- (7592620831157816 / 2 ^ 72))"
  using rnd_cert [of "- 0.0000016078" 72 "-7592620831157816"] by simp

lemma tbl_SECK12:
  "tbl SECK12 =
    [Flt (Fin (5266084264442234 / 2 ^ 61)),
     Flt (Fin (- (6482038293548947 / 2 ^ 69))),
     Flt (Fin (- (7592620831157816 / 2 ^ 72)))]"
  by (simp only: tbl_def SECK12_def list.map flt_def SECK12_0 SECK12_1 SECK12_2)

lemma SECK2_0: "rnd (- 0.00000099348) = Fin (- (4691576653401335 / 2 ^ 72))"
  using rnd_cert [of "- 0.00000099348" 72 "-4691576653401335"] by simp

lemma SECK2_1: "rnd 0.000000020816 = Fin (6291249965274530 / 2 ^ 78)"
  using rnd_cert [of "0.000000020816" 78 "6291249965274530"] by simp

lemma SECK2_2: "rnd 0.00000000091697 = Fin (8868389670496212 / 2 ^ 83)"
  using rnd_cert [of "0.00000000091697" 83 "8868389670496212"] by simp

lemma tbl_SECK2:
  "tbl SECK2 =
    [Flt (Fin (- (4691576653401335 / 2 ^ 72))),
     Flt (Fin (6291249965274530 / 2 ^ 78)),
     Flt (Fin (8868389670496212 / 2 ^ 83))]"
  by (simp only: tbl_def SECK2_def list.map flt_def SECK2_0 SECK2_1 SECK2_2)

lemma SMOW_0: "rnd 999.842594 = Fin (8794708464389746 / 2 ^ 43)"
  using rnd_cert [of "999.842594" 43 "8794708464389746"] by simp

lemma SMOW_1: "rnd 0.06793952 = Fin (4895558351291686 / 2 ^ 56)"
  using rnd_cert [of "0.06793952" 56 "4895558351291686"] by simp

lemma SMOW_2: "rnd (- 0.009095290) = Fin (- (5243077715817805 / 2 ^ 59))"
  using rnd_cert [of "- 0.009095290" 59 "-5243077715817805"] by simp

lemma SMOW_3: "rnd 0.0001001685 = Fin (7391130734989501 / 2 ^ 66)"
  using rnd_cert [of "0.0001001685" 66 "7391130734989501"] by simp

lemma SMOW_4: "rnd (- 0.000001120083) = Fin (- (5289442417232081 / 2 ^ 72))"
  using rnd_cert [of "- 0.000001120083" 72 "-5289442417232081"] by simp

lemma SMOW_5: "rnd 0.000000006536332 = Fin (7901940520373328 / 2 ^ 80)"
  using rnd_cert [of "0.000000006536332" 80 "7901940520373328"] by simp

lemma tbl_SMOW:
  "tbl SMOW =
    [Flt (Fin (8794708464389746 / 2 ^ 43)),
     Flt (Fin (4895558351291686 / 2 ^ 56)),
     Flt (Fin (- (5243077715817805 / 2 ^ 59))),
     Flt (Fin (7391130734989501 / 2 ^ 66)),
     Flt (Fin (- (5289442417232081 / 2 ^ 72))),
     Flt (Fin (7901940520373328 / 2 ^ 80))]"
  by (simp only: tbl_def SMOW_def list.map flt_def SMOW_0 SMOW_1 SMOW_2 SMOW_3 SMOW_4 SMOW_5)

lemma DENS02_0: "rnd 0.824493 = Fin (7426372735139165 / 2 ^ 53)"
  using rnd_cert [of "0.824493" 53 "7426372735139165"] by simp

lemma DENS02_1: "rnd (- 0.0040899) = Fin (- (4715333661691543 / 2 ^ 60))"
  using rnd_cert [of "- 0.0040899" 60 "-4715333661691543"] by simp

lemma DENS02_2: "rnd 0.000076438 = Fin (5640128894024843 / 2 ^ 66)"
  using rnd_cert [of "0.000076438" 66 "5640128894024843"] by simp

lemma DENS02_3: "rnd (- 0.00000082467) = Fin (- (7788787934856221 / 2 ^ 73))"
  using rnd_cert [of "- 0.00000082467" 73 "-7788787934856221"] by simp

lemma DENS02_4: "rnd 0.0000000053875 = Fin (6513087853173815 / 2 ^ 80)"
  using rnd_cert [of "0.0000000053875" 80 "6513087853173815"] by simp

lemma tbl_DENS02:
  "tbl DENS02 =
    [Flt (Fin (7426372735139165 / 2 ^ 53)),
     Flt (Fin (- (4715333661691543 / 2 ^ 60))),
     Flt (Fin (5640128894024843 / 2 ^ 66)),
     Flt (Fin (- (7788787934856221 / 2 ^ 73))),
     Flt (Fin (6513087853173815 / 2 ^ 80))]"
  by (simp only: tbl_def DENS02_def list.map flt_def DENS02_0 DENS02_1 DENS02_2 DENS02_3 DENS02_4)

lemma DENS03_0: "rnd (- 0.00572466) = Fin (- (6600083620562633 / 2 ^ 60))"
  using rnd_cert [of "- 0.00572466" 60 "-6600083620562633"] by simp

lemma DENS03_1: "rnd 0.00010227 = Fin (7546194065673103 / 2 ^ 66)"
  using rnd_cert [of "0.00010227" 66 "7546194065673103"] by simp

lemma DENS03_2: "rnd (- 0.0000016546) = Fin (- (7813627582556115 / 2 ^ 72))"
  using rnd_cert [of "- 0.0000016546" 72 "-7813627582556115"] by simp

lemma tbl_DENS03:
  "tbl DENS03 =
    [Flt (Fin (- (6600083620562633 / 2 ^ 60))),
     Flt (Fin (7546194065673103 / 2 ^ 66)),
     Flt (Fin (- (7813627582556115 / 2 ^ 72)))]"
  by (simp only: tbl_def DENS03_def list.map flt_def DENS03_0 DENS03_1 DENS03_2)

lemma flt_SECK13: "flt SECK13 = Flt (Fin (7049423247768105 / 2 ^ 65))"
  unfolding flt_def SECK13_def using rnd_cert [of "0.000191075" 65 "7049423247768105"] by simp

lemma flt_DENS04: "flt DENS04 = Flt (Fin (8912359931772033 / 2 ^ 64))"
  unfolding flt_def DENS04_def using rnd_cert [of "0.00048314" 64 "8912359931772033"] by simp

lemmas table_floats =
  T68SCL_float DB2KPA_float flt_SECK13 flt_DENS04
  tbl_SECKPURE0 tbl_SECKPURE1 tbl_SECKPURE2 tbl_SECK02 tbl_SECK03
  tbl_SECK12 tbl_SECK2 tbl_SMOW tbl_DENS02 tbl_DENS03

section \<open>Evaluations at given floats\<close>

text \<open>
  The operations met when the functions are evaluated at the floats used below, each with its
  certificate, and the values of the functions that follow from them.
\<close>

lemma step_1: "xmul (Fin 25) (Fin (4504680491281065 / 2 ^ 52)) = Fin (7038563267626664 / 2 ^ 48)"
  using rnd_cert [of "25 * (4504680491281065 / 2 ^ 52)" 48 "7038563267626664"]
  by simp

lemma step_2: "xmul (Fin 0) (Fin (7038563267626664 / 2 ^ 48)) = Fin 0"
  by simp

lemma step_3: "xadd (Fin 0) (Fin (7901940520373328 / 2 ^ 80)) = Fin (7901940520373328 / 2 ^ 80)"
  using rnd_cert [of "0 + (7901940520373328 / 2 ^ 80)" 80 "7901940520373328"]
  by simp

lemma step_4: "xmul (Fin (7901940520373328 / 2 ^ 80)) (Fin (7038563267626664 / 2 ^ 48)) = Fin (6174872645389233 / 2 ^ 75)"
  using rnd_cert [of "(7901940520373328 / 2 ^ 80) * (7038563267626664 / 2 ^ 48)" 75 "6174872645389233"]
  by simp

lemma step_5: "xadd (Fin (6174872645389233 / 2 ^ 75)) (Fin (- (5289442417232081 / 2 ^ 72))) = Fin (- (4517583336558427 / 2 ^ 72))"
  using rnd_cert [of "(6174872645389233 / 2 ^ 75) + (- (5289442417232081 / 2 ^ 72))" 72 "-4517583336558427"]
  by simp

lemma step_6: "xmul (Fin (- (4517583336558427 / 2 ^ 72))) (Fin (7038563267626664 / 2 ^ 48)) = Fin (- (7060418057123752 / 2 ^ 68))"
  using rnd_cert [of "(- (4517583336558427 / 2 ^ 72)) * (7038563267626664 / 2 ^ 48)" 68 "-7060418057123752"]
  by simp

lemma step_7: "xadd (Fin (- (7060418057123752 / 2 ^ 68))) (Fin (7391130734989501 / 2 ^ 66)) = Fin (5626026220708563 / 2 ^ 66)"
  using rnd_cert [of "(- (7060418057123752 / 2 ^ 68)) + (7391130734989501 / 2 ^ 66)" 66 "5626026220708563"]
  by simp

lemma step_8: "xmul (Fin (5626026220708563 / 2 ^ 66)) (Fin (7038563267626664 / 2 ^ 48)) = Fin (8792775729689895 / 2 ^ 62)"
  using rnd_cert [of "(5626026220708563 / 2 ^ 66) * (7038563267626664 / 2 ^ 48)" 62 "8792775729689895"]
  by simp

lemma step_9: "xadd (Fin (8792775729689895 / 2 ^ 62)) (Fin (- (5243077715817805 / 2 ^ 59))) = Fin (- (8287961499213136 / 2 ^ 60))"
  using rnd_cert [of "(8792775729689895 / 2 ^ 62) + (- (5243077715817805 / 2 ^ 59))" 60 "-8287961499213136"]
  by simp

lemma step_10: "xmul (Fin (- (8287961499213136 / 2 ^ 60))) (Fin (7038563267626664 / 2 ^ 48)) = Fin (- (6476523914041365 / 2 ^ 55))"
  using rnd_cert [of "(- (8287961499213136 / 2 ^ 60)) * (7038563267626664 / 2 ^ 48)" 55 "-6476523914041365"]
  by simp

lemma step_11: "xadd (Fin (- (6476523914041365 / 2 ^ 55))) (Fin (4895558351291686 / 2 ^ 56)) = Fin (- (8057489476791044 / 2 ^ 56))"
  using rnd_cert [of "(- (6476523914041365 / 2 ^ 55)) + (4895558351291686 / 2 ^ 56)" 56 "-8057489476791044"]
  by simp

lemma step_12: "xmul (Fin (- (8057489476791044 / 2 ^ 56))) (Fin (7038563267626664 / 2 ^ 48)) = Fin (- (6296424433019902 / 2 ^ 51))"
  using rnd_cert [of "(- (8057489476791044 / 2 ^ 56)) * (7038563267626664 / 2 ^ 48)" 51 "-6296424433019902"]
  by simp

lemma step_13: "xadd (Fin (- (6296424433019902 / 2 ^ 51))) (Fin (8794708464389746 / 2 ^ 43)) = Fin (8770113056448262 / 2 ^ 43)"
  using rnd_cert [of "(- (6296424433019902 / 2 ^ 51)) + (8794708464389746 / 2 ^ 43)" 43 "8770113056448262"]
  by simp

lemma step_14: "xadd (Fin 0) (Fin (6513087853173815 / 2 ^ 80)) = Fin (6513087853173815 / 2 ^ 80)"
  using rnd_cert [of "0 + (6513087853173815 / 2 ^ 80)" 80 "6513087853173815"]
  by simp

lemma step_15: "xmul (Fin (6513087853173815 / 2 ^ 80)) (Fin (7038563267626664 / 2 ^ 48)) = Fin (5089571089264513 / 2 ^ 75)"
  using rnd_cert [of "(6513087853173815 / 2 ^ 80) * (7038563267626664 / 2 ^ 48)" 75 "5089571089264513"]
  by simp

lemma step_16: "xadd (Fin (5089571089264513 / 2 ^ 75)) (Fin (- (7788787934856221 / 2 ^ 73))) = Fin (- (6516395162540093 / 2 ^ 73))"
  using rnd_cert [of "(5089571089264513 / 2 ^ 75) + (- (7788787934856221 / 2 ^ 73))" 73 "-6516395162540093"]
  by simp

lemma step_17: "xmul (Fin (- (6516395162540093 / 2 ^ 73))) (Fin (7038563267626664 / 2 ^ 48)) = Fin (- (5092155544827424 / 2 ^ 68))"
  using rnd_cert [of "(- (6516395162540093 / 2 ^ 73)) * (7038563267626664 / 2 ^ 48)" 68 "-5092155544827424"]
  by simp

lemma step_18: "xadd (Fin (- (5092155544827424 / 2 ^ 68))) (Fin (5640128894024843 / 2 ^ 66)) = Fin (8734180015635974 / 2 ^ 67)"
  using rnd_cert [of "(- (5092155544827424 / 2 ^ 68)) + (5640128894024843 / 2 ^ 66)" 67 "8734180015635974"]
  by simp

lemma step_19: "xmul (Fin (8734180015635974 / 2 ^ 67)) (Fin (7038563267626664 / 2 ^ 48)) = Fin (6825215795968536 / 2 ^ 62)"
  using rnd_cert [of "(8734180015635974 / 2 ^ 67) * (7038563267626664 / 2 ^ 48)" 62 "6825215795968536"]
  by simp

lemma step_20: "xadd (Fin (6825215795968536 / 2 ^ 62)) (Fin (- (4715333661691543 / 2 ^ 60))) = Fin (- (6018059425398818 / 2 ^ 61))"
  using rnd_cert [of "(6825215795968536 / 2 ^ 62) + (- (4715333661691543 / 2 ^ 60))" 61 "-6018059425398818"]
  by simp

lemma step_21: "xmul (Fin (- (6018059425398818 / 2 ^ 61))) (Fin (7038563267626664 / 2 ^ 48)) = Fin (- (4702737312235089 / 2 ^ 56))"
  using rnd_cert [of "(- (6018059425398818 / 2 ^ 61)) * (7038563267626664 / 2 ^ 48)" 56 "-4702737312235089"]
  by simp

lemma step_22: "xadd (Fin (- (4702737312235089 / 2 ^ 56))) (Fin (7426372735139165 / 2 ^ 53)) = Fin (6838530571109779 / 2 ^ 53)"
  using rnd_cert [of "(- (4702737312235089 / 2 ^ 56)) + (7426372735139165 / 2 ^ 53)" 53 "6838530571109779"]
  by simp

lemma step_23: "xadd (Fin 0) (Fin (- (7813627582556115 / 2 ^ 72))) = Fin (- (7813627582556115 / 2 ^ 72))"
  using rnd_cert [of "0 + (- (7813627582556115 / 2 ^ 72))" 72 "-7813627582556115"]
  by simp

lemma step_24: "xmul (Fin (- (7813627582556115 / 2 ^ 72))) (Fin (7038563267626664 / 2 ^ 48)) = Fin (- (6105861604043694 / 2 ^ 67))"
  using rnd_cert [of "(- (7813627582556115 / 2 ^ 72)) * (7038563267626664 / 2 ^ 48)" 67 "-6105861604043694"]
  by simp

lemma step_25: "xadd (Fin (- (6105861604043694 / 2 ^ 67))) (Fin (7546194065673103 / 2 ^ 66)) = Fin (8986526527302512 / 2 ^ 67)"
  using rnd_cert [of "(- (6105861604043694 / 2 ^ 67)) + (7546194065673103 / 2 ^ 66)" 67 "8986526527302512"]
  by simp

lemma step_26: "xmul (Fin (8986526527302512 / 2 ^ 67)) (Fin (7038563267626664 / 2 ^ 48)) = Fin (7022408823178957 / 2 ^ 62)"
  using rnd_cert [of "(8986526527302512 / 2 ^ 67) * (7038563267626664 / 2 ^ 48)" 62 "7022408823178957"]
  by simp

lemma step_27: "xadd (Fin (7022408823178957 / 2 ^ 62)) (Fin (- (6600083620562633 / 2 ^ 60))) = Fin (- (4844481414767894 / 2 ^ 60))"
  using rnd_cert [of "(7022408823178957 / 2 ^ 62) + (- (6600083620562633 / 2 ^ 60))" 60 "-4844481414767894"]
  by simp

lemma step_28: "xmul (Fin 0) (Fin (6660913676665389 / 2 ^ 50)) = Fin 0"
  by simp

lemma step_29: "xadd (Fin 0) (Fin (8912359931772033 / 2 ^ 64)) = Fin (8912359931772033 / 2 ^ 64)"
  using rnd_cert [of "0 + (8912359931772033 / 2 ^ 64)" 64 "8912359931772033"]
  by simp

lemma step_30: "xmul (Fin (8912359931772033 / 2 ^ 64)) (Fin (6660913676665389 / 2 ^ 50)) = Fin (6590779051507950 / 2 ^ 61)"
  using rnd_cert [of "(8912359931772033 / 2 ^ 64) * (6660913676665389 / 2 ^ 50)" 61 "6590779051507950"]
  by simp

lemma step_31: "xadd (Fin (6590779051507950 / 2 ^ 61)) (Fin (- (4844481414767894 / 2 ^ 60))) = Fin (- (6196367556055676 / 2 ^ 62))"
  using rnd_cert [of "(6590779051507950 / 2 ^ 61) + (- (4844481414767894 / 2 ^ 60))" 62 "-6196367556055676"]
  by simp

lemma step_32: "xmul (Fin (- (6196367556055676 / 2 ^ 62))) (Fin (6660913676665389 / 2 ^ 50)) = Fin (- (4582275603379420 / 2 ^ 59))"
  using rnd_cert [of "(- (6196367556055676 / 2 ^ 62)) * (6660913676665389 / 2 ^ 50)" 59 "-4582275603379420"]
  by simp

lemma step_33: "xadd (Fin (- (4582275603379420 / 2 ^ 59))) (Fin (6838530571109779 / 2 ^ 53)) = Fin (6766932514806976 / 2 ^ 53)"
  using rnd_cert [of "(- (4582275603379420 / 2 ^ 59)) + (6838530571109779 / 2 ^ 53)" 53 "6766932514806976"]
  by simp

lemma step_34: "xmul (Fin (6766932514806976 / 2 ^ 53)) (Fin (6660913676665389 / 2 ^ 50)) = Fin (5004214080556124 / 2 ^ 50)"
  using rnd_cert [of "(6766932514806976 / 2 ^ 53) * (6660913676665389 / 2 ^ 50)" 50 "5004214080556124"]
  by simp

lemma step_35: "xadd (Fin (5004214080556124 / 2 ^ 50)) (Fin 0) = Fin (5004214080556124 / 2 ^ 50)"
  using rnd_cert [of "(5004214080556124 / 2 ^ 50) + 0" 50 "5004214080556124"]
  by simp

lemma step_36: "xmul (Fin (5004214080556124 / 2 ^ 50)) (Fin (6660913676665389 / 2 ^ 50)) = Fin (7401332438070130 / 2 ^ 48)"
  using rnd_cert [of "(5004214080556124 / 2 ^ 50) * (6660913676665389 / 2 ^ 50)" 48 "7401332438070130"]
  by simp

lemma step_37: "xadd (Fin (7401332438070130 / 2 ^ 48)) (Fin (8770113056448262 / 2 ^ 43)) = Fin (9001404695137954 / 2 ^ 43)"
  using rnd_cert [of "(7401332438070130 / 2 ^ 48) + (8770113056448262 / 2 ^ 43)" 43 "9001404695137954"]
  by simp

lemma step_38: "xmul (Fin 0) (Fin (7205759403792794 / 2 ^ 56)) = Fin 0"
  by simp

lemma step_39: "xadd (Fin 0) (Fin (- (7607862268981277 / 2 ^ 67))) = Fin (- (7607862268981277 / 2 ^ 67))"
  using rnd_cert [of "0 + (- (7607862268981277 / 2 ^ 67))" 67 "-7607862268981277"]
  by simp

lemma step_40: "xmul (Fin (- (7607862268981277 / 2 ^ 67))) (Fin (7038563267626664 / 2 ^ 48)) = Fin (- (5945068871817057 / 2 ^ 62))"
  using rnd_cert [of "(- (7607862268981277 / 2 ^ 67)) * (7038563267626664 / 2 ^ 48)" 62 "-5945068871817057"]
  by simp

lemma step_41: "xadd (Fin (- (5945068871817057 / 2 ^ 62))) (Fin (7842615949115047 / 2 ^ 59)) = Fin (7099482340137915 / 2 ^ 59)"
  using rnd_cert [of "(- (5945068871817057 / 2 ^ 62)) + (7842615949115047 / 2 ^ 59)" 59 "7099482340137915"]
  by simp

lemma step_42: "xmul (Fin (7099482340137915 / 2 ^ 59)) (Fin (7038563267626664 / 2 ^ 48)) = Fin (5547801731171522 / 2 ^ 54)"
  using rnd_cert [of "(7099482340137915 / 2 ^ 59) * (7038563267626664 / 2 ^ 48)" 54 "5547801731171522"]
  by simp

lemma step_43: "xadd (Fin (5547801731171522 / 2 ^ 54)) (Fin (- (5240174605426009 / 2 ^ 51))) = Fin (- (4546699389029569 / 2 ^ 51))"
  using rnd_cert [of "(5547801731171522 / 2 ^ 54) + (- (5240174605426009 / 2 ^ 51))" 51 "-4546699389029569"]
  by simp

lemma step_44: "xmul (Fin (- (4546699389029569 / 2 ^ 51))) (Fin (7038563267626664 / 2 ^ 48)) = Fin (- (7105922807629588 / 2 ^ 47))"
  using rnd_cert [of "(- (4546699389029569 / 2 ^ 51)) * (7038563267626664 / 2 ^ 48)" 47 "-7105922807629588"]
  by simp

lemma step_45: "xadd (Fin (- (7105922807629588 / 2 ^ 47))) (Fin (5222085616047699 / 2 ^ 45)) = Fin (6891209828280604 / 2 ^ 46)"
  using rnd_cert [of "(- (7105922807629588 / 2 ^ 47)) + (5222085616047699 / 2 ^ 45)" 46 "6891209828280604"]
  by simp

lemma step_46: "xmul (Fin (6891209828280604 / 2 ^ 46)) (Fin (7038563267626664 / 2 ^ 48)) = Fin (5385049780187025 / 2 ^ 41)"
  using rnd_cert [of "(6891209828280604 / 2 ^ 46) * (7038563267626664 / 2 ^ 48)" 41 "5385049780187025"]
  by simp

lemma step_47: "xadd (Fin (5385049780187025 / 2 ^ 41)) (Fin (5401958351623946 / 2 ^ 38)) = Fin (6075089574147324 / 2 ^ 38)"
  using rnd_cert [of "(5385049780187025 / 2 ^ 41) + (5401958351623946 / 2 ^ 38)" 38 "6075089574147324"]
  by simp

lemma step_48: "xadd (Fin 0) (Fin (- (4550442828102672 / 2 ^ 66))) = Fin (- (4550442828102672 / 2 ^ 66))"
  using rnd_cert [of "0 + (- (4550442828102672 / 2 ^ 66))" 66 "-4550442828102672"]
  by simp

lemma step_49: "xmul (Fin (- (4550442828102672 / 2 ^ 66))) (Fin (7038563267626664 / 2 ^ 48)) = Fin (- (7111773334970964 / 2 ^ 62))"
  using rnd_cert [of "(- (4550442828102672 / 2 ^ 66)) * (7038563267626664 / 2 ^ 48)" 62 "-7111773334970964"]
  by simp

lemma step_50: "xadd (Fin (- (7111773334970964 / 2 ^ 62))) (Fin (6340318876359664 / 2 ^ 59)) = Fin (5451347209488294 / 2 ^ 59)"
  using rnd_cert [of "(- (7111773334970964 / 2 ^ 62)) + (6340318876359664 / 2 ^ 59)" 59 "5451347209488294"]
  by simp

lemma step_51: "xmul (Fin (5451347209488294 / 2 ^ 59)) (Fin (7038563267626664 / 2 ^ 48)) = Fin (8519774270029018 / 2 ^ 55)"
  using rnd_cert [of "(5451347209488294 / 2 ^ 59) * (7038563267626664 / 2 ^ 48)" 55 "8519774270029018"]
  by simp

lemma step_52: "xadd (Fin (8519774270029018 / 2 ^ 55)) (Fin (- (5435475455066744 / 2 ^ 53))) = Fin (- (6611063775118979 / 2 ^ 54))"
  using rnd_cert [of "(8519774270029018 / 2 ^ 55) + (- (5435475455066744 / 2 ^ 53))" 54 "-6611063775118979"]
  by simp

lemma step_53: "xmul (Fin (- (6611063775118979 / 2 ^ 54))) (Fin (7038563267626664 / 2 ^ 48)) = Fin (- (5166133148769537 / 2 ^ 49))"
  using rnd_cert [of "(- (6611063775118979 / 2 ^ 54)) * (7038563267626664 / 2 ^ 48)" 49 "-5166133148769537"]
  by simp

lemma step_54: "xadd (Fin (- (5166133148769537 / 2 ^ 49))) (Fin (7694765880832216 / 2 ^ 47)) = Fin (6403232593639832 / 2 ^ 47)"
  using rnd_cert [of "(- (5166133148769537 / 2 ^ 49)) + (7694765880832216 / 2 ^ 47)" 47 "6403232593639832"]
  by simp

lemma step_55: "xadd (Fin 0) (Fin (- (4889217283016348 / 2 ^ 63))) = Fin (- (4889217283016348 / 2 ^ 63))"
  using rnd_cert [of "0 + (- (4889217283016348 / 2 ^ 63))" 63 "-4889217283016348"]
  by simp

lemma step_56: "xmul (Fin (- (4889217283016348 / 2 ^ 63))) (Fin (7038563267626664 / 2 ^ 48)) = Fin (- (7641235461194175 / 2 ^ 59))"
  using rnd_cert [of "(- (4889217283016348 / 2 ^ 63)) * (7038563267626664 / 2 ^ 48)" 59 "-7641235461194175"]
  by simp

lemma step_57: "xadd (Fin (- (7641235461194175 / 2 ^ 59))) (Fin (4750901290108665 / 2 ^ 58)) = Fin (7442268476092620 / 2 ^ 61)"
  using rnd_cert [of "(- (7641235461194175 / 2 ^ 59)) + (4750901290108665 / 2 ^ 58)" 61 "7442268476092620"]
  by simp

lemma step_58: "xmul (Fin (7442268476092620 / 2 ^ 61)) (Fin (7038563267626664 / 2 ^ 48)) = Fin (5815667672286627 / 2 ^ 56)"
  using rnd_cert [of "(7442268476092620 / 2 ^ 61) * (7038563267626664 / 2 ^ 48)" 56 "5815667672286627"]
  by simp

lemma step_59: "xadd (Fin (5815667672286627 / 2 ^ 56)) (Fin (5724255270372995 / 2 ^ 56)) = Fin (5769961471329811 / 2 ^ 55)"
  using rnd_cert [of "(5815667672286627 / 2 ^ 56) + (5724255270372995 / 2 ^ 56)" 55 "5769961471329811"]
  by simp

lemma step_60: "xmul (Fin (6403232593639832 / 2 ^ 47)) (Fin 35) = Fin (7003535649293566 / 2 ^ 42)"
  using rnd_cert [of "(6403232593639832 / 2 ^ 47) * 35" 42 "7003535649293566"]
  by simp

lemma step_61: "xadd (Fin (6075089574147324 / 2 ^ 38)) (Fin (7003535649293566 / 2 ^ 42)) = Fin (6512810552228172 / 2 ^ 38)"
  using rnd_cert [of "(6075089574147324 / 2 ^ 38) + (7003535649293566 / 2 ^ 42)" 38 "6512810552228172"]
  by simp

lemma step_62: "xmul (Fin (5769961471329811 / 2 ^ 55)) (Fin (7285374333852769 / 2 ^ 45)) = Fin (4666970056027072 / 2 ^ 47)"
  using rnd_cert [of "(5769961471329811 / 2 ^ 55) * (7285374333852769 / 2 ^ 45)" 47 "4666970056027072"]
  by simp

lemma step_63: "xadd (Fin (6512810552228172 / 2 ^ 38)) (Fin (4666970056027072 / 2 ^ 47)) = Fin (6521925728118850 / 2 ^ 38)"
  using rnd_cert [of "(6512810552228172 / 2 ^ 38) + (4666970056027072 / 2 ^ 47)" 38 "6521925728118850"]
  by simp

lemma step_64: "xadd (Fin 0) (Fin (- (5458158404565565 / 2 ^ 73))) = Fin (- (5458158404565565 / 2 ^ 73))"
  using rnd_cert [of "0 + (- (5458158404565565 / 2 ^ 73))" 73 "-5458158404565565"]
  by simp

lemma step_65: "xmul (Fin (- (5458158404565565 / 2 ^ 73))) (Fin (7038563267626664 / 2 ^ 48)) = Fin (- (8530419316535407 / 2 ^ 69))"
  using rnd_cert [of "(- (5458158404565565 / 2 ^ 73)) * (7038563267626664 / 2 ^ 48)" 69 "-8530419316535407"]
  by simp

lemma step_66: "xadd (Fin (- (8530419316535407 / 2 ^ 69))) (Fin (8566077652020357 / 2 ^ 66)) = Fin (7499775237453431 / 2 ^ 66)"
  using rnd_cert [of "(- (8530419316535407 / 2 ^ 69)) + (8566077652020357 / 2 ^ 66)" 66 "7499775237453431"]
  by simp

lemma step_67: "xmul (Fin (7499775237453431 / 2 ^ 66)) (Fin (7038563267626664 / 2 ^ 48)) = Fin (5860605612117516 / 2 ^ 61)"
  using rnd_cert [of "(7499775237453431 / 2 ^ 66) * (7038563267626664 / 2 ^ 48)" 61 "5860605612117516"]
  by simp

lemma step_68: "xadd (Fin (5860605612117516 / 2 ^ 61)) (Fin (6627592327662552 / 2 ^ 62)) = Fin (4587200887974396 / 2 ^ 60)"
  using rnd_cert [of "(5860605612117516 / 2 ^ 61) + (6627592327662552 / 2 ^ 62)" 60 "4587200887974396"]
  by simp

lemma step_69: "xmul (Fin (4587200887974396 / 2 ^ 60)) (Fin (7038563267626664 / 2 ^ 48)) = Fin (7169221587792984 / 2 ^ 56)"
  using rnd_cert [of "(4587200887974396 / 2 ^ 60) * (7038563267626664 / 2 ^ 48)" 56 "7169221587792984"]
  by simp

lemma step_70: "xadd (Fin (7169221587792984 / 2 ^ 56)) (Fin (7295624230757344 / 2 ^ 51)) = Fin (7519662405375875 / 2 ^ 51)"
  using rnd_cert [of "(7169221587792984 / 2 ^ 56) + (7295624230757344 / 2 ^ 51)" 51 "7519662405375875"]
  by simp

lemma step_71: "xadd (Fin 0) (Fin (- (7592620831157816 / 2 ^ 72))) = Fin (- (7592620831157816 / 2 ^ 72))"
  using rnd_cert [of "0 + (- (7592620831157816 / 2 ^ 72))" 72 "-7592620831157816"]
  by simp

lemma step_72: "xmul (Fin (- (7592620831157816 / 2 ^ 72))) (Fin (7038563267626664 / 2 ^ 48)) = Fin (- (5933158640747886 / 2 ^ 67))"
  using rnd_cert [of "(- (7592620831157816 / 2 ^ 72)) * (7038563267626664 / 2 ^ 48)" 67 "-5933158640747886"]
  by simp

lemma step_73: "xadd (Fin (- (5933158640747886 / 2 ^ 67))) (Fin (- (6482038293548947 / 2 ^ 69))) = Fin (- (7553668214135123 / 2 ^ 67))"
  using rnd_cert [of "(- (5933158640747886 / 2 ^ 67)) + (- (6482038293548947 / 2 ^ 69))" 67 "-7553668214135123"]
  by simp

lemma step_74: "xmul (Fin (- (7553668214135123 / 2 ^ 67))) (Fin (7038563267626664 / 2 ^ 48)) = Fin (- (5902719605083215 / 2 ^ 62))"
  using rnd_cert [of "(- (7553668214135123 / 2 ^ 67)) * (7038563267626664 / 2 ^ 48)" 62 "-5902719605083215"]
  by simp

lemma step_75: "xadd (Fin (- (5902719605083215 / 2 ^ 62))) (Fin (5266084264442234 / 2 ^ 61)) = Fin (4629448923801253 / 2 ^ 62)"
  using rnd_cert [of "(- (5902719605083215 / 2 ^ 62)) + (5266084264442234 / 2 ^ 61)" 62 "4629448923801253"]
  by simp

lemma step_76: "xmul (Fin (4629448923801253 / 2 ^ 62)) (Fin 35) = Fin (5063459760407620 / 2 ^ 57)"
  using rnd_cert [of "(4629448923801253 / 2 ^ 62) * 35" 57 "5063459760407620"]
  by simp

lemma step_77: "xadd (Fin (7519662405375875 / 2 ^ 51)) (Fin (5063459760407620 / 2 ^ 57)) = Fin (7598778964132244 / 2 ^ 51)"
  using rnd_cert [of "(7519662405375875 / 2 ^ 51) + (5063459760407620 / 2 ^ 57)" 51 "7598778964132244"]
  by simp

lemma step_78: "xmul (Fin (7049423247768105 / 2 ^ 65)) (Fin (7285374333852769 / 2 ^ 45)) = Fin (5701848681844399 / 2 ^ 57)"
  using rnd_cert [of "(7049423247768105 / 2 ^ 65) * (7285374333852769 / 2 ^ 45)" 57 "5701848681844399"]
  by simp

lemma step_79: "xadd (Fin (7598778964132244 / 2 ^ 51)) (Fin (5701848681844399 / 2 ^ 57)) = Fin (7687870349786063 / 2 ^ 51)"
  using rnd_cert [of "(7598778964132244 / 2 ^ 51) + (5701848681844399 / 2 ^ 57)" 51 "7687870349786063"]
  by simp

lemma step_80: "xadd (Fin 0) (Fin (7976945904999679 / 2 ^ 77)) = Fin (7976945904999679 / 2 ^ 77)"
  using rnd_cert [of "0 + (7976945904999679 / 2 ^ 77)" 77 "7976945904999679"]
  by simp

lemma step_81: "xmul (Fin (7976945904999679 / 2 ^ 77)) (Fin (7038563267626664 / 2 ^ 48)) = Fin (6233484665638187 / 2 ^ 72)"
  using rnd_cert [of "(7976945904999679 / 2 ^ 77) * (7038563267626664 / 2 ^ 48)" 72 "6233484665638187"]
  by simp

lemma step_82: "xadd (Fin (6233484665638187 / 2 ^ 72)) (Fin (- (7228679852239259 / 2 ^ 70))) = Fin (- (5670308685829712 / 2 ^ 70))"
  using rnd_cert [of "(6233484665638187 / 2 ^ 72) + (- (7228679852239259 / 2 ^ 70))" 70 "-5670308685829712"]
  by simp

lemma step_83: "xmul (Fin (- (5670308685829712 / 2 ^ 70))) (Fin (7038563267626664 / 2 ^ 48)) = Fin (- (8861983687366111 / 2 ^ 66))"
  using rnd_cert [of "(- (5670308685829712 / 2 ^ 70)) * (7038563267626664 / 2 ^ 48)" 66 "-8861983687366111"]
  by simp

lemma step_84: "xadd (Fin (- (8861983687366111 / 2 ^ 66))) (Fin (6278792067344815 / 2 ^ 66)) = Fin (- (5166383240042592 / 2 ^ 67))"
  using rnd_cert [of "(- (8861983687366111 / 2 ^ 66)) + (6278792067344815 / 2 ^ 66)" 67 "-5166383240042592"]
  by simp

lemma step_85: "xadd (Fin 0) (Fin (8868389670496212 / 2 ^ 83)) = Fin (8868389670496212 / 2 ^ 83)"
  using rnd_cert [of "0 + (8868389670496212 / 2 ^ 83)" 83 "8868389670496212"]
  by simp

lemma step_86: "xmul (Fin (8868389670496212 / 2 ^ 83)) (Fin (7038563267626664 / 2 ^ 48)) = Fin (6930092253138384 / 2 ^ 78)"
  using rnd_cert [of "(8868389670496212 / 2 ^ 83) * (7038563267626664 / 2 ^ 48)" 78 "6930092253138384"]
  by simp

lemma step_87: "xadd (Fin (6930092253138384 / 2 ^ 78)) (Fin (6291249965274530 / 2 ^ 78)) = Fin (6610671109206457 / 2 ^ 77)"
  using rnd_cert [of "(6930092253138384 / 2 ^ 78) + (6291249965274530 / 2 ^ 78)" 77 "6610671109206457"]
  by simp

lemma step_88: "xmul (Fin (6610671109206457 / 2 ^ 77)) (Fin (7038563267626664 / 2 ^ 48)) = Fin (5165826304900521 / 2 ^ 72)"
  using rnd_cert [of "(6610671109206457 / 2 ^ 77) * (7038563267626664 / 2 ^ 48)" 72 "5165826304900521"]
  by simp

lemma step_89: "xadd (Fin (5165826304900521 / 2 ^ 72)) (Fin (- (4691576653401335 / 2 ^ 72))) = Fin (7587994423986976 / 2 ^ 76)"
  using rnd_cert [of "(5165826304900521 / 2 ^ 72) + (- (4691576653401335 / 2 ^ 72))" 76 "7587994423986976"]
  by simp

lemma step_90: "xmul (Fin (7587994423986976 / 2 ^ 76)) (Fin 35) = Fin (8299368901235755 / 2 ^ 71)"
  using rnd_cert [of "(7587994423986976 / 2 ^ 76) * 35" 71 "8299368901235755"]
  by simp

lemma step_91: "xadd (Fin (- (5166383240042592 / 2 ^ 67))) (Fin (8299368901235755 / 2 ^ 71)) = Fin (- (4647672683715357 / 2 ^ 67))"
  using rnd_cert [of "(- (5166383240042592 / 2 ^ 67)) + (8299368901235755 / 2 ^ 71)" 67 "-4647672683715357"]
  by simp

lemma step_92: "xmul (Fin 0) (Fin 0) = Fin 0"
  by simp

lemma step_93: "xadd (Fin 0) (Fin (- (4647672683715357 / 2 ^ 67))) = Fin (- (4647672683715357 / 2 ^ 67))"
  using rnd_cert [of "0 + (- (4647672683715357 / 2 ^ 67))" 67 "-4647672683715357"]
  by simp

lemma step_94: "xmul (Fin (- (4647672683715357 / 2 ^ 67))) (Fin 0) = Fin 0"
  by simp

lemma step_95: "xadd (Fin 0) (Fin (7687870349786063 / 2 ^ 51)) = Fin (7687870349786063 / 2 ^ 51)"
  using rnd_cert [of "0 + (7687870349786063 / 2 ^ 51)" 51 "7687870349786063"]
  by simp

lemma step_96: "xmul (Fin (7687870349786063 / 2 ^ 51)) (Fin 0) = Fin 0"
  by simp

lemma step_97: "xadd (Fin 0) (Fin (6521925728118850 / 2 ^ 38)) = Fin (6521925728118850 / 2 ^ 38)"
  using rnd_cert [of "0 + (6521925728118850 / 2 ^ 38)" 38 "6521925728118850"]
  by simp

lemma step_98: "py_div (Flt (Fin 0)) (Flt (Fin (6521925728118850 / 2 ^ 38))) = Inr (Flt (Fin 0))"
  by simp

lemma step_99: "xsub (Fin 1) (Fin 0) = Fin 1"
  using rnd_cert [of "1 - 0" 52 "4503599627370496"]
  by (simp add: xsub_def)

lemma step_100: "py_div (Flt (Fin (9001404695137954 / 2 ^ 43))) (Flt (Fin 1)) = Inr (Flt (Fin (9001404695137954 / 2 ^ 43)))"
  using rnd_cert [of "(9001404695137954 / 2 ^ 43) / 1" 43 "9001404695137954"]
  by simp

lemma step_101: "xmul (Fin 0) (Fin (4504680491281065 / 2 ^ 52)) = Fin 0"
  by simp

lemma step_102: "xmul (Fin (7901940520373328 / 2 ^ 80)) (Fin 0) = Fin 0"
  by simp

lemma step_103: "xadd (Fin 0) (Fin (- (5289442417232081 / 2 ^ 72))) = Fin (- (5289442417232081 / 2 ^ 72))"
  using rnd_cert [of "0 + (- (5289442417232081 / 2 ^ 72))" 72 "-5289442417232081"]
  by simp

lemma step_104: "xmul (Fin (- (5289442417232081 / 2 ^ 72))) (Fin 0) = Fin 0"
  by simp

lemma step_105: "xadd (Fin 0) (Fin (7391130734989501 / 2 ^ 66)) = Fin (7391130734989501 / 2 ^ 66)"
  using rnd_cert [of "0 + (7391130734989501 / 2 ^ 66)" 66 "7391130734989501"]
  by simp

lemma step_106: "xmul (Fin (7391130734989501 / 2 ^ 66)) (Fin 0) = Fin 0"
  by simp

lemma step_107: "xadd (Fin 0) (Fin (- (5243077715817805 / 2 ^ 59))) = Fin (- (5243077715817805 / 2 ^ 59))"
  using rnd_cert [of "0 + (- (5243077715817805 / 2 ^ 59))" 59 "-5243077715817805"]
  by simp

lemma step_108: "xmul (Fin (- (5243077715817805 / 2 ^ 59))) (Fin 0) = Fin 0"
  by simp

lemma step_109: "xadd (Fin 0) (Fin (4895558351291686 / 2 ^ 56)) = Fin (4895558351291686 / 2 ^ 56)"
  using rnd_cert [of "0 + (4895558351291686 / 2 ^ 56)" 56 "4895558351291686"]
  by simp

lemma step_110: "xmul (Fin (4895558351291686 / 2 ^ 56)) (Fin 0) = Fin 0"
  by simp

lemma step_111: "xadd (Fin 0) (Fin (8794708464389746 / 2 ^ 43)) = Fin (8794708464389746 / 2 ^ 43)"
  using rnd_cert [of "0 + (8794708464389746 / 2 ^ 43)" 43 "8794708464389746"]
  by simp

lemma step_112: "xmul (Fin (6513087853173815 / 2 ^ 80)) (Fin 0) = Fin 0"
  by simp

lemma step_113: "xadd (Fin 0) (Fin (- (7788787934856221 / 2 ^ 73))) = Fin (- (7788787934856221 / 2 ^ 73))"
  using rnd_cert [of "0 + (- (7788787934856221 / 2 ^ 73))" 73 "-7788787934856221"]
  by simp

lemma step_114: "xmul (Fin (- (7788787934856221 / 2 ^ 73))) (Fin 0) = Fin 0"
  by simp

lemma step_115: "xadd (Fin 0) (Fin (5640128894024843 / 2 ^ 66)) = Fin (5640128894024843 / 2 ^ 66)"
  using rnd_cert [of "0 + (5640128894024843 / 2 ^ 66)" 66 "5640128894024843"]
  by simp

lemma step_116: "xmul (Fin (5640128894024843 / 2 ^ 66)) (Fin 0) = Fin 0"
  by simp

lemma step_117: "xadd (Fin 0) (Fin (- (4715333661691543 / 2 ^ 60))) = Fin (- (4715333661691543 / 2 ^ 60))"
  using rnd_cert [of "0 + (- (4715333661691543 / 2 ^ 60))" 60 "-4715333661691543"]
  by simp

lemma step_118: "xmul (Fin (- (4715333661691543 / 2 ^ 60))) (Fin 0) = Fin 0"
  by simp

lemma step_119: "xadd (Fin 0) (Fin (7426372735139165 / 2 ^ 53)) = Fin (7426372735139165 / 2 ^ 53)"
  using rnd_cert [of "0 + (7426372735139165 / 2 ^ 53)" 53 "7426372735139165"]
  by simp

lemma step_120: "xmul (Fin (- (7813627582556115 / 2 ^ 72))) (Fin 0) = Fin 0"
  by simp

lemma step_121: "xadd (Fin 0) (Fin (7546194065673103 / 2 ^ 66)) = Fin (7546194065673103 / 2 ^ 66)"
  using rnd_cert [of "0 + (7546194065673103 / 2 ^ 66)" 66 "7546194065673103"]
  by simp

lemma step_122: "xmul (Fin (7546194065673103 / 2 ^ 66)) (Fin 0) = Fin 0"
  by simp

lemma step_123: "xadd (Fin 0) (Fin (- (6600083620562633 / 2 ^ 60))) = Fin (- (6600083620562633 / 2 ^ 60))"
  using rnd_cert [of "0 + (- (6600083620562633 / 2 ^ 60))" 60 "-6600083620562633"]
  by simp

lemma step_124: "xmul (Fin 0) (Fin 10) = Fin 0"
  by simp

lemma step_125: "xmul (Fin (8912359931772033 / 2 ^ 64)) (Fin 10) = Fin (5570224957357521 / 2 ^ 60)"
  using rnd_cert [of "(8912359931772033 / 2 ^ 64) * 10" 60 "5570224957357521"]
  by simp

lemma step_126: "xadd (Fin (5570224957357521 / 2 ^ 60)) (Fin (- (6600083620562633 / 2 ^ 60))) = Fin (- (8238869305640896 / 2 ^ 63))"
  using rnd_cert [of "(5570224957357521 / 2 ^ 60) + (- (6600083620562633 / 2 ^ 60))" 63 "-8238869305640896"]
  by simp

lemma step_127: "xmul (Fin (- (8238869305640896 / 2 ^ 63))) (Fin 10) = Fin (- (5149293316025560 / 2 ^ 59))"
  using rnd_cert [of "(- (8238869305640896 / 2 ^ 63)) * 10" 59 "-5149293316025560"]
  by simp

lemma step_128: "xadd (Fin (- (5149293316025560 / 2 ^ 59))) (Fin (7426372735139165 / 2 ^ 53)) = Fin (7345915027076266 / 2 ^ 53)"
  using rnd_cert [of "(- (5149293316025560 / 2 ^ 59)) + (7426372735139165 / 2 ^ 53)" 53 "7345915027076266"]
  by simp

lemma step_129: "xmul (Fin (7345915027076266 / 2 ^ 53)) (Fin 10) = Fin (4591196891922666 / 2 ^ 49)"
  using rnd_cert [of "(7345915027076266 / 2 ^ 53) * 10" 49 "4591196891922666"]
  by simp

lemma step_130: "xadd (Fin (4591196891922666 / 2 ^ 49)) (Fin 0) = Fin (4591196891922666 / 2 ^ 49)"
  using rnd_cert [of "(4591196891922666 / 2 ^ 49) + 0" 49 "4591196891922666"]
  by simp

lemma step_131: "xmul (Fin (4591196891922666 / 2 ^ 49)) (Fin 10) = Fin (5738996114903332 / 2 ^ 46)"
  using rnd_cert [of "(4591196891922666 / 2 ^ 49) * 10" 46 "5738996114903332"]
  by simp

lemma step_132: "xadd (Fin (5738996114903332 / 2 ^ 46)) (Fin (8794708464389746 / 2 ^ 43)) = Fin (4756041489376331 / 2 ^ 42)"
  using rnd_cert [of "(5738996114903332 / 2 ^ 46) + (8794708464389746 / 2 ^ 43)" 42 "4756041489376331"]
  by simp

lemma step_133: "xmul (Fin (8400992335332046 / 2 ^ 32)) (Fin (7205759403792794 / 2 ^ 56)) = Fin (6720793868265637 / 2 ^ 35)"
  using rnd_cert [of "(8400992335332046 / 2 ^ 32) * (7205759403792794 / 2 ^ 56)" 35 "6720793868265637"]
  by simp

lemma step_134: "xmul (Fin (- (7607862268981277 / 2 ^ 67))) (Fin 0) = Fin 0"
  by simp

lemma step_135: "xadd (Fin 0) (Fin (7842615949115047 / 2 ^ 59)) = Fin (7842615949115047 / 2 ^ 59)"
  using rnd_cert [of "0 + (7842615949115047 / 2 ^ 59)" 59 "7842615949115047"]
  by simp

lemma step_136: "xmul (Fin (7842615949115047 / 2 ^ 59)) (Fin 0) = Fin 0"
  by simp

lemma step_137: "xadd (Fin 0) (Fin (- (5240174605426009 / 2 ^ 51))) = Fin (- (5240174605426009 / 2 ^ 51))"
  using rnd_cert [of "0 + (- (5240174605426009 / 2 ^ 51))" 51 "-5240174605426009"]
  by simp

lemma step_138: "xmul (Fin (- (5240174605426009 / 2 ^ 51))) (Fin 0) = Fin 0"
  by simp

lemma step_139: "xadd (Fin 0) (Fin (5222085616047699 / 2 ^ 45)) = Fin (5222085616047699 / 2 ^ 45)"
  using rnd_cert [of "0 + (5222085616047699 / 2 ^ 45)" 45 "5222085616047699"]
  by simp

lemma step_140: "xmul (Fin (5222085616047699 / 2 ^ 45)) (Fin 0) = Fin 0"
  by simp

lemma step_141: "xadd (Fin 0) (Fin (5401958351623946 / 2 ^ 38)) = Fin (5401958351623946 / 2 ^ 38)"
  using rnd_cert [of "0 + (5401958351623946 / 2 ^ 38)" 38 "5401958351623946"]
  by simp

lemma step_142: "xmul (Fin (- (4550442828102672 / 2 ^ 66))) (Fin 0) = Fin 0"
  by simp

lemma step_143: "xadd (Fin 0) (Fin (6340318876359664 / 2 ^ 59)) = Fin (6340318876359664 / 2 ^ 59)"
  using rnd_cert [of "0 + (6340318876359664 / 2 ^ 59)" 59 "6340318876359664"]
  by simp

lemma step_144: "xmul (Fin (6340318876359664 / 2 ^ 59)) (Fin 0) = Fin 0"
  by simp

lemma step_145: "xadd (Fin 0) (Fin (- (5435475455066744 / 2 ^ 53))) = Fin (- (5435475455066744 / 2 ^ 53))"
  using rnd_cert [of "0 + (- (5435475455066744 / 2 ^ 53))" 53 "-5435475455066744"]
  by simp

lemma step_146: "xmul (Fin (- (5435475455066744 / 2 ^ 53))) (Fin 0) = Fin 0"
  by simp

lemma step_147: "xadd (Fin 0) (Fin (7694765880832216 / 2 ^ 47)) = Fin (7694765880832216 / 2 ^ 47)"
  using rnd_cert [of "0 + (7694765880832216 / 2 ^ 47)" 47 "7694765880832216"]
  by simp

lemma step_148: "xmul (Fin (- (4889217283016348 / 2 ^ 63))) (Fin 0) = Fin 0"
  by simp

lemma step_149: "xadd (Fin 0) (Fin (4750901290108665 / 2 ^ 58)) = Fin (4750901290108665 / 2 ^ 58)"
  using rnd_cert [of "0 + (4750901290108665 / 2 ^ 58)" 58 "4750901290108665"]
  by simp

lemma step_150: "xmul (Fin (4750901290108665 / 2 ^ 58)) (Fin 0) = Fin 0"
  by simp

lemma step_151: "xadd (Fin 0) (Fin (5724255270372995 / 2 ^ 56)) = Fin (5724255270372995 / 2 ^ 56)"
  using rnd_cert [of "0 + (5724255270372995 / 2 ^ 56)" 56 "5724255270372995"]
  by simp

lemma step_152: "xmul (Fin (7694765880832216 / 2 ^ 47)) (Fin 100) = Fin (6011535844400169 / 2 ^ 40)"
  using rnd_cert [of "(7694765880832216 / 2 ^ 47) * 100" 40 "6011535844400169"]
  by simp

lemma step_153: "xadd (Fin (5401958351623946 / 2 ^ 38)) (Fin (6011535844400169 / 2 ^ 40)) = Fin (6904842312723988 / 2 ^ 38)"
  using rnd_cert [of "(5401958351623946 / 2 ^ 38) + (6011535844400169 / 2 ^ 40)" 38 "6904842312723988"]
  by simp

lemma step_154: "xmul (Fin (5724255270372995 / 2 ^ 56)) (Fin 1000) = Fin (5590093037473628 / 2 ^ 46)"
  using rnd_cert [of "(5724255270372995 / 2 ^ 56) * 1000" 46 "5590093037473628"]
  by simp

lemma step_155: "xadd (Fin (6904842312723988 / 2 ^ 38)) (Fin (5590093037473628 / 2 ^ 46)) = Fin (6926678613651619 / 2 ^ 38)"
  using rnd_cert [of "(6904842312723988 / 2 ^ 38) + (5590093037473628 / 2 ^ 46)" 38 "6926678613651619"]
  by simp

lemma step_156: "xmul (Fin (- (5458158404565565 / 2 ^ 73))) (Fin 0) = Fin 0"
  by simp

lemma step_157: "xadd (Fin 0) (Fin (8566077652020357 / 2 ^ 66)) = Fin (8566077652020357 / 2 ^ 66)"
  using rnd_cert [of "0 + (8566077652020357 / 2 ^ 66)" 66 "8566077652020357"]
  by simp

lemma step_158: "xmul (Fin (8566077652020357 / 2 ^ 66)) (Fin 0) = Fin 0"
  by simp

lemma step_159: "xadd (Fin 0) (Fin (6627592327662552 / 2 ^ 62)) = Fin (6627592327662552 / 2 ^ 62)"
  using rnd_cert [of "0 + (6627592327662552 / 2 ^ 62)" 62 "6627592327662552"]
  by simp

lemma step_160: "xmul (Fin (6627592327662552 / 2 ^ 62)) (Fin 0) = Fin 0"
  by simp

lemma step_161: "xadd (Fin 0) (Fin (7295624230757344 / 2 ^ 51)) = Fin (7295624230757344 / 2 ^ 51)"
  using rnd_cert [of "0 + (7295624230757344 / 2 ^ 51)" 51 "7295624230757344"]
  by simp

lemma step_162: "xmul (Fin (- (7592620831157816 / 2 ^ 72))) (Fin 0) = Fin 0"
  by simp

lemma step_163: "xadd (Fin 0) (Fin (- (6482038293548947 / 2 ^ 69))) = Fin (- (6482038293548947 / 2 ^ 69))"
  using rnd_cert [of "0 + (- (6482038293548947 / 2 ^ 69))" 69 "-6482038293548947"]
  by simp

lemma step_164: "xmul (Fin (- (6482038293548947 / 2 ^ 69))) (Fin 0) = Fin 0"
  by simp

lemma step_165: "xadd (Fin 0) (Fin (5266084264442234 / 2 ^ 61)) = Fin (5266084264442234 / 2 ^ 61)"
  using rnd_cert [of "0 + (5266084264442234 / 2 ^ 61)" 61 "5266084264442234"]
  by simp

lemma step_166: "xmul (Fin (5266084264442234 / 2 ^ 61)) (Fin 100) = Fin (8228256663190991 / 2 ^ 55)"
  using rnd_cert [of "(5266084264442234 / 2 ^ 61) * 100" 55 "8228256663190991"]
  by simp

lemma step_167: "xadd (Fin (7295624230757344 / 2 ^ 51)) (Fin (8228256663190991 / 2 ^ 55)) = Fin (7809890272206781 / 2 ^ 51)"
  using rnd_cert [of "(7295624230757344 / 2 ^ 51) + (8228256663190991 / 2 ^ 55)" 51 "7809890272206781"]
  by simp

lemma step_168: "xmul (Fin (7049423247768105 / 2 ^ 65)) (Fin 1000) = Fin (6884202390398540 / 2 ^ 55)"
  using rnd_cert [of "(7049423247768105 / 2 ^ 65) * 1000" 55 "6884202390398540"]
  by simp

lemma step_169: "xadd (Fin (7809890272206781 / 2 ^ 51)) (Fin (6884202390398540 / 2 ^ 55)) = Fin (8240152921606690 / 2 ^ 51)"
  using rnd_cert [of "(7809890272206781 / 2 ^ 51) + (6884202390398540 / 2 ^ 55)" 51 "8240152921606690"]
  by simp

lemma step_170: "xmul (Fin (7976945904999679 / 2 ^ 77)) (Fin 0) = Fin 0"
  by simp

lemma step_171: "xadd (Fin 0) (Fin (- (7228679852239259 / 2 ^ 70))) = Fin (- (7228679852239259 / 2 ^ 70))"
  using rnd_cert [of "0 + (- (7228679852239259 / 2 ^ 70))" 70 "-7228679852239259"]
  by simp

lemma step_172: "xmul (Fin (- (7228679852239259 / 2 ^ 70))) (Fin 0) = Fin 0"
  by simp

lemma step_173: "xadd (Fin 0) (Fin (6278792067344815 / 2 ^ 66)) = Fin (6278792067344815 / 2 ^ 66)"
  using rnd_cert [of "0 + (6278792067344815 / 2 ^ 66)" 66 "6278792067344815"]
  by simp

lemma step_174: "xmul (Fin (8868389670496212 / 2 ^ 83)) (Fin 0) = Fin 0"
  by simp

lemma step_175: "xadd (Fin 0) (Fin (6291249965274530 / 2 ^ 78)) = Fin (6291249965274530 / 2 ^ 78)"
  using rnd_cert [of "0 + (6291249965274530 / 2 ^ 78)" 78 "6291249965274530"]
  by simp

lemma step_176: "xmul (Fin (6291249965274530 / 2 ^ 78)) (Fin 0) = Fin 0"
  by simp

lemma step_177: "xadd (Fin 0) (Fin (- (4691576653401335 / 2 ^ 72))) = Fin (- (4691576653401335 / 2 ^ 72))"
  using rnd_cert [of "0 + (- (4691576653401335 / 2 ^ 72))" 72 "-4691576653401335"]
  by simp

lemma step_178: "xmul (Fin (- (4691576653401335 / 2 ^ 72))) (Fin 100) = Fin (- (7330588520939586 / 2 ^ 66))"
  using rnd_cert [of "(- (4691576653401335 / 2 ^ 72)) * 100" 66 "-7330588520939586"]
  by simp

lemma step_179: "xadd (Fin (6278792067344815 / 2 ^ 66)) (Fin (- (7330588520939586 / 2 ^ 66))) = Fin (- (8414371628758168 / 2 ^ 69))"
  using rnd_cert [of "(6278792067344815 / 2 ^ 66) + (- (7330588520939586 / 2 ^ 66))" 69 "-8414371628758168"]
  by simp

lemma step_180: "xmul (Fin 0) (Fin (6720793868265637 / 2 ^ 35)) = Fin 0"
  by simp

lemma step_181: "xadd (Fin 0) (Fin (- (8414371628758168 / 2 ^ 69))) = Fin (- (8414371628758168 / 2 ^ 69))"
  using rnd_cert [of "0 + (- (8414371628758168 / 2 ^ 69))" 69 "-8414371628758168"]
  by simp

lemma step_182: "xmul (Fin (- (8414371628758168 / 2 ^ 69))) (Fin (6720793868265637 / 2 ^ 35)) = Fin (- (6278450786808136 / 2 ^ 51))"
  using rnd_cert [of "(- (8414371628758168 / 2 ^ 69)) * (6720793868265637 / 2 ^ 35)" 51 "-6278450786808136"]
  by simp

lemma step_183: "xadd (Fin (- (6278450786808136 / 2 ^ 51))) (Fin (8240152921606690 / 2 ^ 51)) = Fin (7846808539194216 / 2 ^ 53)"
  using rnd_cert [of "(- (6278450786808136 / 2 ^ 51)) + (8240152921606690 / 2 ^ 51)" 53 "7846808539194216"]
  by simp

lemma step_184: "xmul (Fin (7846808539194216 / 2 ^ 53)) (Fin (6720793868265637 / 2 ^ 35)) = Fin (5854959041559185 / 2 ^ 35)"
  using rnd_cert [of "(7846808539194216 / 2 ^ 53) * (6720793868265637 / 2 ^ 35)" 35 "5854959041559185"]
  by simp

lemma step_185: "xadd (Fin (5854959041559185 / 2 ^ 35)) (Fin (6926678613651619 / 2 ^ 38)) = Fin (6720793868265637 / 2 ^ 35)"
  using rnd_cert [of "(5854959041559185 / 2 ^ 35) + (6926678613651619 / 2 ^ 38)" 35 "6720793868265637"]
  by simp

lemma step_186: "py_div (Flt (Fin (6720793868265637 / 2 ^ 35))) (Flt (Fin (6720793868265637 / 2 ^ 35))) = Inr (Flt (Fin 1))"
  using rnd_cert [of "(6720793868265637 / 2 ^ 35) / (6720793868265637 / 2 ^ 35)" 52 "4503599627370496"]
  by simp

lemma step_187: "xsub (Fin 1) (Fin 1) = Fin 0"
  by (simp add: xsub_def)

lemma step_188: "xmul (Fin (- (8155520498543737 / 2 ^ 47))) (Fin (4504680491281065 / 2 ^ 52)) = Fin (- (8157477823463388 / 2 ^ 47))"
  using rnd_cert [of "(- (8155520498543737 / 2 ^ 47)) * (4504680491281065 / 2 ^ 52)" 47 "-8157477823463388"]
  by simp

lemma step_189: "xmul (Fin 0) (Fin (- (8157477823463388 / 2 ^ 47))) = Fin 0"
  by simp

lemma step_190: "xmul (Fin (7901940520373328 / 2 ^ 80)) (Fin (- (8157477823463388 / 2 ^ 47))) = Fin (- (7156487020462362 / 2 ^ 74))"
  using rnd_cert [of "(7901940520373328 / 2 ^ 80) * (- (8157477823463388 / 2 ^ 47))" 74 "-7156487020462362"]
  by simp

lemma step_191: "xadd (Fin (- (7156487020462362 / 2 ^ 74))) (Fin (- (5289442417232081 / 2 ^ 72))) = Fin (- (7078564172347672 / 2 ^ 72))"
  using rnd_cert [of "(- (7156487020462362 / 2 ^ 74)) + (- (5289442417232081 / 2 ^ 72))" 72 "-7078564172347672"]
  by simp

lemma step_192: "xmul (Fin (- (7078564172347672 / 2 ^ 72))) (Fin (- (8157477823463388 / 2 ^ 47))) = Fin (6410786374853995 / 2 ^ 66)"
  using rnd_cert [of "(- (7078564172347672 / 2 ^ 72)) * (- (8157477823463388 / 2 ^ 47))" 66 "6410786374853995"]
  by simp

lemma step_193: "xadd (Fin (6410786374853995 / 2 ^ 66)) (Fin (7391130734989501 / 2 ^ 66)) = Fin (6900958554921748 / 2 ^ 65)"
  using rnd_cert [of "(6410786374853995 / 2 ^ 66) + (7391130734989501 / 2 ^ 66)" 65 "6900958554921748"]
  by simp

lemma step_194: "xmul (Fin (6900958554921748 / 2 ^ 65)) (Fin (- (8157477823463388 / 2 ^ 47))) = Fin (- (6249935721448952 / 2 ^ 59))"
  using rnd_cert [of "(6900958554921748 / 2 ^ 65) * (- (8157477823463388 / 2 ^ 47))" 59 "-6249935721448952"]
  by simp

lemma step_195: "xadd (Fin (- (6249935721448952 / 2 ^ 59))) (Fin (- (5243077715817805 / 2 ^ 59))) = Fin (- (5746506718633378 / 2 ^ 58))"
  using rnd_cert [of "(- (6249935721448952 / 2 ^ 59)) + (- (5243077715817805 / 2 ^ 59))" 58 "-5746506718633378"]
  by simp

lemma step_196: "xmul (Fin (- (5746506718633378 / 2 ^ 58))) (Fin (- (8157477823463388 / 2 ^ 47))) = Fin (5204392596839818 / 2 ^ 52)"
  using rnd_cert [of "(- (5746506718633378 / 2 ^ 58)) * (- (8157477823463388 / 2 ^ 47))" 52 "5204392596839818"]
  by simp

lemma step_197: "xadd (Fin (5204392596839818 / 2 ^ 52)) (Fin (4895558351291686 / 2 ^ 56)) = Fin (5510364993795548 / 2 ^ 52)"
  using rnd_cert [of "(5204392596839818 / 2 ^ 52) + (4895558351291686 / 2 ^ 56)" 52 "5510364993795548"]
  by simp

lemma step_198: "xmul (Fin (5510364993795548 / 2 ^ 52)) (Fin (- (8157477823463388 / 2 ^ 47))) = Fin (- (4990528017065471 / 2 ^ 46))"
  using rnd_cert [of "(5510364993795548 / 2 ^ 52) * (- (8157477823463388 / 2 ^ 47))" 46 "-4990528017065471"]
  by simp

lemma step_199: "xadd (Fin (- (4990528017065471 / 2 ^ 46))) (Fin (8794708464389746 / 2 ^ 43)) = Fin (8170892462256562 / 2 ^ 43)"
  using rnd_cert [of "(- (4990528017065471 / 2 ^ 46)) + (8794708464389746 / 2 ^ 43)" 43 "8170892462256562"]
  by simp

lemma step_200: "xmul (Fin (6513087853173815 / 2 ^ 80)) (Fin (- (8157477823463388 / 2 ^ 47))) = Fin (- (5898655977502516 / 2 ^ 74))"
  using rnd_cert [of "(6513087853173815 / 2 ^ 80) * (- (8157477823463388 / 2 ^ 47))" 74 "-5898655977502516"]
  by simp

lemma step_201: "xadd (Fin (- (5898655977502516 / 2 ^ 74))) (Fin (- (7788787934856221 / 2 ^ 73))) = Fin (- (5369057961803740 / 2 ^ 72))"
  using rnd_cert [of "(- (5898655977502516 / 2 ^ 74)) + (- (7788787934856221 / 2 ^ 73))" 72 "-5369057961803740"]
  by simp

lemma step_202: "xmul (Fin (- (5369057961803740 / 2 ^ 72))) (Fin (- (8157477823463388 / 2 ^ 47))) = Fin (4862551612061899 / 2 ^ 66)"
  using rnd_cert [of "(- (5369057961803740 / 2 ^ 72)) * (- (8157477823463388 / 2 ^ 47))" 66 "4862551612061899"]
  by simp

lemma step_203: "xadd (Fin (4862551612061899 / 2 ^ 66)) (Fin (5640128894024843 / 2 ^ 66)) = Fin (5251340253043371 / 2 ^ 65)"
  using rnd_cert [of "(4862551612061899 / 2 ^ 66) + (5640128894024843 / 2 ^ 66)" 65 "5251340253043371"]
  by simp

lemma step_204: "xmul (Fin (5251340253043371 / 2 ^ 65)) (Fin (- (8157477823463388 / 2 ^ 47))) = Fin (- (4755939160012925 / 2 ^ 59))"
  using rnd_cert [of "(5251340253043371 / 2 ^ 65) * (- (8157477823463388 / 2 ^ 47))" 59 "-4755939160012925"]
  by simp

lemma step_205: "xadd (Fin (- (4755939160012925 / 2 ^ 59))) (Fin (- (4715333661691543 / 2 ^ 60))) = Fin (- (7113605990858696 / 2 ^ 59))"
  using rnd_cert [of "(- (4755939160012925 / 2 ^ 59)) + (- (4715333661691543 / 2 ^ 60))" 59 "-7113605990858696"]
  by simp

lemma step_206: "xmul (Fin (- (7113605990858696 / 2 ^ 59))) (Fin (- (8157477823463388 / 2 ^ 47))) = Fin (6442522417247755 / 2 ^ 53)"
  using rnd_cert [of "(- (7113605990858696 / 2 ^ 59)) * (- (8157477823463388 / 2 ^ 47))" 53 "6442522417247755"]
  by simp

lemma step_207: "xadd (Fin (6442522417247755 / 2 ^ 53)) (Fin (7426372735139165 / 2 ^ 53)) = Fin (6934447576193460 / 2 ^ 52)"
  using rnd_cert [of "(6442522417247755 / 2 ^ 53) + (7426372735139165 / 2 ^ 53)" 52 "6934447576193460"]
  by simp

lemma step_208: "xmul (Fin (- (7813627582556115 / 2 ^ 72))) (Fin (- (8157477823463388 / 2 ^ 47))) = Fin (7076505351200452 / 2 ^ 66)"
  using rnd_cert [of "(- (7813627582556115 / 2 ^ 72)) * (- (8157477823463388 / 2 ^ 47))" 66 "7076505351200452"]
  by simp

lemma step_209: "xadd (Fin (7076505351200452 / 2 ^ 66)) (Fin (7546194065673103 / 2 ^ 66)) = Fin (7311349708436778 / 2 ^ 65)"
  using rnd_cert [of "(7076505351200452 / 2 ^ 66) + (7546194065673103 / 2 ^ 66)" 65 "7311349708436778"]
  by simp

lemma step_210: "xmul (Fin (7311349708436778 / 2 ^ 65)) (Fin (- (8157477823463388 / 2 ^ 47))) = Fin (- (6621611382113648 / 2 ^ 59))"
  using rnd_cert [of "(7311349708436778 / 2 ^ 65) * (- (8157477823463388 / 2 ^ 47))" 59 "-6621611382113648"]
  by simp

lemma step_211: "xadd (Fin (- (6621611382113648 / 2 ^ 59))) (Fin (- (6600083620562633 / 2 ^ 60))) = Fin (- (4960826596197482 / 2 ^ 58))"
  using rnd_cert [of "(- (6621611382113648 / 2 ^ 59)) + (- (6600083620562633 / 2 ^ 60))" 58 "-4960826596197482"]
  by simp

lemma step_212: "xmul (Fin (8912359931772033 / 2 ^ 64)) (Fin 0) = Fin 0"
  by simp

lemma step_213: "xadd (Fin 0) (Fin (- (4960826596197482 / 2 ^ 58))) = Fin (- (4960826596197482 / 2 ^ 58))"
  using rnd_cert [of "0 + (- (4960826596197482 / 2 ^ 58))" 58 "-4960826596197482"]
  by simp

lemma step_214: "xmul (Fin (- (4960826596197482 / 2 ^ 58))) (Fin 0) = Fin 0"
  by simp

lemma step_215: "xadd (Fin 0) (Fin (6934447576193460 / 2 ^ 52)) = Fin (6934447576193460 / 2 ^ 52)"
  using rnd_cert [of "0 + (6934447576193460 / 2 ^ 52)" 52 "6934447576193460"]
  by simp

lemma step_216: "xmul (Fin (6934447576193460 / 2 ^ 52)) (Fin 0) = Fin 0"
  by simp

lemma step_217: "xadd (Fin 0) (Fin 0) = Fin 0"
  by simp

lemma step_218: "xadd (Fin 0) (Fin (8170892462256562 / 2 ^ 43)) = Fin (8170892462256562 / 2 ^ 43)"
  using rnd_cert [of "0 + (8170892462256562 / 2 ^ 43)" 43 "8170892462256562"]
  by simp

lemma step_219: "xmul (Fin (- (7607862268981277 / 2 ^ 67))) (Fin (- (8157477823463388 / 2 ^ 47))) = Fin (6890151531899604 / 2 ^ 61)"
  using rnd_cert [of "(- (7607862268981277 / 2 ^ 67)) * (- (8157477823463388 / 2 ^ 47))" 61 "6890151531899604"]
  by simp

lemma step_220: "xadd (Fin (6890151531899604 / 2 ^ 61)) (Fin (7842615949115047 / 2 ^ 59)) = Fin (4782576916044974 / 2 ^ 58)"
  using rnd_cert [of "(6890151531899604 / 2 ^ 61) + (7842615949115047 / 2 ^ 59)" 58 "4782576916044974"]
  by simp

lemma step_221: "xmul (Fin (4782576916044974 / 2 ^ 58)) (Fin (- (8157477823463388 / 2 ^ 47))) = Fin (- (8662796065294031 / 2 ^ 53))"
  using rnd_cert [of "(4782576916044974 / 2 ^ 58) * (- (8157477823463388 / 2 ^ 47))" 53 "-8662796065294031"]
  by simp

lemma step_222: "xadd (Fin (- (8662796065294031 / 2 ^ 53))) (Fin (- (5240174605426009 / 2 ^ 51))) = Fin (- (7405873621749517 / 2 ^ 51))"
  using rnd_cert [of "(- (8662796065294031 / 2 ^ 53)) + (- (5240174605426009 / 2 ^ 51))" 51 "-7405873621749517"]
  by simp

lemma step_223: "xmul (Fin (- (7405873621749517 / 2 ^ 51))) (Fin (- (8157477823463388 / 2 ^ 47))) = Fin (6707218095679997 / 2 ^ 45)"
  using rnd_cert [of "(- (7405873621749517 / 2 ^ 51)) * (- (8157477823463388 / 2 ^ 47))" 45 "6707218095679997"]
  by simp

lemma step_224: "xadd (Fin (6707218095679997 / 2 ^ 45)) (Fin (5222085616047699 / 2 ^ 45)) = Fin (5964651855863848 / 2 ^ 44)"
  using rnd_cert [of "(6707218095679997 / 2 ^ 45) + (5222085616047699 / 2 ^ 45)" 44 "5964651855863848"]
  by simp

lemma step_225: "xmul (Fin (5964651855863848 / 2 ^ 44)) (Fin (- (8157477823463388 / 2 ^ 47))) = Fin (- (5401958351623946 / 2 ^ 38))"
  using rnd_cert [of "(5964651855863848 / 2 ^ 44) * (- (8157477823463388 / 2 ^ 47))" 38 "-5401958351623946"]
  by simp

lemma step_226: "xadd (Fin (- (5401958351623946 / 2 ^ 38))) (Fin (5401958351623946 / 2 ^ 38)) = Fin 0"
  by simp

lemma step_227: "xmul (Fin (- (4550442828102672 / 2 ^ 66))) (Fin (- (8157477823463388 / 2 ^ 47))) = Fin (8242326034399021 / 2 ^ 61)"
  using rnd_cert [of "(- (4550442828102672 / 2 ^ 66)) * (- (8157477823463388 / 2 ^ 47))" 61 "8242326034399021"]
  by simp

lemma step_228: "xadd (Fin (8242326034399021 / 2 ^ 61)) (Fin (6340318876359664 / 2 ^ 59)) = Fin (8400900384959419 / 2 ^ 59)"
  using rnd_cert [of "(8242326034399021 / 2 ^ 61) + (6340318876359664 / 2 ^ 59)" 59 "8400900384959419"]
  by simp

lemma step_229: "xmul (Fin (8400900384959419 / 2 ^ 59)) (Fin (- (8157477823463388 / 2 ^ 47))) = Fin (- (7608375994497984 / 2 ^ 53))"
  using rnd_cert [of "(8400900384959419 / 2 ^ 59) * (- (8157477823463388 / 2 ^ 47))" 53 "-7608375994497984"]
  by simp

lemma step_230: "xadd (Fin (- (7608375994497984 / 2 ^ 53))) (Fin (- (5435475455066744 / 2 ^ 53))) = Fin (- (6521925724782364 / 2 ^ 52))"
  using rnd_cert [of "(- (7608375994497984 / 2 ^ 53)) + (- (5435475455066744 / 2 ^ 53))" 52 "-6521925724782364"]
  by simp

lemma step_231: "xmul (Fin (- (6521925724782364 / 2 ^ 52))) (Fin (- (8157477823463388 / 2 ^ 47))) = Fin (5906660101716312 / 2 ^ 46)"
  using rnd_cert [of "(- (6521925724782364 / 2 ^ 52)) * (- (8157477823463388 / 2 ^ 47))" 46 "5906660101716312"]
  by simp

lemma step_232: "xadd (Fin (5906660101716312 / 2 ^ 46)) (Fin (7694765880832216 / 2 ^ 47)) = Fin (4877021521066210 / 2 ^ 45)"
  using rnd_cert [of "(5906660101716312 / 2 ^ 46) + (7694765880832216 / 2 ^ 47)" 45 "4877021521066210"]
  by simp

lemma step_233: "xmul (Fin (- (4889217283016348 / 2 ^ 63))) (Fin (- (8157477823463388 / 2 ^ 47))) = Fin (8855956315012520 / 2 ^ 58)"
  using rnd_cert [of "(- (4889217283016348 / 2 ^ 63)) * (- (8157477823463388 / 2 ^ 47))" 58 "8855956315012520"]
  by simp

lemma step_234: "xadd (Fin (8855956315012520 / 2 ^ 58)) (Fin (4750901290108665 / 2 ^ 58)) = Fin (6803428802560592 / 2 ^ 57)"
  using rnd_cert [of "(8855956315012520 / 2 ^ 58) + (4750901290108665 / 2 ^ 58)" 57 "6803428802560592"]
  by simp

lemma step_235: "xmul (Fin (6803428802560592 / 2 ^ 57)) (Fin (- (8157477823463388 / 2 ^ 47))) = Fin (- (6161606733767766 / 2 ^ 51))"
  using rnd_cert [of "(6803428802560592 / 2 ^ 57) * (- (8157477823463388 / 2 ^ 47))" 51 "-6161606733767766"]
  by simp

lemma step_236: "xadd (Fin (- (6161606733767766 / 2 ^ 51))) (Fin (5724255270372995 / 2 ^ 56)) = Fin (- (5982723756568610 / 2 ^ 51))"
  using rnd_cert [of "(- (6161606733767766 / 2 ^ 51)) + (5724255270372995 / 2 ^ 56)" 51 "-5982723756568610"]
  by simp

lemma step_237: "xmul (Fin (4877021521066210 / 2 ^ 45)) (Fin 0) = Fin 0"
  by simp

lemma step_238: "xmul (Fin (- (5982723756568610 / 2 ^ 51))) (Fin 0) = Fin 0"
  by simp

lemma step_239: "xmul (Fin (- (5458158404565565 / 2 ^ 73))) (Fin (- (8157477823463388 / 2 ^ 47))) = Fin (4943246494603526 / 2 ^ 67)"
  using rnd_cert [of "(- (5458158404565565 / 2 ^ 73)) * (- (8157477823463388 / 2 ^ 47))" 67 "4943246494603526"]
  by simp

lemma step_240: "xadd (Fin (4943246494603526 / 2 ^ 67)) (Fin (8566077652020357 / 2 ^ 66)) = Fin (5518850449661060 / 2 ^ 65)"
  using rnd_cert [of "(4943246494603526 / 2 ^ 67) + (8566077652020357 / 2 ^ 66)" 65 "5518850449661060"]
  by simp

lemma step_241: "xmul (Fin (5518850449661060 / 2 ^ 65)) (Fin (- (8157477823463388 / 2 ^ 47))) = Fin (- (4998212971743082 / 2 ^ 59))"
  using rnd_cert [of "(5518850449661060 / 2 ^ 65) * (- (8157477823463388 / 2 ^ 47))" 59 "-4998212971743082"]
  by simp

lemma step_242: "xadd (Fin (- (4998212971743082 / 2 ^ 59))) (Fin (6627592327662552 / 2 ^ 62)) = Fin (- (8339527861570526 / 2 ^ 60))"
  using rnd_cert [of "(- (4998212971743082 / 2 ^ 59)) + (6627592327662552 / 2 ^ 62)" 60 "-8339527861570526"]
  by simp

lemma step_243: "xmul (Fin (- (8339527861570526 / 2 ^ 60))) (Fin (- (8157477823463388 / 2 ^ 47))) = Fin (7552793234046519 / 2 ^ 54)"
  using rnd_cert [of "(- (8339527861570526 / 2 ^ 60)) * (- (8157477823463388 / 2 ^ 47))" 54 "7552793234046519"]
  by simp

lemma step_244: "xadd (Fin (7552793234046519 / 2 ^ 54)) (Fin (7295624230757344 / 2 ^ 51)) = Fin (8239723385013159 / 2 ^ 51)"
  using rnd_cert [of "(7552793234046519 / 2 ^ 54) + (7295624230757344 / 2 ^ 51)" 51 "8239723385013159"]
  by simp

lemma step_245: "xmul (Fin (- (7592620831157816 / 2 ^ 72))) (Fin (- (8157477823463388 / 2 ^ 47))) = Fin (6876347941290999 / 2 ^ 66)"
  using rnd_cert [of "(- (7592620831157816 / 2 ^ 72)) * (- (8157477823463388 / 2 ^ 47))" 66 "6876347941290999"]
  by simp

lemma step_246: "xadd (Fin (6876347941290999 / 2 ^ 66)) (Fin (- (6482038293548947 / 2 ^ 69))) = Fin (6066093154597381 / 2 ^ 66)"
  using rnd_cert [of "(6876347941290999 / 2 ^ 66) + (- (6482038293548947 / 2 ^ 69))" 66 "6066093154597381"]
  by simp

lemma step_247: "xmul (Fin (6066093154597381 / 2 ^ 66)) (Fin (- (8157477823463388 / 2 ^ 47))) = Fin (- (5493829878099454 / 2 ^ 60))"
  using rnd_cert [of "(6066093154597381 / 2 ^ 66) * (- (8157477823463388 / 2 ^ 47))" 60 "-5493829878099454"]
  by simp

lemma step_248: "xadd (Fin (- (5493829878099454 / 2 ^ 60))) (Fin (5266084264442234 / 2 ^ 61)) = Fin (- (5721575491756674 / 2 ^ 61))"
  using rnd_cert [of "(- (5493829878099454 / 2 ^ 60)) + (5266084264442234 / 2 ^ 61)" 61 "-5721575491756674"]
  by simp

lemma step_249: "xmul (Fin (- (5721575491756674 / 2 ^ 61))) (Fin 0) = Fin 0"
  by simp

lemma step_250: "xadd (Fin (8239723385013159 / 2 ^ 51)) (Fin 0) = Fin (8239723385013159 / 2 ^ 51)"
  using rnd_cert [of "(8239723385013159 / 2 ^ 51) + 0" 51 "8239723385013159"]
  by simp

lemma step_251: "xmul (Fin (7049423247768105 / 2 ^ 65)) (Fin 0) = Fin 0"
  by simp

lemma step_252: "xmul (Fin (7976945904999679 / 2 ^ 77)) (Fin (- (8157477823463388 / 2 ^ 47))) = Fin (- (7224416544882258 / 2 ^ 71))"
  using rnd_cert [of "(7976945904999679 / 2 ^ 77) * (- (8157477823463388 / 2 ^ 47))" 71 "-7224416544882258"]
  by simp

lemma step_253: "xadd (Fin (- (7224416544882258 / 2 ^ 71))) (Fin (- (7228679852239259 / 2 ^ 70))) = Fin (- (5420444062340194 / 2 ^ 69))"
  using rnd_cert [of "(- (7224416544882258 / 2 ^ 71)) + (- (7228679852239259 / 2 ^ 70))" 69 "-5420444062340194"]
  by simp

lemma step_254: "xmul (Fin (- (5420444062340194 / 2 ^ 69))) (Fin (- (8157477823463388 / 2 ^ 47))) = Fin (4909090049117096 / 2 ^ 63)"
  using rnd_cert [of "(- (5420444062340194 / 2 ^ 69)) * (- (8157477823463388 / 2 ^ 47))" 63 "4909090049117096"]
  by simp

lemma step_255: "xadd (Fin (4909090049117096 / 2 ^ 63)) (Fin (6278792067344815 / 2 ^ 66)) = Fin (5693939057535198 / 2 ^ 63)"
  using rnd_cert [of "(4909090049117096 / 2 ^ 63) + (6278792067344815 / 2 ^ 66)" 63 "5693939057535198"]
  by simp

lemma step_256: "xmul (Fin (8868389670496212 / 2 ^ 83)) (Fin (- (8157477823463388 / 2 ^ 47))) = Fin (- (8031763261906980 / 2 ^ 77))"
  using rnd_cert [of "(8868389670496212 / 2 ^ 83) * (- (8157477823463388 / 2 ^ 47))" 77 "-8031763261906980"]
  by simp

lemma step_257: "xadd (Fin (- (8031763261906980 / 2 ^ 77))) (Fin (6291249965274530 / 2 ^ 78)) = Fin (- (4886138279269715 / 2 ^ 77))"
  using rnd_cert [of "(- (8031763261906980 / 2 ^ 77)) + (6291249965274530 / 2 ^ 78)" 77 "-4886138279269715"]
  by simp

lemma step_258: "xmul (Fin (- (4886138279269715 / 2 ^ 77))) (Fin (- (8157477823463388 / 2 ^ 47))) = Fin (8850379241813368 / 2 ^ 72)"
  using rnd_cert [of "(- (4886138279269715 / 2 ^ 77)) * (- (8157477823463388 / 2 ^ 47))" 72 "8850379241813368"]
  by simp

lemma step_259: "xadd (Fin (8850379241813368 / 2 ^ 72)) (Fin (- (4691576653401335 / 2 ^ 72))) = Fin (8317605176824066 / 2 ^ 73)"
  using rnd_cert [of "(8850379241813368 / 2 ^ 72) + (- (4691576653401335 / 2 ^ 72))" 73 "8317605176824066"]
  by simp

lemma step_260: "xmul (Fin (8317605176824066 / 2 ^ 73)) (Fin 0) = Fin 0"
  by simp

lemma step_261: "xadd (Fin (5693939057535198 / 2 ^ 63)) (Fin 0) = Fin (5693939057535198 / 2 ^ 63)"
  using rnd_cert [of "(5693939057535198 / 2 ^ 63) + 0" 63 "5693939057535198"]
  by simp

lemma step_262: "xadd (Fin 0) (Fin (5693939057535198 / 2 ^ 63)) = Fin (5693939057535198 / 2 ^ 63)"
  using rnd_cert [of "0 + (5693939057535198 / 2 ^ 63)" 63 "5693939057535198"]
  by simp

lemma step_263: "xmul (Fin (5693939057535198 / 2 ^ 63)) (Fin 0) = Fin 0"
  by simp

lemma step_264: "xadd (Fin 0) (Fin (8239723385013159 / 2 ^ 51)) = Fin (8239723385013159 / 2 ^ 51)"
  using rnd_cert [of "0 + (8239723385013159 / 2 ^ 51)" 51 "8239723385013159"]
  by simp

lemma step_265: "xmul (Fin (8239723385013159 / 2 ^ 51)) (Fin 0) = Fin 0"
  by simp

lemma step_266: "xmul (Fin (- (6600083620562633 / 2 ^ 60))) (Fin 0) = Fin 0"
  by simp

lemma step_267: "xmul (Fin (7426372735139165 / 2 ^ 53)) (Fin 0) = Fin 0"
  by simp

lemma step_268: "xmul (Fin (5497558138881289 / 2 ^ 40)) (Fin (7205759403792794 / 2 ^ 56)) = Fin (8796093022210063 / 2 ^ 44)"
  using rnd_cert [of "(5497558138881289 / 2 ^ 40) * (7205759403792794 / 2 ^ 56)" 44 "8796093022210063"]
  by simp

lemma step_269: "xmul (Fin (7694765880832216 / 2 ^ 47)) (Fin 0) = Fin 0"
  by simp

lemma step_270: "xadd (Fin (5401958351623946 / 2 ^ 38)) (Fin 0) = Fin (5401958351623946 / 2 ^ 38)"
  using rnd_cert [of "(5401958351623946 / 2 ^ 38) + 0" 38 "5401958351623946"]
  by simp

lemma step_271: "xmul (Fin (5724255270372995 / 2 ^ 56)) (Fin 0) = Fin 0"
  by simp

lemma step_272: "xmul (Fin (5266084264442234 / 2 ^ 61)) (Fin 0) = Fin 0"
  by simp

lemma step_273: "xadd (Fin (7295624230757344 / 2 ^ 51)) (Fin 0) = Fin (7295624230757344 / 2 ^ 51)"
  using rnd_cert [of "(7295624230757344 / 2 ^ 51) + 0" 51 "7295624230757344"]
  by simp

lemma step_274: "xmul (Fin (- (4691576653401335 / 2 ^ 72))) (Fin 0) = Fin 0"
  by simp

lemma step_275: "xadd (Fin (6278792067344815 / 2 ^ 66)) (Fin 0) = Fin (6278792067344815 / 2 ^ 66)"
  using rnd_cert [of "(6278792067344815 / 2 ^ 66) + 0" 66 "6278792067344815"]
  by simp

lemma step_276: "xmul (Fin 0) (Fin (8796093022210063 / 2 ^ 44)) = Fin 0"
  by simp

lemma step_277: "xmul (Fin (6278792067344815 / 2 ^ 66)) (Fin (8796093022210063 / 2 ^ 44)) = Fin (6131632878267859 / 2 ^ 57)"
  using rnd_cert [of "(6278792067344815 / 2 ^ 66) * (8796093022210063 / 2 ^ 44)" 57 "6131632878267859"]
  by simp

lemma step_278: "xadd (Fin (6131632878267859 / 2 ^ 57)) (Fin (7295624230757344 / 2 ^ 51)) = Fin (7391430994480279 / 2 ^ 51)"
  using rnd_cert [of "(6131632878267859 / 2 ^ 57) + (7295624230757344 / 2 ^ 51)" 51 "7391430994480279"]
  by simp

lemma step_279: "xmul (Fin (7391430994480279 / 2 ^ 51)) (Fin (8796093022210063 / 2 ^ 44)) = Fin (7218194330548840 / 2 ^ 42)"
  using rnd_cert [of "(7391430994480279 / 2 ^ 51) * (8796093022210063 / 2 ^ 44)" 42 "7218194330548840"]
  by simp

lemma step_280: "xadd (Fin (7218194330548840 / 2 ^ 42)) (Fin (5401958351623946 / 2 ^ 38)) = Fin (5853095497283248 / 2 ^ 38)"
  using rnd_cert [of "(7218194330548840 / 2 ^ 42) + (5401958351623946 / 2 ^ 38)" 38 "5853095497283248"]
  by simp

lemma step_281: "py_div (Flt (Fin (8796093022210063 / 2 ^ 44))) (Flt (Fin (5853095497283248 / 2 ^ 38))) = Inr (Flt (Fin (6768056539574417 / 2 ^ 58)))"
  using rnd_cert [of "(8796093022210063 / 2 ^ 44) / (5853095497283248 / 2 ^ 38)" 58 "6768056539574417"]
  by simp

lemma step_282: "xsub (Fin 1) (Fin (6768056539574417 / 2 ^ 58)) = Fin (8795697487879291 / 2 ^ 53)"
  using rnd_cert [of "1 - (6768056539574417 / 2 ^ 58)" 53 "8795697487879291"]
  by (simp add: xsub_def)

lemma step_283: "py_div (Flt (Fin (8794708464389746 / 2 ^ 43))) (Flt (Fin (8795697487879291 / 2 ^ 53))) = Inr (Flt (Fin (9006186449144821 / 2 ^ 43)))"
  using rnd_cert [of "(8794708464389746 / 2 ^ 43) / (8795697487879291 / 2 ^ 53)" 43 "9006186449144821"]
  by simp

lemma step_284: "xmul (Fin (5497558138881290 / 2 ^ 40)) (Fin (7205759403792794 / 2 ^ 56)) = Fin (8796093022210064 / 2 ^ 44)"
  using rnd_cert [of "(5497558138881290 / 2 ^ 40) * (7205759403792794 / 2 ^ 56)" 44 "8796093022210064"]
  by simp

lemma step_285: "xmul (Fin 0) (Fin (8796093022210064 / 2 ^ 44)) = Fin 0"
  by simp

lemma step_286: "xmul (Fin (6278792067344815 / 2 ^ 66)) (Fin (8796093022210064 / 2 ^ 44)) = Fin (6131632878267860 / 2 ^ 57)"
  using rnd_cert [of "(6278792067344815 / 2 ^ 66) * (8796093022210064 / 2 ^ 44)" 57 "6131632878267860"]
  by simp

lemma step_287: "xadd (Fin (6131632878267860 / 2 ^ 57)) (Fin (7295624230757344 / 2 ^ 51)) = Fin (7391430994480279 / 2 ^ 51)"
  using rnd_cert [of "(6131632878267860 / 2 ^ 57) + (7295624230757344 / 2 ^ 51)" 51 "7391430994480279"]
  by simp

lemma step_288: "xmul (Fin (7391430994480279 / 2 ^ 51)) (Fin (8796093022210064 / 2 ^ 44)) = Fin (7218194330548841 / 2 ^ 42)"
  using rnd_cert [of "(7391430994480279 / 2 ^ 51) * (8796093022210064 / 2 ^ 44)" 42 "7218194330548841"]
  by simp

lemma step_289: "xadd (Fin (7218194330548841 / 2 ^ 42)) (Fin (5401958351623946 / 2 ^ 38)) = Fin (5853095497283249 / 2 ^ 38)"
  using rnd_cert [of "(7218194330548841 / 2 ^ 42) + (5401958351623946 / 2 ^ 38)" 38 "5853095497283249"]
  by simp

lemma step_290: "py_div (Flt (Fin (8796093022210064 / 2 ^ 44))) (Flt (Fin (5853095497283249 / 2 ^ 38))) = Inr (Flt (Fin (6768056539574416 / 2 ^ 58)))"
  using rnd_cert [of "(8796093022210064 / 2 ^ 44) / (5853095497283249 / 2 ^ 38)" 58 "6768056539574416"]
  by simp

lemma step_291: "xsub (Fin 1) (Fin (6768056539574416 / 2 ^ 58)) = Fin (8795697487879292 / 2 ^ 53)"
  using rnd_cert [of "1 - (6768056539574416 / 2 ^ 58)" 53 "8795697487879292"]
  by (simp add: xsub_def)

lemma step_292: "py_div (Flt (Fin (8794708464389746 / 2 ^ 43))) (Flt (Fin (8795697487879292 / 2 ^ 53))) = Inr (Flt (Fin (9006186449144820 / 2 ^ 43)))"
  using rnd_cert [of "(8794708464389746 / 2 ^ 43) / (8795697487879292 / 2 ^ 53)" 43 "9006186449144820"]
  by simp

lemma step_293: "xmul (Fin 0) (Fin (4508103226997866 / 2 ^ 52)) = Fin 0"
  by simp

lemma step_294: "xadd (Fin 0) (Fin 1) = Fin 1"
  using rnd_cert [of "0 + 1" 52 "4503599627370496"]
  by simp

lemma step_295: "xmul (Fin 1) (Fin (4508103226997866 / 2 ^ 52)) = Fin (4508103226997866 / 2 ^ 52)"
  using rnd_cert [of "1 * (4508103226997866 / 2 ^ 52)" 52 "4508103226997866"]
  by simp

lemma step_296: "xadd (Fin (4508103226997866 / 2 ^ 52)) (Fin (- 3)) = Fin (- (9002695655113622 / 2 ^ 52))"
  using rnd_cert [of "(4508103226997866 / 2 ^ 52) + (- 3)" 52 "-9002695655113622"]
  by simp

lemma step_297: "xmul (Fin (- (9002695655113622 / 2 ^ 52))) (Fin (4508103226997866 / 2 ^ 52)) = Fin (- (4505849175384367 / 2 ^ 51))"
  using rnd_cert [of "(- (9002695655113622 / 2 ^ 52)) * (4508103226997866 / 2 ^ 52)" 51 "-4505849175384367"]
  by simp

lemma step_298: "xadd (Fin (- (4505849175384367 / 2 ^ 51))) (Fin 3) = Fin (8998201062685508 / 2 ^ 53)"
  using rnd_cert [of "(- (4505849175384367 / 2 ^ 51)) + 3" 53 "8998201062685508"]
  by simp

lemma step_299: "xmul (Fin (8998201062685508 / 2 ^ 53)) (Fin (4508103226997866 / 2 ^ 52)) = Fin (4503599631874096 / 2 ^ 52)"
  using rnd_cert [of "(8998201062685508 / 2 ^ 53) * (4508103226997866 / 2 ^ 52)" 52 "4503599631874096"]
  by simp

lemma step_300: "xadd (Fin (4503599631874096 / 2 ^ 52)) (Fin (- 1)) = Fin (4835703678566400 / 2 ^ 82)"
  using rnd_cert [of "(4503599631874096 / 2 ^ 52) + (- 1)" 82 "4835703678566400"]
  by simp

lemmas steps =
  step_1 step_2 step_3 step_4 step_5 step_6 step_7 step_8
  step_9 step_10 step_11 step_12 step_13 step_14 step_15 step_16
  step_17 step_18 step_19 step_20 step_21 step_22 step_23 step_24
  step_25 step_26 step_27 step_28 step_29 step_30 step_31 step_32
  step_33 step_34 step_35 step_36 step_37 step_38 step_39 step_40
  step_41 step_42 step_43 step_44 step_45 step_46 step_47 step_48
  step_49 step_50 step_51 step_52 step_53 step_54 step_55 step_56
  step_57 step_58 step_59 step_60 step_61 step_62 step_63 step_64
  step_65 step_66 step_67 step_68 step_69 step_70 step_71 step_72
  step_73 step_74 step_75 step_76 step_77 step_78 step_79 step_80
  step_81 step_82 step_83 step_84 step_85 step_86 step_87 step_88
  step_89 step_90 step_91 step_92 step_93 step_94 step_95 step_96
  step_97 step_98 step_99 step_100 step_101 step_102 step_103 step_104
  step_105 step_106 step_107 step_108 step_109 step_110 step_111 step_112
  step_113 step_114 step_115 step_116 step_117 step_118 step_119 step_120
  step_121 step_122 step_123 step_124 step_125 step_126 step_127 step_128
  step_129 step_130 step_131 step_132 step_133 step_134 step_135 step_136
  step_137 step_138 step_139 step_140 step_141 step_142 step_143 step_144
  step_145 step_146 step_147 step_148 step_149 step_150 step_151 step_152
  step_153 step_154 step_155 step_156 step_157 step_158 step_159 step_160
  step_161 step_162 step_163 step_164 step_165 step_166 step_167 step_168
  step_169 step_170 step_171 step_172 step_173 step_174 step_175 step_176
  step_177 step_178 step_179 step_180 step_181 step_182 step_183 step_184
  step_185 step_186 step_187 step_188 step_189 step_190 step_191 step_192
  step_193 step_194 step_195 step_196 step_197 step_198 step_199 step_200
  step_201 step_202 step_203 step_204 step_205 step_206 step_207 step_208
  step_209 step_210 step_211 step_212 step_213 step_214 step_215 step_216
  step_217 step_218 step_219 step_220 step_221 step_222 step_223 step_224
  step_225 step_226 step_227 step_228 step_229 step_230 step_231 step_232
  step_233 step_234 step_235 step_236 step_237 step_238 step_239 step_240
  step_241 step_242 step_243 step_244 step_245 step_246 step_247 step_248
  step_249 step_250 step_251 step_252 step_253 step_254 step_255 step_256
  step_257 step_258 step_259 step_260 step_261 step_262 step_263 step_264
  step_265 step_266 step_267 step_268 step_269 step_270 step_271 step_272
  step_273 step_274 step_275 step_276 step_277 step_278 step_279 step_280
  step_281 step_282 step_283 step_284 step_285 step_286 step_287 step_288
  step_289 step_290 step_291 step_292 step_293 step_294 step_295 step_296
  step_297 step_298 step_299 step_300

lemma pow_1: "py_pow (Fin 35) 0.5 = Inr (Flt (Fin (6660913676665389 / 2 ^ 50)))"
  using pow_half_cert [where n = "6660913676665389" and x = "35" and k = 50]
  by (simp add: power2_eq_square)

lemma pow_2: "py_pow (Fin 35) 1.5 = Inr (Flt (Fin (7285374333852769 / 2 ^ 45)))"
  using pow_three_halves_cert [where n = "7285374333852769" and x = "35" and k = 45]
  by (simp add: power2_eq_square)

lemma pow_3: "py_pow (Fin 100) 0.5 = Inr (Flt (Fin 10))"
  using pow_half_cert [where n = "5629499534213120" and x = "100" and k = 49]
  by (simp add: power2_eq_square)

lemma pow_4: "py_pow (Fin 100) 1.5 = Inr (Flt (Fin 1000))"
  using pow_three_halves_cert [where n = "8796093022208000" and x = "100" and k = 43]
  by (simp add: power2_eq_square)

lemma pow_5: "py_pow (Fin 0) 0.5 = Inr (Flt (Fin 0))"
  by simp

lemma pow_6: "py_pow (Fin 0) 1.5 = Inr (Flt (Fin 0))"
  by simp

lemmas pow_certs = pow_1 pow_2 pow_3 pow_4 pow_5 pow_6

lemma quot_P1: "rnd ((8796093022210063 / 2 ^ 44) / (5853095497283248 / 2 ^ 38)) = Fin (6768056539574417 / 2 ^ 58)"
  using rnd_cert [of "(8796093022210063 / 2 ^ 44) / (5853095497283248 / 2 ^ 38)" 58 "6768056539574417"] by simp

lemma diff_P1: "rnd (1 - (6768056539574417 / 2 ^ 58)) = Fin (8795697487879291 / 2 ^ 53)"
  using rnd_cert [of "1 - (6768056539574417 / 2 ^ 58)" 53 "8795697487879291"] by simp

lemma caldens0_35_25:
  "caldens0 (Fin 35) (Fin 25) =
     Inr (Flt (Fin (9001404695137954 / 2 ^ 43)))"
  by (simp only: caldens_def calseck_def calseck0_def calseck1_def calseck2_def caldens0_def caldsmow_def
      calseckpure0_def calseckpure1_def calseckpure2_def Let_def table_floats poly1d_Cons poly1d_Nil
      flt_zero flt_one on_value_Inr py_add_Flt py_mul_Flt py_sub_Flt py_div_zero on_value_Inl pow_certs steps)

lemma calseck_35_25_0:
  "calseck (Fin 35) (Fin 25) (Fin 0) =
     Inr (Flt (Fin (6521925728118850 / 2 ^ 38)))"
  by (simp only: caldens_def calseck_def calseck0_def calseck1_def calseck2_def caldens0_def caldsmow_def
      calseckpure0_def calseckpure1_def calseckpure2_def Let_def table_floats poly1d_Cons poly1d_Nil
      flt_zero flt_one on_value_Inr py_add_Flt py_mul_Flt py_sub_Flt py_div_zero on_value_Inl pow_certs steps)

lemma caldens_35_25_0:
  "caldens (Fin 35) (Fin 25) (Fin 0) =
     Inr (Flt (Fin (9001404695137954 / 2 ^ 43)))"
  by (simp only: caldens_def calseck_def calseck0_def calseck1_def calseck2_def caldens0_def caldsmow_def
      calseckpure0_def calseckpure1_def calseckpure2_def Let_def table_floats poly1d_Cons poly1d_Nil
      flt_zero flt_one on_value_Inr py_add_Flt py_mul_Flt py_sub_Flt py_div_zero on_value_Inl pow_certs steps)

lemma pkpa_singular:
  "xmul (Fin (8400992335332046 / 2 ^ 32)) DB2KPA =
     Fin (6720793868265637 / 2 ^ 35)"
  by (simp only: caldens_def calseck_def calseck0_def calseck1_def calseck2_def caldens0_def caldsmow_def
      calseckpure0_def calseckpure1_def calseckpure2_def Let_def table_floats poly1d_Cons poly1d_Nil
      flt_zero flt_one on_value_Inr py_add_Flt py_mul_Flt py_sub_Flt py_div_zero on_value_Inl pow_certs steps)

lemma caldens0_100_0:
  "caldens0 (Fin 100) (Fin 0) =
     Inr (Flt (Fin (4756041489376331 / 2 ^ 42)))"
  by (simp only: caldens_def calseck_def calseck0_def calseck1_def calseck2_def caldens0_def caldsmow_def
      calseckpure0_def calseckpure1_def calseckpure2_def Let_def table_floats poly1d_Cons poly1d_Nil
      flt_zero flt_one on_value_Inr py_add_Flt py_mul_Flt py_sub_Flt py_div_zero on_value_Inl pow_certs steps)

lemma calseck_singular:
  "calseck (Fin 100) (Fin 0) (Fin (8400992335332046 / 2 ^ 32)) =
     Inr (Flt (Fin (6720793868265637 / 2 ^ 35)))"
  by (simp only: caldens_def calseck_def calseck0_def calseck1_def calseck2_def caldens0_def caldsmow_def
      calseckpure0_def calseckpure1_def calseckpure2_def Let_def table_floats poly1d_Cons poly1d_Nil
      flt_zero flt_one on_value_Inr py_add_Flt py_mul_Flt py_sub_Flt py_div_zero on_value_Inl pow_certs steps)

lemma caldens_singular:
  "caldens (Fin 100) (Fin 0) (Fin (8400992335332046 / 2 ^ 32)) =
     Inl ZeroDivisionError"
  by (simp only: caldens_def calseck_def calseck0_def calseck1_def calseck2_def caldens0_def caldsmow_def
      calseckpure0_def calseckpure1_def calseckpure2_def Let_def table_floats poly1d_Cons poly1d_Nil
      flt_zero flt_one on_value_Inr py_add_Flt py_mul_Flt py_sub_Flt py_div_zero on_value_Inl pow_certs steps)

lemma caldens0_cold:
  "caldens0 (Fin 0) (Fin (- (8155520498543737 / 2 ^ 47))) =
     Inr (Flt (Fin (8170892462256562 / 2 ^ 43)))"
  by (simp only: caldens_def calseck_def calseck0_def calseck1_def calseck2_def caldens0_def caldsmow_def
      calseckpure0_def calseckpure1_def calseckpure2_def Let_def table_floats poly1d_Cons poly1d_Nil
      flt_zero flt_one on_value_Inr py_add_Flt py_mul_Flt py_sub_Flt py_div_zero on_value_Inl pow_certs steps)

lemma calseck_cold:
  "calseck (Fin 0) (Fin (- (8155520498543737 / 2 ^ 47))) (Fin 0) =
     Inr (Flt (Fin 0))"
  by (simp only: caldens_def calseck_def calseck0_def calseck1_def calseck2_def caldens0_def caldsmow_def
      calseckpure0_def calseckpure1_def calseckpure2_def Let_def table_floats poly1d_Cons poly1d_Nil
      flt_zero flt_one on_value_Inr py_add_Flt py_mul_Flt py_sub_Flt py_div_zero on_value_Inl pow_certs steps)

lemma caldens_cold:
  "caldens (Fin 0) (Fin (- (8155520498543737 / 2 ^ 47))) (Fin 0) =
     Inl ZeroDivisionError"
  by (simp only: caldens_def calseck_def calseck0_def calseck1_def calseck2_def caldens0_def caldsmow_def
      calseckpure0_def calseckpure1_def calseckpure2_def Let_def table_floats poly1d_Cons poly1d_Nil
      flt_zero flt_one on_value_Inr py_add_Flt py_mul_Flt py_sub_Flt py_div_zero on_value_Inl pow_certs steps)

lemma caldens0_0_0:
  "caldens0 (Fin 0) (Fin 0) =
     Inr (Flt (Fin (8794708464389746 / 2 ^ 43)))"
  by (simp only: caldens_def calseck_def calseck0_def calseck1_def calseck2_def caldens0_def caldsmow_def
      calseckpure0_def calseckpure1_def calseckpure2_def Let_def table_floats poly1d_Cons poly1d_Nil
      flt_zero flt_one on_value_Inr py_add_Flt py_mul_Flt py_sub_Flt py_div_zero on_value_Inl pow_certs steps)

lemma calseck_0_0_P1:
  "calseck (Fin 0) (Fin 0) (Fin (5497558138881289 / 2 ^ 40)) =
     Inr (Flt (Fin (5853095497283248 / 2 ^ 38)))"
  by (simp only: caldens_def calseck_def calseck0_def calseck1_def calseck2_def caldens0_def caldsmow_def
      calseckpure0_def calseckpure1_def calseckpure2_def Let_def table_floats poly1d_Cons poly1d_Nil
      flt_zero flt_one on_value_Inr py_add_Flt py_mul_Flt py_sub_Flt py_div_zero on_value_Inl pow_certs steps)

lemma pkpa_P1:
  "xmul (Fin (5497558138881289 / 2 ^ 40)) DB2KPA =
     Fin (8796093022210063 / 2 ^ 44)"
  by (simp only: caldens_def calseck_def calseck0_def calseck1_def calseck2_def caldens0_def caldsmow_def
      calseckpure0_def calseckpure1_def calseckpure2_def Let_def table_floats poly1d_Cons poly1d_Nil
      flt_zero flt_one on_value_Inr py_add_Flt py_mul_Flt py_sub_Flt py_div_zero on_value_Inl pow_certs steps)

lemma caldens_0_0_P1:
  "caldens (Fin 0) (Fin 0) (Fin (5497558138881289 / 2 ^ 40)) =
     Inr (Flt (Fin (9006186449144821 / 2 ^ 43)))"
  by (simp only: caldens_def calseck_def calseck0_def calseck1_def calseck2_def caldens0_def caldsmow_def
      calseckpure0_def calseckpure1_def calseckpure2_def Let_def table_floats poly1d_Cons poly1d_Nil
      flt_zero flt_one on_value_Inr py_add_Flt py_mul_Flt py_sub_Flt py_div_zero on_value_Inl pow_certs steps)

lemma caldens_0_0_P2:
  "caldens (Fin 0) (Fin 0) (Fin (5497558138881290 / 2 ^ 40)) =
     Inr (Flt (Fin (9006186449144820 / 2 ^ 43)))"
  by (simp only: caldens_def calseck_def calseck0_def calseck1_def calseck2_def caldens0_def caldsmow_def
      calseckpure0_def calseckpure1_def calseckpure2_def Let_def table_floats poly1d_Cons poly1d_Nil
      flt_zero flt_one on_value_Inr py_add_Flt py_mul_Flt py_sub_Flt py_div_zero on_value_Inl pow_certs steps)

lemma poly1d_cubic:
  "poly1d (Flt (Fin (4508103226997866 / 2 ^ 52))) [Flt (Fin (- 1)), Flt (Fin 3), Flt (Fin (- 3)), Flt (Fin 1)] =
     Flt (Fin (4835703678566400 / 2 ^ 82))"
  by (simp only: caldens_def calseck_def calseck0_def calseck1_def calseck2_def caldens0_def caldsmow_def
      calseckpure0_def calseckpure1_def calseckpure2_def Let_def table_floats poly1d_Cons poly1d_Nil
      flt_zero flt_one on_value_Inr py_add_Flt py_mul_Flt py_sub_Flt py_div_zero on_value_Inl pow_certs steps)

section \<open>Magnitudes\<close>

text \<open>Bounds by powers of two pass through the operations, which shows that results are finite.\<close>

lemma bnd_Fin [simp]: "bnd j (Fin v) = (\<bar>v\<bar> \<le> 2 ^ j)"
  by (simp add: bnd_def)

lemma bnd_nonfin [simp]: "\<not> bnd j PInf" "\<not> bnd j NInf" "\<not> bnd j NaN"
  by (simp_all add: bnd_def)

lemma bndE:
  assumes "bnd j a"
  obtains v where "a = Fin v" "\<bar>v\<bar> \<le> 2 ^ j"
  using assms by (cases a) simp_all

lemma bnd_mono: "bnd i a \<Longrightarrow> i \<le> j \<Longrightarrow> bnd j a"
proof (erule bndE)
  fix v assume a: "a = Fin v" "\<bar>v\<bar> \<le> 2 ^ i" and ij: "i \<le> j"
  have "(2::real) ^ i \<le> 2 ^ j" using ij by (intro power_increasing) simp_all
  with a(2) have "\<bar>v\<bar> \<le> 2 ^ j" by linarith
  with a(1) show "bnd j a" by simp
qed

lemma bnd_rnd: "\<bar>r\<bar> \<le> 2 ^ j \<Longrightarrow> j \<le> 1023 \<Longrightarrow> bnd j (rnd r)"
  using rnd_le_pow2 [of r j] by auto

lemma bnd_zero [simp]: "bnd j (Fin 0)"
  by simp

lemma bnd_xmul:
  assumes "bnd i a" "bnd j b" "i + j \<le> 1023"
  shows "bnd (i + j) (xmul a b)"
proof -
  from assms(1) obtain u where a: "a = Fin u" "\<bar>u\<bar> \<le> 2 ^ i" by (rule bndE)
  from assms(2) obtain v where b: "b = Fin v" "\<bar>v\<bar> \<le> 2 ^ j" by (rule bndE)
  have "\<bar>u * v\<bar> = \<bar>u\<bar> * \<bar>v\<bar>" by (rule abs_mult)
  also have "\<dots> \<le> 2 ^ i * 2 ^ j" using a(2) b(2) by (intro mult_mono) simp_all
  finally have "\<bar>u * v\<bar> \<le> 2 ^ (i + j)" by (simp add: power_add)
  then show ?thesis using assms(3) by (simp add: a b bnd_rnd)
qed

lemma bnd_xadd:
  assumes "bnd i a" "bnd i b" "i < 1023"
  shows "bnd (Suc i) (xadd a b)"
proof -
  from assms(1) obtain u where a: "a = Fin u" "\<bar>u\<bar> \<le> 2 ^ i" by (rule bndE)
  from assms(2) obtain v where b: "b = Fin v" "\<bar>v\<bar> \<le> 2 ^ i" by (rule bndE)
  have "\<bar>u + v\<bar> \<le> \<bar>u\<bar> + \<bar>v\<bar>" by (rule abs_triangle_ineq)
  also have "\<dots> \<le> 2 ^ i + 2 ^ i" using a(2) b(2) by (rule add_mono)
  finally have "\<bar>u + v\<bar> \<le> 2 ^ Suc i" by simp
  then show ?thesis using assms(3) by (simp add: a b bnd_rnd)
qed

lemma bnd_xneg [simp]: "bnd i (xneg a) = bnd i a"
  by (cases a) simp_all

lemma bnd_xsub: "bnd i a \<Longrightarrow> bnd i b \<Longrightarrow> i < 1023 \<Longrightarrow> bnd (Suc i) (xsub a b)"
  unfolding xsub_def by (rule bnd_xadd) simp_all

lemma pbnd_Flt [simp]: "pbnd j (Flt a) = bnd j a"
  by (simp add: pbnd_def)

lemma pbnd_Cpx [simp]: "pbnd j (Cpx a b) = (bnd j a \<and> bnd j b)"
  by (simp add: pbnd_def)

lemma pbnd_mono: "pbnd i z \<Longrightarrow> i \<le> j \<Longrightarrow> pbnd j z"
  unfolding pbnd_def using bnd_mono by blast

lemma pbnd_flt: "\<bar>c\<bar> \<le> 2 ^ j \<Longrightarrow> j \<le> 1023 \<Longrightarrow> pbnd j (flt c)"
  by (simp add: flt_def bnd_rnd)

lemma pbnd_mul:
  assumes "pbnd i x" "pbnd j y" "i + j < 1023"
  shows "pbnd (Suc (i + j)) (py_mul x y)"
proof -
  have le: "i + j \<le> 1023" using assms(3) by simp
  have bx: "bnd i (re_part x)" "bnd i (im_part x)" using assms(1) by (simp_all add: pbnd_def)
  have "by": "bnd j (re_part y)" "bnd j (im_part y)" using assms(2) by (simp_all add: pbnd_def)
  note m = bnd_xmul [OF _ _ le]
  have re: "bnd (Suc (i + j)) (xsub (xmul (re_part x) (re_part y)) (xmul (im_part x) (im_part y)))"
    using bx "by" assms(3) by (intro bnd_xsub m)
  have im: "bnd (Suc (i + j)) (xadd (xmul (re_part x) (im_part y)) (xmul (im_part x) (re_part y)))"
    using bx "by" assms(3) by (intro bnd_xadd m)
  show ?thesis
  proof (cases x)
    case (Flt a)
    show ?thesis
    proof (cases y)
      case (Flt b)
      have "bnd (i + j) (xmul a b)" using bx "by" \<open>x = Flt a\<close> Flt by (intro m) simp_all
      then show ?thesis using \<open>x = Flt a\<close> Flt by (simp add: bnd_mono)
    next
      case (Cpx b c)
      then show ?thesis using re im \<open>x = Flt a\<close> by simp
    qed
  next
    case (Cpx a b)
    then show ?thesis using re im by simp
  qed
qed

lemma pbnd_add:
  assumes "pbnd i x" "pbnd i y" "i < 1023"
  shows "pbnd (Suc i) (py_add x y)"
proof -
  have bx: "bnd i (re_part x)" "bnd i (im_part x)" using assms(1) by (simp_all add: pbnd_def)
  have "by": "bnd i (re_part y)" "bnd i (im_part y)" using assms(2) by (simp_all add: pbnd_def)
  have re: "bnd (Suc i) (xadd (re_part x) (re_part y))" using bx "by" assms(3) by (intro bnd_xadd)
  have im: "bnd (Suc i) (xadd (im_part x) (im_part y))" using bx "by" assms(3) by (intro bnd_xadd)
  show ?thesis
  proof (cases x)
    case (Flt a)
    then show ?thesis using re im by (cases y) simp_all
  next
    case (Cpx a b)
    then show ?thesis using re im by simp
  qed
qed

text \<open>One step of \<open>poly1d\<close>, and the whole loop.\<close>

lemma pbnd_step:
  assumes "pbnd k y" "pbnd i x" "pbnd m c" "m \<le> k + i + 1" "k + i + 2 \<le> 1023"
  shows "pbnd (k + i + 2) (py_add (py_mul y x) c)"
proof -
  have "pbnd (Suc (k + i)) (py_mul y x)" using assms by (intro pbnd_mul) simp_all
  moreover have "pbnd (Suc (k + i)) c" using assms(3) by (rule pbnd_mono) (use assms(4) in simp)
  ultimately have "pbnd (Suc (Suc (k + i))) (py_add (py_mul y x) c)"
    using assms(5) by (intro pbnd_add) simp_all
  then show ?thesis by simp
qed

lemma pbnd_poly1d:
  assumes x: "pbnd i x"
  shows "list_all (pbnd m) cs \<Longrightarrow> m + length cs * (i + 2) \<le> 1023
    \<Longrightarrow> pbnd (m + length cs * (i + 2)) (poly1d x cs)"
proof (induction cs)
  case Nil
  then show ?case by (simp add: poly1d_Nil)
next
  case (Cons c cs)
  let ?k = "m + length cs * (i + 2)"
  have k: "?k + i + 2 \<le> 1023" using Cons.prems(2) by simp
  then have "?k \<le> 1023" by simp
  with Cons have y: "pbnd ?k (poly1d x cs)" by simp
  have c: "pbnd m c" using Cons.prems(1) by simp
  have "pbnd (?k + i + 2) (py_add (py_mul (poly1d x cs) x) c)"
    using y x c k by (intro pbnd_step [where m = m]) simp_all
  then show ?case by (simp add: poly1d_Cons add.assoc add.commute add.left_commute)
qed

text \<open>Floats stay floats, and a complex operand makes the result complex.\<close>

lemma is_cpx_add [simp]: "is_cpx (py_add x y) = (is_cpx x \<or> is_cpx y)"
  by (cases x; cases y) simp_all

lemma is_cpx_mul [simp]: "is_cpx (py_mul x y) = (is_cpx x \<or> is_cpx y)"
  by (cases x; cases y) simp_all

lemma is_cpx_flt [simp]: "\<not> is_cpx (flt c)"
  by (simp add: flt_def)

lemma is_cpx_poly1d: "is_cpx (poly1d x cs) = (cs \<noteq> [] \<and> (is_cpx x \<or> list_ex is_cpx cs))"
  by (induction cs) (auto simp: poly1d_Nil poly1d_Cons)

lemma is_cpx_tbl [simp]: "\<not> list_ex is_cpx (tbl cs)"
  by (induction cs) (simp_all add: tbl_def)

lemma pbnd_FltE:
  assumes "pbnd j z" "\<not> is_cpx z"
  obtains v where "z = Flt (Fin v)" "\<bar>v\<bar> \<le> 2 ^ j"
  using assms by (cases z) (auto elim: bndE)

lemma pbnd_CpxE:
  assumes "pbnd j z" "is_cpx z"
  obtains a b where "z = Cpx (Fin a) (Fin b)" "\<bar>a\<bar> \<le> 2 ^ j" "\<bar>b\<bar> \<le> 2 ^ j"
  using assms by (cases z) (auto elim!: bndE)

section \<open>Results are floats\<close>

lemma is_float_simps [simp]: "is_float PInf" "is_float NInf" "is_float NaN" "is_float (Fin 0)" "is_float (Fin 1)"
  by (simp_all add: is_float_def)

lemma is_float_rnd [simp]: "is_float (rnd r)"
  by (cases r rule: rnd_cases) (simp_all add: is_float_def)

lemma is_float_inf_signed [simp]: "is_float (inf_signed r)"
  by (simp add: inf_signed_def)

lemma rnd_float: "is_float (Fin v) \<Longrightarrow> rnd v = Fin v"
  by (simp add: is_float_def)

lemma is_float_xadd [simp]: "is_float (xadd a b)"
  by (cases a; cases b) simp_all

lemma is_float_xneg [simp]: "is_float (xneg a) = is_float a"
proof (cases a)
  case (Fin v)
  have "(xneg (rnd v) = Fin (- v)) = (rnd v = Fin v)" by (cases "rnd v") simp_all
  then show ?thesis using Fin by (simp add: is_float_def rnd_minus)
qed simp_all

lemma is_float_xsub [simp]: "is_float (xsub a b)"
  by (simp add: xsub_def)

lemma is_float_xmul [simp]: "is_float (xmul a b)"
  by (cases a; cases b) simp_all

lemma is_float_xdiv [simp]: "is_float (xdiv a b)"
  by (cases a; cases b) simp_all

lemma xadd_zero_float: "is_float c \<Longrightarrow> xadd (Fin 0) c = c"
  by (cases c) (simp_all add: is_float_def)

lemma xdiv_one_float: "is_float a \<Longrightarrow> xdiv a (Fin 1) = a"
  by (cases a) (simp_all add: is_float_def)

lemma py_add_float: "py_add x y = Flt d \<Longrightarrow> is_float d"
  by (cases x; cases y) auto

lemma py_add_complex: "py_add x y = Cpx a b \<Longrightarrow> is_float a \<and> is_float b"
  by (cases x; cases y) auto

lemma poly1d_float: "poly1d x cs = Flt d \<Longrightarrow> cs \<noteq> [] \<Longrightarrow> is_float d"
  by (cases cs) (auto simp: poly1d_Cons dest: py_add_float)

lemma poly1d_complex: "poly1d x cs = Cpx a b \<Longrightarrow> cs \<noteq> [] \<Longrightarrow> is_float a \<and> is_float b"
  by (cases cs) (auto simp: poly1d_Cons dest: py_add_complex)

lemma on_value_InrE:
  assumes "on_value m f = Inr r"
  obtains v where "m = Inr v" "f v = Inr r"
  using assms by (cases m) simp_all

lemma caldens0_float: "caldens0 S T = Inr (Flt d) \<Longrightarrow> is_float d"
  unfolding caldens0_def Let_def by (erule on_value_InrE) (auto dest!: poly1d_float)

lemma caldens0_complex: "caldens0 S T = Inr (Cpx a b) \<Longrightarrow> is_float a \<and> is_float b"
  unfolding caldens0_def Let_def by (erule on_value_InrE) (auto dest!: poly1d_complex)

section \<open>A single coefficient\<close>

text \<open>
  C9, as the spec has it: for every value \<open>x\<close>, including the non-finite ones,
  \<^verbatim>\<open>poly1d(x, (c0,))\<close> returns \<open>c0\<close>. It does not at \<open>x = NaN\<close>: the loop computes
  \<^verbatim>\<open>0.*x + c0\<close>, and \<^verbatim>\<open>0.*nan\<close> is NaN.
\<close>

theorem poly1d_single_nan_counterexample:
  "poly1d (Flt NaN) [flt 1] = Flt NaN \<and> poly1d (Flt NaN) [flt 1] \<noteq> flt 1"
  by (simp add: poly1d_Cons poly1d_Nil)

text \<open>
  C9, amended: for every finite \<open>x\<close> and every float \<open>c0\<close> (finite, infinite or NaN),
  \<^verbatim>\<open>poly1d(x, (c0,))\<close> returns \<open>c0\<close>: the product \<^verbatim>\<open>0.*x\<close> is zero and adding zero
  to a float gives that float back. For \<open>x = NaN\<close> and \<open>x = \<plusminus>inf\<close> it returns NaN.
\<close>

theorem poly1d_single:
  "is_float c \<Longrightarrow>
     poly1d (Flt (Fin x)) [Flt c] = Flt c \<and> poly1d (Flt NaN) [Flt c] = Flt NaN
     \<and> poly1d (Flt PInf) [Flt c] = Flt NaN \<and> poly1d (Flt NInf) [Flt c] = Flt NaN"
  by (simp add: poly1d_Cons poly1d_Nil xadd_zero_float inf_signed_def)

theorem poly1d_single_witness:
  "is_float (Fin 1) \<and> poly1d (Flt (Fin 2)) [Flt (Fin 1)] = Flt (Fin 1)
   \<and> poly1d (Flt NaN) [Flt (Fin 1)] = Flt NaN
   \<and> poly1d (Flt PInf) [Flt (Fin 1)] = Flt NaN \<and> poly1d (Flt NInf) [Flt (Fin 1)] = Flt NaN"
  using poly1d_single [of "Fin 1" 2] by simp

section \<open>The composition of the density\<close>

text \<open>
  C1: for all arguments \<^verbatim>\<open>caldens\<close> is \<^verbatim>\<open>caldens0(S,T) / (1 - pkpa / calseck(S,T,P))\<close> with
  \<^verbatim>\<open>pkpa = P * 0.1\<close>: the two calls in this order, the inner quotient, the difference, the
  outer quotient, every one of them Python's operation, so that an exception of a call or of
  a division is the outcome. When the two calls return finite floats \<open>d\<close> and \<open>k\<close>, \<open>k\<close> is not
  zero and the difference \<open>w\<close> is not zero, the result is the float nearest to \<open>d / w\<close>, where
  \<open>w\<close> is the float nearest to \<open>1 - q\<close> and \<open>q\<close> the float nearest to \<open>pkpa / k\<close>.
\<close>

theorem caldens_composition:
  "caldens S T P =
     on_value (caldens0 S T) (\<lambda>dens0.
     on_value (calseck S T P) (\<lambda>seck.
     on_value (py_div (Flt (xmul P DB2KPA)) seck) (\<lambda>q.
       py_div dens0 (py_sub (flt 1) q))))
   \<and> (caldens0 S T = Inr (Flt (Fin d)) \<and> calseck S T P = Inr (Flt (Fin k))
        \<and> xmul P DB2KPA = Fin pk \<and> k \<noteq> 0 \<and> rnd (pk / k) = Fin q \<and> rnd (1 - q) = Fin w \<and> w \<noteq> 0
      \<longrightarrow> caldens S T P = Inr (Flt (rnd (d / w))))"
  by (simp add: caldens_def Let_def xsub_def)

theorem caldens_composition_witness:
  "caldens0 (Fin 0) (Fin 0) = Inr (Flt (Fin (8794708464389746 / 2 ^ 43)))
   \<and> calseck (Fin 0) (Fin 0) (Fin (5497558138881289 / 2 ^ 40)) = Inr (Flt (Fin (5853095497283248 / 2 ^ 38)))
   \<and> xmul (Fin (5497558138881289 / 2 ^ 40)) DB2KPA = Fin (8796093022210063 / 2 ^ 44)
   \<and> rnd ((8796093022210063 / 2 ^ 44) / (5853095497283248 / 2 ^ 38)) = Fin (6768056539574417 / 2 ^ 58)
   \<and> rnd (1 - (6768056539574417 / 2 ^ 58)) = Fin (8795697487879291 / 2 ^ 53)
   \<and> caldens (Fin 0) (Fin 0) (Fin (5497558138881289 / 2 ^ 40)) =
       Inr (Flt (rnd ((8794708464389746 / 2 ^ 43) / (8795697487879291 / 2 ^ 53))))"
proof -
  note facts = caldens0_0_0 calseck_0_0_P1 pkpa_P1 quot_P1 diff_P1
  note c = caldens_composition [where S = "Fin 0" and T = "Fin 0" and P = "Fin (5497558138881289 / 2 ^ 40)"
      and d = "(8794708464389746 / 2 ^ 43)" and k = "(5853095497283248 / 2 ^ 38)" and pk = "(8796093022210063 / 2 ^ 44)"
      and q = "(6768056539574417 / 2 ^ 58)" and w = "(8795697487879291 / 2 ^ 53)", THEN conjunct2, THEN mp]
  have "caldens (Fin 0) (Fin 0) (Fin (5497558138881289 / 2 ^ 40)) =
      Inr (Flt (rnd ((8794708464389746 / 2 ^ 43) / (8795697487879291 / 2 ^ 53))))"
    by (rule c) (intro conjI; (rule facts | simp))
  then show ?thesis by (simp only: facts simp_thms)
qed

section \<open>The composition of the secant bulk modulus\<close>

text \<open>
  C2: for all arguments \<^verbatim>\<open>calseck\<close> scales the temperature by \<^verbatim>\<open>T68SCL\<close> and the pressure by
  \<^verbatim>\<open>DB2KPA\<close>, evaluates \<^verbatim>\<open>calseck0\<close>, \<^verbatim>\<open>calseck1\<close> and \<^verbatim>\<open>calseck2\<close> at the salinity and the
  scaled temperature, and returns \<^verbatim>\<open>poly1d\<close> of the three at the scaled pressure; an
  exception of \<^verbatim>\<open>calseck0\<close> or \<^verbatim>\<open>calseck1\<close> is the outcome. On three coefficients \<^verbatim>\<open>poly1d\<close>
  is \<open>((0 p + b) p + a) p + k0\<close> in Python's arithmetic, which on finite floats is
  \<open>(b p + a) p + k0\<close> with every product and every sum rounded.
\<close>

theorem calseck_composition:
  "calseck S T P =
     on_value (calseck0 S (xmul T T68SCL)) (\<lambda>k0.
     on_value (calseck1 S (xmul T T68SCL)) (\<lambda>a.
       Inr (poly1d (Flt (xmul P DB2KPA)) [k0, a, calseck2 S (xmul T T68SCL)])))
   \<and> poly1d p [k0, a, b] =
       py_add (py_mul (py_add (py_mul (py_add (py_mul (Flt (Fin 0)) p) b) p) a) p) k0
   \<and> poly1d (Flt (Fin p')) [Flt (Fin k0'), Flt (Fin a'), Flt (rnd b')] =
       Flt (xadd (xmul (xadd (xmul (rnd b') (Fin p')) (Fin a')) (Fin p')) (Fin k0'))"
  by (simp add: calseck_def Let_def poly1d_Cons poly1d_Nil)

section \<open>The singular pressure\<close>

text \<open>
  C4, as the spec has it: where \<open>K(S,T,P)\<close> equals \<open>P_kPa\<close>, \<^verbatim>\<open>caldens\<close> returns an infinity
  and no exception is raised. At salinity 100, temperature 0 and the float pressure
  \<open>1956008.4527665856\<close> decibar the secant bulk modulus is the float \<open>195600.84527665857\<close>,
  which is also the pressure in kilopascal; \<^verbatim>\<open>pkpa/seck\<close> is \<open>1.0\<close>, the divisor
  \<^verbatim>\<open>1 - pkpa/seck\<close> is \<open>0.0\<close>, and Python raises \<^verbatim>\<open>ZeroDivisionError\<close>.
\<close>

theorem caldens_singular_counterexample:
  "calseck (Fin 100) (Fin 0) (Fin (8400992335332046 / 2 ^ 32)) = Inr (Flt (Fin (6720793868265637 / 2 ^ 35)))
   \<and> xmul (Fin (8400992335332046 / 2 ^ 32)) DB2KPA = Fin (6720793868265637 / 2 ^ 35)
   \<and> caldens (Fin 100) (Fin 0) (Fin (8400992335332046 / 2 ^ 32)) = Inl ZeroDivisionError"
  by (simp only: calseck_singular pkpa_singular caldens_singular)

text \<open>
  C4, amended: for every salinity, temperature and pressure at which \<^verbatim>\<open>caldens0\<close> returns
  and the secant bulk modulus is a finite float that is zero or equal to the pressure in
  kilopascal, \<^verbatim>\<open>caldens\<close> raises \<^verbatim>\<open>ZeroDivisionError\<close>; it does not return an infinity.
\<close>

theorem caldens_zero_division:
  "caldens0 S T = Inr d \<Longrightarrow> calseck S T P = Inr (Flt (Fin k)) \<Longrightarrow> k = 0 \<or> xmul P DB2KPA = Fin k
     \<Longrightarrow> caldens S T P = Inl ZeroDivisionError"
  by (auto simp: caldens_def Let_def xsub_def py_div_zero)

theorem caldens_zero_division_witness:
  "caldens0 (Fin 100) (Fin 0) = Inr (Flt (Fin (4756041489376331 / 2 ^ 42)))
   \<and> calseck (Fin 100) (Fin 0) (Fin (8400992335332046 / 2 ^ 32)) = Inr (Flt (Fin (6720793868265637 / 2 ^ 35)))
   \<and> xmul (Fin (8400992335332046 / 2 ^ 32)) DB2KPA = Fin (6720793868265637 / 2 ^ 35)
   \<and> caldens (Fin 100) (Fin 0) (Fin (8400992335332046 / 2 ^ 32)) = Inl ZeroDivisionError"
  using caldens_zero_division [OF caldens0_100_0 calseck_singular disjI2 [OF pkpa_singular]]
  by (simp only: caldens0_100_0 calseck_singular pkpa_singular simp_thms)

section \<open>The check value\<close>

text \<open>
  C6, as the spec has it: \<^verbatim>\<open>caldens(35, 25, 0)\<close> is approximately \<open>1023.343\<close>. The code scales
  the temperature 25 to \<open>25.006\<close> before it evaluates the polynomials, and returns the float
  \<open>1023.3412348427412\<close>, which is not \<open>1023.343\<close> to the three decimals given.
\<close>

theorem caldens_35_25_0_counterexample:
  "\<not> returns_about (caldens (Fin 35) (Fin 25) (Fin 0)) 1023.343 0.0005"
  by (simp add: returns_about_def caldens_35_25_0)

text \<open>C6, amended: \<^verbatim>\<open>caldens(35, 25, 0)\<close> returns a float between \<open>1023.3412\<close> and \<open>1023.3413\<close>.\<close>

theorem caldens_35_25_0_value:
  "returns_about (caldens (Fin 35) (Fin 25) (Fin 0)) 1023.34125 0.00005"
  by (simp add: returns_about_def caldens_35_25_0)

section \<open>Pressure zero\<close>

text \<open>
  C8, as the spec has it: \<^verbatim>\<open>caldens(S, T, 0)\<close> equals \<^verbatim>\<open>caldens0(S, T)\<close> for every \<open>S\<close> and
  \<open>T\<close>. At salinity 0 and the float temperature \<open>-57.94845846582843\<close> the secant bulk
  modulus at pressure 0 is the float \<open>0.0\<close>: \<^verbatim>\<open>caldens0\<close> returns \<open>928.9229253973374\<close>, and
  \<^verbatim>\<open>caldens\<close> raises \<^verbatim>\<open>ZeroDivisionError\<close> at \<^verbatim>\<open>pkpa/seck\<close>.
\<close>

theorem caldens_surface_counterexample:
  "caldens0 (Fin 0) (Fin (- (8155520498543737 / 2 ^ 47))) = Inr (Flt (Fin (8170892462256562 / 2 ^ 43)))
   \<and> calseck (Fin 0) (Fin (- (8155520498543737 / 2 ^ 47))) (Fin 0) = Inr (Flt (Fin 0))
   \<and> caldens (Fin 0) (Fin (- (8155520498543737 / 2 ^ 47))) (Fin 0) = Inl ZeroDivisionError"
  by (simp only: caldens0_cold calseck_cold caldens_cold)

text \<open>
  C8, amended: for every salinity and temperature at which \<^verbatim>\<open>caldens0\<close> returns a float and
  the secant bulk modulus at pressure 0 is a finite float that is not zero,
  \<^verbatim>\<open>caldens(S, T, 0)\<close> returns the float that \<^verbatim>\<open>caldens0(S, T)\<close> returns; where the secant
  bulk modulus at pressure 0 is zero, \<^verbatim>\<open>caldens\<close> raises \<^verbatim>\<open>ZeroDivisionError\<close>.
\<close>

theorem caldens_surface:
  "caldens0 S T = Inr (Flt d) \<Longrightarrow> calseck S T (Fin 0) = Inr (Flt (Fin k)) \<Longrightarrow>
     caldens S T (Fin 0) = (if k = 0 then Inl ZeroDivisionError else Inr (Flt d))"
  by (auto simp: caldens_def Let_def xsub_def DB2KPA_float xdiv_one_float dest: caldens0_float)

theorem caldens_surface_witness:
  "caldens0 (Fin 35) (Fin 25) = Inr (Flt (Fin (9001404695137954 / 2 ^ 43)))
   \<and> calseck (Fin 35) (Fin 25) (Fin 0) = Inr (Flt (Fin (6521925728118850 / 2 ^ 38)))
   \<and> caldens (Fin 35) (Fin 25) (Fin 0) = Inr (Flt (Fin (9001404695137954 / 2 ^ 43)))"
  using caldens_surface [OF caldens0_35_25 calseck_35_25_0]
  by (simp add: caldens0_35_25 calseck_35_25_0)

end
